theory Spec2Isabelle
  imports Main "HOL-Library.Word"
begin

unbundle bit_operations_syntax

section \<open>Data model\<close>

subsection \<open>Registers, expressions, operands, instructions\<close>

text \<open>
  Modelled from the spec: the register enumeration \<^verbatim>\<open>Z80::A\<close>, \<^verbatim>\<open>Z80::B\<close>, ... is declared
  in the generated \<^verbatim>\<open>Z80GenRegisterInfo.inc\<close>. The constructors are the registers of the
  specification's data model; the encoder compares registers by identity only.
\<close>

datatype Register =
    A | B | C | D | E | H | L
  | IXH | IXL | IYH | IYL
  | BC | DE | HL | AF
  | IX | IY | SP

text \<open>
  Modelled from the spec: \<^verbatim>\<open>MCExpr\<close> is declared in \<^verbatim>\<open>llvm/MC/MCExpr.h\<close>. It is an opaque
  handle of which the encoder asks only the syntactic kind, \<^verbatim>\<open>getKind()\<close>, to tell a bare
  symbol reference from any other expression; the second component identifies the
  expression.
\<close>

datatype ExprKind = Binary | Constant | SymbolRef | Unary | Target

datatype MCExpr = MCExpr (getKind: ExprKind) (ident: nat)

text \<open>
  Modelled from the spec: \<^verbatim>\<open>MCOperand\<close> is declared in \<^verbatim>\<open>llvm/MC/MCInst.h\<close>. It is a
  register, a signed 64-bit immediate or an expression. \<open>Invalid\<close> is the kind of an
  operand that was never set; \<open>FPImm\<close> and \<open>Inst\<close> stand for the remaining kinds, none of
  which the encoder asks for.
\<close>

datatype MCOperand =
    Invalid
  | Reg Register
  | Imm "64 word"
  | FPImm
  | Expr MCExpr
  | Inst

definition isReg :: "MCOperand \<Rightarrow> bool" where
  "isReg Op = (case Op of Reg _ \<Rightarrow> True | _ \<Rightarrow> False)"

definition isImm :: "MCOperand \<Rightarrow> bool" where
  "isImm Op = (case Op of Imm _ \<Rightarrow> True | _ \<Rightarrow> False)"

definition isExpr :: "MCOperand \<Rightarrow> bool" where
  "isExpr Op = (case Op of Expr _ \<Rightarrow> True | _ \<Rightarrow> False)"

text \<open>
  The opcodes \<^verbatim>\<open>Z80::ADC8ai\<close>, ... are declared in the generated \<^verbatim>\<open>Z80GenInstrInfo.inc\<close>.
  The constructors are the opcodes that \<^verbatim>\<open>encodeInstruction\<close> names, in the order of its
  \<^verbatim>\<open>case\<close> labels, and \<open>OtherOpcode\<close> stands for every other one.
\<close>

datatype (plugins only:) Opcode =
    JQ | JQCC
  | ADC8ai | ADC8ao | ADC8ap | ADC8ar | ADD16SP | ADD16aa | ADD16ao | ADD8ai
  | ADD8ao | ADD8ap | ADD8ar | AND8ai | AND8ao | AND8ap | AND8ar | BIT8bg
  | BIT8bo | BIT8bp | CALL16 | CALL16CC | CCF | CP8ai | CP8ao | CP8ap
  | CP8ar | CPD16 | CPDR16 | CPI16 | CPIR16 | CPL | DEC16SP | DEC16r
  | DEC8o | DEC8p | DEC8r | DI | EI | EX16DE | EX16SP | EXAF
  | EXX | INC16SP | INC16r | INC8o | INC8p | INC8r | IND16 | INDR16
  | INI16 | INIR16 | JP16r | LD16SP | LD16am | LD16ma | LD16mo | LD16om
  | LD16ri | LD8am | LD8gg | LD8xx | LD8yy | LD8go | LD8gp | LD8ma
  | LD8og | LD8oi | LD8pg | LD8ri | LD8pi | LDD16 | LDDR16 | LDI16
  | LDIR16 | LEA16ro | NEG | NOP | OR8ai | OR8ao | OR8ap | OR8ar
  | OUTD16 | OUTDR16 | OUTI16 | OUTIR16 | POP16AF | POP16r | PUSH16AF | PUSH16r
  | RES8bg | RES8bo | RES8bp | RET16 | RET16CC | RETI16 | RETN16 | RL8o
  | RL8p | RL8r | RLC8o | RLC8p | RLC8r | RR8o | RR8p | RR8r
  | RRC8o | RRC8p | RRC8r | SBC16SP | SBC16aa | SBC16ao | SBC8ai | SBC8ao
  | SBC8ap | SBC8ar | SCF | SET8bg | SET8bo | SET8bp | SLA8o | SLA8p
  | SLA8r | SRA8o | SRA8p | SRA8r | SRL8o | SRL8p | SRL8r | SUB8ai
  | SUB8ao | SUB8ap | SUB8ar | XOR8ai | XOR8ao | XOR8ap | XOR8ar | ADC16SP
  | ADC16aa | ADC16ao | JP16 | JP16CC | JR | JRCC | LD16or | LD16pr
  | LD16ro | LD16rp
  | OtherOpcode nat

type_synonym SMLoc = nat

record MCInst =
  getOpcode :: Opcode
  getOperands :: "MCOperand list"
  getLoc :: SMLoc

text \<open>
  \<^verbatim>\<open>Operands[i]\<close> with \<^verbatim>\<open>Operands = MI.begin()\<close>. Reading past the last operand is
  undefined in C++; the model reads an operand of the kind \<open>Invalid\<close> there, which fails
  every kind test of the encoder.
\<close>

definition Operands :: "MCInst \<Rightarrow> nat \<Rightarrow> MCOperand" where
  "Operands MI i = (if i < length (getOperands MI) then getOperands MI ! i else Invalid)"

text \<open>
  \<^verbatim>\<open>MCInstrDesc\<close>, as far as the encoder reads it: \<^verbatim>\<open>getNumOperands()\<close>, \<^verbatim>\<open>TSFlags\<close> and
  \<^verbatim>\<open>isPseudo()\<close>. The table \<^verbatim>\<open>MCII\<close> of the descriptors and mnemonics is generated
  (\<^verbatim>\<open>Z80GenInstrInfo.inc\<close>), so it is a parameter of the encoder.
\<close>

record MCInstrDesc =
  NumOperands :: nat
  TSFlags :: "64 word"
  isPseudo :: bool

record MCInstrInfo =
  get :: "Opcode \<Rightarrow> MCInstrDesc"
  getName :: "Opcode \<Rightarrow> string"

text \<open>
  What the build fixes, a parameter of the encoder too: the constants \<^verbatim>\<open>Z80II::EZ80Mode\<close>
  and \<^verbatim>\<open>Z80II::ModeMask\<close> (declared in \<^verbatim>\<open>Z80InstrInfo.h\<close>) and the two preprocessor
  switches of the pseudo jumps, both undefined by default.
\<close>

record Z80Build =
  EZ80Mode :: "64 word"
  ModeMask :: "64 word"
  EMIT_JR_INSTEAD_OF_JP :: bool
  EMIT_JRCC_INSTEAD_OF_JPCC :: bool

subsection \<open>Fixups\<close>

text \<open>
  \<^verbatim>\<open>MCFixupKind\<close>: the generic data kinds that the object writer names, the other
  generic kinds (all below \<^verbatim>\<open>FirstTargetFixupKind\<close>), the thirteen kinds of
  \<^verbatim>\<open>Z80FixupKinds.h\<close> in their order, and the values from \<^verbatim>\<open>LastTargetFixupKind\<close> on
  (\<open>FK_Beyond n\<close> is \<^verbatim>\<open>LastTargetFixupKind + n\<close>).
\<close>

datatype MCFixupKind =
    FK_Data_1 | FK_Data_2 | FK_Data_4
  | FK_Generic nat
  | fixup_8 | fixup_8_dis | fixup_8_pcrel | fixup_16 | fixup_24 | fixup_32
  | fixup_byte0 | fixup_byte1 | fixup_byte2 | fixup_byte3
  | fixup_word0 | fixup_word1
  | fixup_16_be
  | FK_Beyond nat

text \<open>
  Modelled from the spec: \<^verbatim>\<open>MCFixup\<close> is declared in \<^verbatim>\<open>llvm/MC/MCFixup.h\<close>. It is the record
  of the offset in the instruction, the expression, the kind and the source location.
\<close>

record MCFixup =
  Offset :: nat
  Value :: MCExpr
  Kind :: MCFixupKind
  Loc :: SMLoc

definition MCFixup_create :: "nat \<Rightarrow> MCExpr \<Rightarrow> MCFixupKind \<Rightarrow> SMLoc \<Rightarrow> MCFixup" where
  "MCFixup_create Offset' Value' Kind' Loc' =
     \<lparr>Offset = Offset', Value = Value', Kind = Kind', Loc = Loc'\<rparr>"

section \<open>The code emitter\<close>

subsection \<open>State, fatal errors, sequencing\<close>

text \<open>
  The byte sink \<^verbatim>\<open>OS\<close>, the fixup sink \<^verbatim>\<open>Fixups\<close> and the local counter \<^verbatim>\<open>CurByte\<close>.
  \<^verbatim>\<open>CurByte\<close> is an \<^verbatim>\<open>unsigned\<close> that starts at 0 and grows by one per byte of one
  instruction, so it never wraps and is a \<open>nat\<close> here.
\<close>

record emitter =
  OS :: "8 word list"
  Fixups :: "MCFixup list"
  CurByte :: nat

text \<open>
  \<^verbatim>\<open>report_fatal_error\<close> ends the process. The model returns the error together with the
  state that was reached, so that what had been written before the error can be stated.
  \<open>AssertionFailed\<close> is a failed \<^verbatim>\<open>assert\<close>, as in an \<^verbatim>\<open>MCOperand\<close> accessor called on an
  operand of another kind; \<open>InvalidFixupKind\<close> is the \<^verbatim>\<open>llvm_unreachable\<close> of the object
  writer.
\<close>

datatype fatal_error =
    InvalidNumArgs string nat nat
  | InstrProblem string string
  | EZ80NotSupported
  | NotSupportedPseudo MCInst
  | NotSupportedInstr string MCInst
  | AssertionFailed string
  | InvalidFixupKind "MCExpr option"

type_synonym emit = "emitter \<Rightarrow> (fatal_error \<times> emitter) + emitter"

definition skip :: emit where
  "skip s = Inr s"

definition report_fatal_error :: "fatal_error \<Rightarrow> emit" where
  "report_fatal_error er s = Inl (er, s)"

text \<open>Statements in sequence; a fatal error ends the sequence.\<close>

fun seq :: "emit list \<Rightarrow> emit" where
  "seq [] s = Inr s"
| "seq (f # fs) s = (case f s of Inl x \<Rightarrow> Inl x | Inr s' \<Rightarrow> seq fs s')"

definition check_num_operands :: "string \<Rightarrow> nat \<Rightarrow> nat \<Rightarrow> emit" where
  "check_num_operands opc expct actual =
     (if expct \<noteq> actual then report_fatal_error (InvalidNumArgs opc expct actual) else skip)"

definition report_fatal_instr_problem :: "string \<Rightarrow> string \<Rightarrow> emit" where
  "report_fatal_instr_problem opc er = report_fatal_error (InstrProblem opc er)"

definition emitByte :: "8 word \<Rightarrow> emit" where
  "emitByte c s = Inr (s\<lparr>OS := OS s @ [c], CurByte := CurByte s + 1\<rparr>)"

definition Fixups_push_back :: "(nat \<Rightarrow> MCFixup) \<Rightarrow> emit" where
  "Fixups_push_back mk s = Inr (s\<lparr>Fixups := Fixups s @ [mk (CurByte s)]\<rparr>)"

text \<open>The accessors of \<^verbatim>\<open>MCOperand\<close>, each with its assertion.\<close>

definition getReg :: "MCOperand \<Rightarrow> (Register \<Rightarrow> emit) \<Rightarrow> emit" where
  "getReg Op k =
     (case Op of Reg r \<Rightarrow> k r
      | _ \<Rightarrow> report_fatal_error (AssertionFailed ''This is not a register operand!''))"

definition getImm :: "MCOperand \<Rightarrow> (64 word \<Rightarrow> emit) \<Rightarrow> emit" where
  "getImm Op k =
     (case Op of Imm i \<Rightarrow> k i
      | _ \<Rightarrow> report_fatal_error (AssertionFailed ''This is not an immediate''))"

definition getExpr :: "MCOperand \<Rightarrow> (MCExpr \<Rightarrow> emit) \<Rightarrow> emit" where
  "getExpr Op k =
     (case Op of Expr e \<Rightarrow> k e
      | _ \<Rightarrow> report_fatal_error (AssertionFailed ''This is not an expression''))"

text \<open>
  The casts of the source: \<^verbatim>\<open>static_cast<uint8_t>\<close> and \<^verbatim>\<open>static_cast<uint16_t>\<close> of an
  \<^verbatim>\<open>int64_t\<close>, and the integral promotion of the result to 32 bits before \<^verbatim>\<open><<\<close>, \<^verbatim>\<open>>>\<close>,
  \<^verbatim>\<open>|\<close>, \<^verbatim>\<open>&\<close> and \<^verbatim>\<open><=\<close>. The argument of \<open>emitByte\<close> is converted back to
  \<^verbatim>\<open>uint8_t\<close>, which is the \<open>ucast\<close> around it.
\<close>

definition uint8_t :: "64 word \<Rightarrow> 8 word" where
  "uint8_t i = ucast i"

definition uint16_t :: "64 word \<Rightarrow> 16 word" where
  "uint16_t i = ucast i"

definition int_of_uint8 :: "8 word \<Rightarrow> 32 word" where
  "int_of_uint8 b = ucast b"

definition int_of_uint16 :: "16 word \<Rightarrow> 32 word" where
  "int_of_uint16 w = ucast w"

subsection \<open>The cases of the opcode switch\<close>

text \<open>
  One definition for each case of \<^verbatim>\<open>switch (opcode)\<close> in \<^verbatim>\<open>encodeInstruction\<close>, in the
  order of the source. \<open>name\<close> is \<^verbatim>\<open>MCII.getName(opcode)\<close> and \<open>numOperands\<close> is
  \<^verbatim>\<open>Desc.getNumOperands()\<close>.
\<close>

text \<open>\<^verbatim>\<open>case Z80::ADC8ai:\<close>\<close>

definition case_ADC8ai :: "string \<Rightarrow> nat \<Rightarrow> MCInst \<Rightarrow> emit" where
  "case_ADC8ai name numOperands MI =
     seq [check_num_operands name 1 numOperands,
          (if \<not> isImm (Operands MI 0)
           then report_fatal_instr_problem name ''Operand should be immediate.''
           else skip),
          emitByte 0xce,
          getImm (Operands MI 0) (\<lambda>i. emitByte (ucast i))]"

text \<open>\<^verbatim>\<open>case Z80::ADC8ao:\<close>\<close>

definition case_ADC8ao :: "string \<Rightarrow> nat \<Rightarrow> MCInst \<Rightarrow> emit" where
  "case_ADC8ao name numOperands MI =
     seq [check_num_operands name 2 numOperands,
          (if \<not> isReg (Operands MI 0)
           then report_fatal_instr_problem name ''First operand should be register.''
           else skip),
          (if \<not> isImm (Operands MI 1)
           then report_fatal_instr_problem name ''Second operand should be immediate.''
           else skip),
          getReg (Operands MI 0) (\<lambda>r0. case r0 of
              IX \<Rightarrow> emitByte 0xdd
            | IY \<Rightarrow> emitByte 0xfd
            | _ \<Rightarrow> report_fatal_instr_problem name ''Allowed registers are IX, IY.''),
          emitByte 0x8e,
          getImm (Operands MI 1) (\<lambda>i. emitByte (ucast i))]"

text \<open>\<^verbatim>\<open>case Z80::ADC8ap:\<close>\<close>

definition case_ADC8ap :: "string \<Rightarrow> nat \<Rightarrow> MCInst \<Rightarrow> emit" where
  "case_ADC8ap name numOperands MI =
     seq [check_num_operands name 1 numOperands,
          (if \<not> isReg (Operands MI 0)
           then report_fatal_instr_problem name ''Operand should be register.''
           else skip),
          getReg (Operands MI 0) (\<lambda>r0. case r0 of
              HL \<Rightarrow> skip
            | _ \<Rightarrow> report_fatal_instr_problem name ''The only allowed register is HL.''),
          emitByte 0x8e]"

text \<open>\<^verbatim>\<open>case Z80::ADC8ar:\<close>\<close>

definition case_ADC8ar :: "string \<Rightarrow> nat \<Rightarrow> MCInst \<Rightarrow> emit" where
  "case_ADC8ar name numOperands MI =
     seq [check_num_operands name 1 numOperands,
          (if \<not> isReg (Operands MI 0)
           then report_fatal_instr_problem name ''Operand should be register.''
           else skip),
          getReg (Operands MI 0) (\<lambda>r0. case r0 of
              A \<Rightarrow> emitByte 0x8f
            | B \<Rightarrow> emitByte 0x88
            | C \<Rightarrow> emitByte 0x89
            | D \<Rightarrow> emitByte 0x8a
            | E \<Rightarrow> emitByte 0x8b
            | H \<Rightarrow> emitByte 0x8c
            | L \<Rightarrow> emitByte 0x8d
            | IXH \<Rightarrow>
                  seq [emitByte 0xe5, emitByte 0xdd, emitByte 0xe5, emitByte 0xe1,
                       emitByte 0x8c, emitByte 0xe1]
            | IXL \<Rightarrow>
                  seq [emitByte 0xe5, emitByte 0xdd, emitByte 0xe5, emitByte 0xe1,
                       emitByte 0x8d, emitByte 0xe1]
            | IYH \<Rightarrow>
                  seq [emitByte 0xe5, emitByte 0xfd, emitByte 0xe5, emitByte 0xe1,
                       emitByte 0x8c, emitByte 0xe1]
            | IYL \<Rightarrow>
                  seq [emitByte 0xe5, emitByte 0xfd, emitByte 0xe5, emitByte 0xe1,
                       emitByte 0x8d, emitByte 0xe1]
            | _ \<Rightarrow> report_fatal_instr_problem name ''Allowed register are A, B, C, D, E, H, L.'')]"

text \<open>\<^verbatim>\<open>case Z80::ADD16SP:\<close>\<close>

definition case_ADD16SP :: "string \<Rightarrow> nat \<Rightarrow> MCInst \<Rightarrow> emit" where
  "case_ADD16SP name numOperands MI =
     seq [check_num_operands name 2 numOperands,
          (if \<not> (isReg (Operands MI 0) \<and> isReg (Operands MI 1))
           then report_fatal_instr_problem name ''Both operands should be registers.''
           else skip),
          getReg (Operands MI 0) (\<lambda>r0.
          getReg (Operands MI 1) (\<lambda>r1.
            if r0 \<noteq> r1
            then report_fatal_instr_problem name ''Both operands should be the same register.''
            else skip)),
          getReg (Operands MI 0) (\<lambda>r0. case r0 of
              HL \<Rightarrow> skip
            | IX \<Rightarrow> emitByte 0xdd
            | IY \<Rightarrow> emitByte 0xfd
            | _ \<Rightarrow> report_fatal_instr_problem name ''Allowed registers are HL, IX, IY.''),
          emitByte 0x39]"

text \<open>\<^verbatim>\<open>case Z80::ADD16aa:\<close>\<close>

definition case_ADD16aa :: "string \<Rightarrow> nat \<Rightarrow> MCInst \<Rightarrow> emit" where
  "case_ADD16aa name numOperands MI =
     seq [check_num_operands name 2 numOperands,
          (if \<not> (isReg (Operands MI 0) \<and> isReg (Operands MI 1))
           then report_fatal_instr_problem name ''Both operands should be registers.''
           else skip),
          getReg (Operands MI 0) (\<lambda>r0.
          getReg (Operands MI 1) (\<lambda>r1.
            if r0 \<noteq> r1
            then report_fatal_instr_problem name ''Both operands should be the same register.''
            else skip)),
          getReg (Operands MI 0) (\<lambda>r0. case r0 of
              HL \<Rightarrow> skip
            | IX \<Rightarrow> emitByte 0xdd
            | IY \<Rightarrow> emitByte 0xfd
            | _ \<Rightarrow> report_fatal_instr_problem name ''Allowed registers are HL, IX, IY.''),
          emitByte 0x29]"

text \<open>\<^verbatim>\<open>case Z80::ADD16ao:\<close>\<close>

definition case_ADD16ao :: "string \<Rightarrow> nat \<Rightarrow> MCInst \<Rightarrow> emit" where
  "case_ADD16ao name numOperands MI =
     seq [check_num_operands name 3 numOperands,
          (if \<not> (isReg (Operands MI 0) \<and> isReg (Operands MI 1) \<and> isReg (Operands MI 2))
           then report_fatal_instr_problem name ''All operands should be registers.''
           else skip),
          getReg (Operands MI 0) (\<lambda>r0.
          getReg (Operands MI 1) (\<lambda>r1.
            if r0 \<noteq> r1
            then report_fatal_instr_problem name ''First two of the operands should be the same register.''
            else skip)),
          getReg (Operands MI 0) (\<lambda>r0. case r0 of
              HL \<Rightarrow> skip
            | IX \<Rightarrow> emitByte 0xdd
            | IY \<Rightarrow> emitByte 0xfd
            | _ \<Rightarrow> report_fatal_instr_problem name ''Allowed first two registers are HL, IX, IY.''),
          getReg (Operands MI 2) (\<lambda>r2. case r2 of
              BC \<Rightarrow> emitByte 0x09
            | DE \<Rightarrow> emitByte 0x19
            | _ \<Rightarrow> report_fatal_instr_problem name ''Allowed last registers are BC, DE.'')]"

text \<open>\<^verbatim>\<open>case Z80::ADD8ai:\<close>\<close>

definition case_ADD8ai :: "string \<Rightarrow> nat \<Rightarrow> MCInst \<Rightarrow> emit" where
  "case_ADD8ai name numOperands MI =
     seq [check_num_operands name 1 numOperands,
          (if \<not> isImm (Operands MI 0)
           then report_fatal_instr_problem name ''Operand should be immediate.''
           else skip),
          emitByte 0xc6,
          getImm (Operands MI 0) (\<lambda>i. emitByte (ucast i))]"

text \<open>\<^verbatim>\<open>case Z80::ADD8ao:\<close>\<close>

definition case_ADD8ao :: "string \<Rightarrow> nat \<Rightarrow> MCInst \<Rightarrow> emit" where
  "case_ADD8ao name numOperands MI =
     seq [check_num_operands name 2 numOperands,
          (if \<not> isReg (Operands MI 0)
           then report_fatal_instr_problem name ''First operand should be register.''
           else skip),
          (if \<not> isImm (Operands MI 1)
           then report_fatal_instr_problem name ''Second operand should be immediate.''
           else skip),
          getReg (Operands MI 0) (\<lambda>r0. case r0 of
              IX \<Rightarrow> emitByte 0xdd
            | IY \<Rightarrow> emitByte 0xfd
            | _ \<Rightarrow> report_fatal_instr_problem name ''Allowed registers are IX, IY.''),
          emitByte 0x86,
          getImm (Operands MI 1) (\<lambda>i. emitByte (ucast i))]"

text \<open>\<^verbatim>\<open>case Z80::ADD8ap:\<close>\<close>

definition case_ADD8ap :: "string \<Rightarrow> nat \<Rightarrow> MCInst \<Rightarrow> emit" where
  "case_ADD8ap name numOperands MI =
     seq [check_num_operands name 1 numOperands,
          (if \<not> isReg (Operands MI 0)
           then report_fatal_instr_problem name ''Operand should be register.''
           else skip),
          getReg (Operands MI 0) (\<lambda>r0. case r0 of
              HL \<Rightarrow> skip
            | _ \<Rightarrow> report_fatal_instr_problem name ''The only allowed register is HL.''),
          emitByte 0x86]"

text \<open>\<^verbatim>\<open>case Z80::ADD8ar:\<close>\<close>

definition case_ADD8ar :: "string \<Rightarrow> nat \<Rightarrow> MCInst \<Rightarrow> emit" where
  "case_ADD8ar name numOperands MI =
     seq [check_num_operands name 1 numOperands,
          (if \<not> isReg (Operands MI 0)
           then report_fatal_instr_problem name ''Operand should be register.''
           else skip),
          getReg (Operands MI 0) (\<lambda>r0. case r0 of
              A \<Rightarrow> emitByte 0x87
            | B \<Rightarrow> emitByte 0x80
            | C \<Rightarrow> emitByte 0x81
            | D \<Rightarrow> emitByte 0x82
            | E \<Rightarrow> emitByte 0x83
            | H \<Rightarrow> emitByte 0x84
            | L \<Rightarrow> emitByte 0x85
            | IXH \<Rightarrow>
                  seq [emitByte 0xe5, emitByte 0xdd, emitByte 0xe5, emitByte 0xe1,
                       emitByte 0x84, emitByte 0xe1]
            | IXL \<Rightarrow>
                  seq [emitByte 0xe5, emitByte 0xdd, emitByte 0xe5, emitByte 0xe1,
                       emitByte 0x85, emitByte 0xe1]
            | IYH \<Rightarrow>
                  seq [emitByte 0xe5, emitByte 0xfd, emitByte 0xe5, emitByte 0xe1,
                       emitByte 0x84, emitByte 0xe1]
            | IYL \<Rightarrow>
                  seq [emitByte 0xe5, emitByte 0xfd, emitByte 0xe5, emitByte 0xe1,
                       emitByte 0x85, emitByte 0xe1]
            | _ \<Rightarrow> report_fatal_instr_problem name ''Allowed register are A, B, C, D, E, H, L.'')]"

text \<open>\<^verbatim>\<open>case Z80::AND8ai:\<close>\<close>

definition case_AND8ai :: "string \<Rightarrow> nat \<Rightarrow> MCInst \<Rightarrow> emit" where
  "case_AND8ai name numOperands MI =
     seq [check_num_operands name 1 numOperands,
          (if \<not> isImm (Operands MI 0)
           then report_fatal_instr_problem name ''Operand should be immediate.''
           else skip),
          emitByte 0xe6,
          getImm (Operands MI 0) (\<lambda>i. emitByte (ucast i))]"

text \<open>\<^verbatim>\<open>case Z80::AND8ao:\<close>\<close>

definition case_AND8ao :: "string \<Rightarrow> nat \<Rightarrow> MCInst \<Rightarrow> emit" where
  "case_AND8ao name numOperands MI =
     seq [check_num_operands name 2 numOperands,
          (if \<not> isReg (Operands MI 0)
           then report_fatal_instr_problem name ''First operand should be register.''
           else skip),
          (if \<not> isImm (Operands MI 1)
           then report_fatal_instr_problem name ''Second operand should be immediate.''
           else skip),
          getReg (Operands MI 0) (\<lambda>r0. case r0 of
              IX \<Rightarrow> emitByte 0xdd
            | IY \<Rightarrow> emitByte 0xfd
            | _ \<Rightarrow> report_fatal_instr_problem name ''Allowed registers are IX, IY.''),
          emitByte 0xa6,
          getImm (Operands MI 1) (\<lambda>i. emitByte (ucast i))]"

text \<open>\<^verbatim>\<open>case Z80::AND8ap:\<close>\<close>

definition case_AND8ap :: "string \<Rightarrow> nat \<Rightarrow> MCInst \<Rightarrow> emit" where
  "case_AND8ap name numOperands MI =
     seq [check_num_operands name 1 numOperands,
          (if \<not> isReg (Operands MI 0)
           then report_fatal_instr_problem name ''Operand should be register.''
           else skip),
          getReg (Operands MI 0) (\<lambda>r0. case r0 of
              HL \<Rightarrow> skip
            | _ \<Rightarrow> report_fatal_instr_problem name ''The only allowed register is HL.''),
          emitByte 0xa6]"

text \<open>\<^verbatim>\<open>case Z80::AND8ar:\<close>\<close>

definition case_AND8ar :: "string \<Rightarrow> nat \<Rightarrow> MCInst \<Rightarrow> emit" where
  "case_AND8ar name numOperands MI =
     seq [check_num_operands name 1 numOperands,
          (if \<not> isReg (Operands MI 0)
           then report_fatal_instr_problem name ''Operand should be register.''
           else skip),
          getReg (Operands MI 0) (\<lambda>r0. case r0 of
              A \<Rightarrow> emitByte 0xa7
            | B \<Rightarrow> emitByte 0xa0
            | C \<Rightarrow> emitByte 0xa1
            | D \<Rightarrow> emitByte 0xa2
            | E \<Rightarrow> emitByte 0xa3
            | H \<Rightarrow> emitByte 0xa4
            | L \<Rightarrow> emitByte 0xa5
            | IXH \<Rightarrow>
                  seq [emitByte 0xe5, emitByte 0xdd, emitByte 0xe5, emitByte 0xe1,
                       emitByte 0xa4, emitByte 0xe1]
            | IXL \<Rightarrow>
                  seq [emitByte 0xe5, emitByte 0xdd, emitByte 0xe5, emitByte 0xe1,
                       emitByte 0xa5, emitByte 0xe1]
            | IYH \<Rightarrow>
                  seq [emitByte 0xe5, emitByte 0xfd, emitByte 0xe5, emitByte 0xe1,
                       emitByte 0xa4, emitByte 0xe1]
            | IYL \<Rightarrow>
                  seq [emitByte 0xe5, emitByte 0xfd, emitByte 0xe5, emitByte 0xe1,
                       emitByte 0xa5, emitByte 0xe1]
            | _ \<Rightarrow> report_fatal_instr_problem name ''Allowed register are A, B, C, D, E, H, L.'')]"

text \<open>\<^verbatim>\<open>case Z80::BIT8bg:\<close>\<close>

definition case_BIT8bg :: "string \<Rightarrow> nat \<Rightarrow> MCInst \<Rightarrow> emit" where
  "case_BIT8bg name numOperands MI =
     seq [check_num_operands name 2 numOperands,
          (if \<not> isImm (Operands MI 0)
           then report_fatal_instr_problem name ''First operand should be immediate.''
           else skip),
          (if \<not> isReg (Operands MI 1)
           then report_fatal_instr_problem name ''Second operand should be register.''
           else skip),
          getImm (Operands MI 0) (\<lambda>i0.
            if 8 \<le> int_of_uint8 (uint8_t i0)
            then report_fatal_instr_problem name ''First operand should be in range 0..7.''
            else skip),
          getReg (Operands MI 1) (\<lambda>r1. case r1 of
              A \<Rightarrow>
                  seq [emitByte 0xcb,
                       getImm (Operands MI 0) (\<lambda>i. emitByte (ucast (push_bit 3 (int_of_uint8 (uint8_t i)) OR 0x47)))]
            | B \<Rightarrow>
                  seq [emitByte 0xcb,
                       getImm (Operands MI 0) (\<lambda>i. emitByte (ucast (push_bit 3 (int_of_uint8 (uint8_t i)) OR 0x40)))]
            | C \<Rightarrow>
                  seq [emitByte 0xcb,
                       getImm (Operands MI 0) (\<lambda>i. emitByte (ucast (push_bit 3 (int_of_uint8 (uint8_t i)) OR 0x41)))]
            | D \<Rightarrow>
                  seq [emitByte 0xcb,
                       getImm (Operands MI 0) (\<lambda>i. emitByte (ucast (push_bit 3 (int_of_uint8 (uint8_t i)) OR 0x42)))]
            | E \<Rightarrow>
                  seq [emitByte 0xcb,
                       getImm (Operands MI 0) (\<lambda>i. emitByte (ucast (push_bit 3 (int_of_uint8 (uint8_t i)) OR 0x43)))]
            | H \<Rightarrow>
                  seq [emitByte 0xcb,
                       getImm (Operands MI 0) (\<lambda>i. emitByte (ucast (push_bit 3 (int_of_uint8 (uint8_t i)) OR 0x44)))]
            | L \<Rightarrow>
                  seq [emitByte 0xcb,
                       getImm (Operands MI 0) (\<lambda>i. emitByte (ucast (push_bit 3 (int_of_uint8 (uint8_t i)) OR 0x45)))]
            | IXH \<Rightarrow>
                  seq [emitByte 0xe5, emitByte 0xdd, emitByte 0xe5, emitByte 0xe1,
                       emitByte 0xcb,
                       getImm (Operands MI 0) (\<lambda>i. emitByte (ucast (push_bit 3 (int_of_uint8 (uint8_t i)) OR 0x44))),
                       emitByte 0xe5, emitByte 0xdd, emitByte 0xe1, emitByte 0xe1]
            | IXL \<Rightarrow>
                  seq [emitByte 0xe5, emitByte 0xdd, emitByte 0xe5, emitByte 0xe1,
                       emitByte 0xcb,
                       getImm (Operands MI 0) (\<lambda>i. emitByte (ucast (push_bit 3 (int_of_uint8 (uint8_t i)) OR 0x45))),
                       emitByte 0xe5, emitByte 0xdd, emitByte 0xe1, emitByte 0xe1]
            | IYH \<Rightarrow>
                  seq [emitByte 0xe5, emitByte 0xfd, emitByte 0xe5, emitByte 0xe1,
                       emitByte 0xcb,
                       getImm (Operands MI 0) (\<lambda>i. emitByte (ucast (push_bit 3 (int_of_uint8 (uint8_t i)) OR 0x44))),
                       emitByte 0xe5, emitByte 0xfd, emitByte 0xe1, emitByte 0xe1]
            | IYL \<Rightarrow>
                  seq [emitByte 0xe5, emitByte 0xfd, emitByte 0xe5, emitByte 0xe1,
                       emitByte 0xcb,
                       getImm (Operands MI 0) (\<lambda>i. emitByte (ucast (push_bit 3 (int_of_uint8 (uint8_t i)) OR 0x45))),
                       emitByte 0xe5, emitByte 0xfd, emitByte 0xe1, emitByte 0xe1]
            | _ \<Rightarrow> report_fatal_instr_problem name ''Allowed register are A, B, C, D, E, H, L.'')]"

text \<open>\<^verbatim>\<open>case Z80::BIT8bo:\<close>\<close>

definition case_BIT8bo :: "string \<Rightarrow> nat \<Rightarrow> MCInst \<Rightarrow> emit" where
  "case_BIT8bo name numOperands MI =
     seq [check_num_operands name 3 numOperands,
          (if \<not> isImm (Operands MI 0)
           then report_fatal_instr_problem name ''First operand should be immediate.''
           else skip),
          (if \<not> isReg (Operands MI 1)
           then report_fatal_instr_problem name ''Second operand should be register.''
           else skip),
          (if \<not> isImm (Operands MI 2)
           then report_fatal_instr_problem name ''Third operand should be immediate.''
           else skip),
          getImm (Operands MI 0) (\<lambda>i0.
            if 8 \<le> int_of_uint8 (uint8_t i0)
            then report_fatal_instr_problem name ''First operand should be in range 0..7.''
            else skip),
          getReg (Operands MI 1) (\<lambda>r1. case r1 of
              IX \<Rightarrow> emitByte 0xdd
            | IY \<Rightarrow> emitByte 0xfd
            | _ \<Rightarrow> report_fatal_instr_problem name ''Allowed registers are IX, IY.''),
          emitByte 0xcb,
          getImm (Operands MI 2) (\<lambda>i. emitByte (ucast i)),
          getImm (Operands MI 0) (\<lambda>i. emitByte (ucast (push_bit 3 (int_of_uint8 (uint8_t i)) OR 0x46)))]"

text \<open>\<^verbatim>\<open>case Z80::BIT8bp:\<close>\<close>

definition case_BIT8bp :: "string \<Rightarrow> nat \<Rightarrow> MCInst \<Rightarrow> emit" where
  "case_BIT8bp name numOperands MI =
     seq [check_num_operands name 2 numOperands,
          (if \<not> isImm (Operands MI 0)
           then report_fatal_instr_problem name ''First operand should be immediate.''
           else skip),
          (if \<not> isReg (Operands MI 1)
           then report_fatal_instr_problem name ''Second operand should be register.''
           else skip),
          getImm (Operands MI 0) (\<lambda>i0.
            if 8 \<le> int_of_uint8 (uint8_t i0)
            then report_fatal_instr_problem name ''First operand should be in range 0..7.''
            else skip),
          getReg (Operands MI 1) (\<lambda>r1. case r1 of
              HL \<Rightarrow> emitByte 0xcb
            | IX \<Rightarrow> seq [emitByte 0xdd, emitByte 0xcb, emitByte 0x00]
            | IY \<Rightarrow> seq [emitByte 0xfd, emitByte 0xcb, emitByte 0x00]
            | _ \<Rightarrow> report_fatal_instr_problem name ''Allowed registers are HL, IX, IY.''),
          getImm (Operands MI 0) (\<lambda>i. emitByte (ucast (push_bit 3 (int_of_uint8 (uint8_t i)) OR 0x46)))]"

text \<open>\<^verbatim>\<open>case Z80::CALL16:\<close>\<close>

definition case_CALL16 :: "string \<Rightarrow> nat \<Rightarrow> MCInst \<Rightarrow> emit" where
  "case_CALL16 name numOperands MI =
     seq [check_num_operands name 1 numOperands,
          emitByte 0xcd,
          (if isExpr (Operands MI 0)
           then seq [getExpr (Operands MI 0) (\<lambda>e.
                       Fixups_push_back (\<lambda>CurByte. MCFixup_create CurByte e fixup_16 (getLoc MI))),
                     emitByte 0x00, emitByte 0x00]
           else (if isImm (Operands MI 0)
                 then seq [getImm (Operands MI 0) (\<lambda>i. emitByte (ucast (drop_bit 0 (int_of_uint16 (uint16_t i)) AND 0xff))),
                           getImm (Operands MI 0) (\<lambda>i. emitByte (ucast (drop_bit 8 (int_of_uint16 (uint16_t i)) AND 0xff)))]
                 else report_fatal_instr_problem name ''Operand should be an expression or immediate.''))]"

text \<open>\<^verbatim>\<open>case Z80::CALL16CC:\<close>\<close>

definition case_CALL16CC :: "string \<Rightarrow> nat \<Rightarrow> MCInst \<Rightarrow> emit" where
  "case_CALL16CC name numOperands MI =
     seq [check_num_operands name 2 numOperands,
          (if \<not> isImm (Operands MI 1)
           then report_fatal_instr_problem name ''Second operand should be immediate.''
           else skip),
          getImm (Operands MI 1) (\<lambda>i1.
            if 8 \<le> int_of_uint8 (uint8_t i1)
            then report_fatal_instr_problem name ''Second operand should be in range 0..7.''
            else skip),
          getImm (Operands MI 1) (\<lambda>i. emitByte (ucast (push_bit 3 (int_of_uint8 (uint8_t i)) OR 0xc4))),
          (if isExpr (Operands MI 0)
           then seq [getExpr (Operands MI 0) (\<lambda>e0.
                       if \<not> SymbolRef = getKind e0
                       then report_fatal_instr_problem name ''Fitst operand expression should be a call target.''
                       else skip),
                     getExpr (Operands MI 0) (\<lambda>e.
                       Fixups_push_back (\<lambda>CurByte. MCFixup_create CurByte e fixup_16 (getLoc MI))),
                     emitByte 0x00, emitByte 0x00]
           else (if isImm (Operands MI 0)
                 then seq [getImm (Operands MI 0) (\<lambda>i. emitByte (ucast (drop_bit 0 (int_of_uint16 (uint16_t i)) AND 0xff))),
                           getImm (Operands MI 0) (\<lambda>i. emitByte (ucast (drop_bit 8 (int_of_uint16 (uint16_t i)) AND 0xff)))]
                 else report_fatal_instr_problem name ''First operand should be an expression or immediate.''))]"

text \<open>\<^verbatim>\<open>case Z80::CCF:\<close>\<close>

definition case_CCF :: "string \<Rightarrow> nat \<Rightarrow> MCInst \<Rightarrow> emit" where
  "case_CCF name numOperands MI =
     seq [check_num_operands name 0 numOperands,
          emitByte 0x3f]"

text \<open>\<^verbatim>\<open>case Z80::CP8ai:\<close>\<close>

definition case_CP8ai :: "string \<Rightarrow> nat \<Rightarrow> MCInst \<Rightarrow> emit" where
  "case_CP8ai name numOperands MI =
     seq [check_num_operands name 1 numOperands,
          (if \<not> isImm (Operands MI 0)
           then report_fatal_instr_problem name ''Operand should be immediate.''
           else skip),
          emitByte 0xfe,
          getImm (Operands MI 0) (\<lambda>i. emitByte (ucast i))]"

text \<open>\<^verbatim>\<open>case Z80::CP8ao:\<close>\<close>

definition case_CP8ao :: "string \<Rightarrow> nat \<Rightarrow> MCInst \<Rightarrow> emit" where
  "case_CP8ao name numOperands MI =
     seq [check_num_operands name 2 numOperands,
          (if \<not> isReg (Operands MI 0)
           then report_fatal_instr_problem name ''First operand should be register.''
           else skip),
          (if \<not> isImm (Operands MI 1)
           then report_fatal_instr_problem name ''Second operand should be immediate.''
           else skip),
          getReg (Operands MI 0) (\<lambda>r0. case r0 of
              IX \<Rightarrow> emitByte 0xdd
            | IY \<Rightarrow> emitByte 0xfd
            | _ \<Rightarrow> report_fatal_instr_problem name ''Allowed registers are IX, IY.''),
          emitByte 0xbe,
          getImm (Operands MI 1) (\<lambda>i. emitByte (ucast i))]"

text \<open>\<^verbatim>\<open>case Z80::CP8ap:\<close>\<close>

definition case_CP8ap :: "string \<Rightarrow> nat \<Rightarrow> MCInst \<Rightarrow> emit" where
  "case_CP8ap name numOperands MI =
     seq [check_num_operands name 1 numOperands,
          (if \<not> isReg (Operands MI 0)
           then report_fatal_instr_problem name ''Operand should be register.''
           else skip),
          getReg (Operands MI 0) (\<lambda>r0. case r0 of
              HL \<Rightarrow> skip
            | _ \<Rightarrow> report_fatal_instr_problem name ''The only allowed register is HL.''),
          emitByte 0xbe]"

text \<open>\<^verbatim>\<open>case Z80::CP8ar:\<close>\<close>

definition case_CP8ar :: "string \<Rightarrow> nat \<Rightarrow> MCInst \<Rightarrow> emit" where
  "case_CP8ar name numOperands MI =
     seq [check_num_operands name 1 numOperands,
          (if \<not> isReg (Operands MI 0)
           then report_fatal_instr_problem name ''Operand should be register.''
           else skip),
          getReg (Operands MI 0) (\<lambda>r0. case r0 of
              A \<Rightarrow> emitByte 0xbf
            | B \<Rightarrow> emitByte 0xb8
            | C \<Rightarrow> emitByte 0xb9
            | D \<Rightarrow> emitByte 0xba
            | E \<Rightarrow> emitByte 0xbb
            | H \<Rightarrow> emitByte 0xbc
            | L \<Rightarrow> emitByte 0xbd
            | IXH \<Rightarrow>
                  seq [emitByte 0xe5, emitByte 0xdd, emitByte 0xe5, emitByte 0xe1,
                       emitByte 0xbc, emitByte 0xe1]
            | IXL \<Rightarrow>
                  seq [emitByte 0xe5, emitByte 0xdd, emitByte 0xe5, emitByte 0xe1,
                       emitByte 0xbd, emitByte 0xe1]
            | IYH \<Rightarrow>
                  seq [emitByte 0xe5, emitByte 0xfd, emitByte 0xe5, emitByte 0xe1,
                       emitByte 0xbc, emitByte 0xe1]
            | IYL \<Rightarrow>
                  seq [emitByte 0xe5, emitByte 0xfd, emitByte 0xe5, emitByte 0xe1,
                       emitByte 0xbd, emitByte 0xe1]
            | _ \<Rightarrow> report_fatal_instr_problem name ''Allowed register are A, B, C, D, E, H, L.'')]"

text \<open>\<^verbatim>\<open>case Z80::CPD16:\<close>\<close>

definition case_CPD16 :: "string \<Rightarrow> nat \<Rightarrow> MCInst \<Rightarrow> emit" where
  "case_CPD16 name numOperands MI =
     seq [check_num_operands name 0 numOperands,
          emitByte 0xed, emitByte 0xa9]"

text \<open>\<^verbatim>\<open>case Z80::CPDR16:\<close>\<close>

definition case_CPDR16 :: "string \<Rightarrow> nat \<Rightarrow> MCInst \<Rightarrow> emit" where
  "case_CPDR16 name numOperands MI =
     seq [check_num_operands name 0 numOperands,
          emitByte 0xed, emitByte 0xb9]"

text \<open>\<^verbatim>\<open>case Z80::CPI16:\<close>\<close>

definition case_CPI16 :: "string \<Rightarrow> nat \<Rightarrow> MCInst \<Rightarrow> emit" where
  "case_CPI16 name numOperands MI =
     seq [check_num_operands name 0 numOperands,
          emitByte 0xed, emitByte 0xa1]"

text \<open>\<^verbatim>\<open>case Z80::CPIR16:\<close>\<close>

definition case_CPIR16 :: "string \<Rightarrow> nat \<Rightarrow> MCInst \<Rightarrow> emit" where
  "case_CPIR16 name numOperands MI =
     seq [check_num_operands name 0 numOperands,
          emitByte 0xed, emitByte 0xb1]"

text \<open>\<^verbatim>\<open>case Z80::CPL:\<close>\<close>

definition case_CPL :: "string \<Rightarrow> nat \<Rightarrow> MCInst \<Rightarrow> emit" where
  "case_CPL name numOperands MI =
     seq [check_num_operands name 0 numOperands,
          emitByte 0x2f]"

text \<open>\<^verbatim>\<open>case Z80::DEC16SP:\<close>\<close>

definition case_DEC16SP :: "string \<Rightarrow> nat \<Rightarrow> MCInst \<Rightarrow> emit" where
  "case_DEC16SP name numOperands MI =
     seq [check_num_operands name 0 numOperands,
          emitByte 0x3b]"

text \<open>\<^verbatim>\<open>case Z80::DEC16r:\<close>\<close>

definition case_DEC16r :: "string \<Rightarrow> nat \<Rightarrow> MCInst \<Rightarrow> emit" where
  "case_DEC16r name numOperands MI =
     seq [(if numOperands = 0
           then report_fatal_instr_problem name ''Operand missing.''
           else skip),
          (if \<not> isReg (Operands MI 0)
           then report_fatal_instr_problem name ''An operand should be an register.''
           else skip),
          getReg (Operands MI 0) (\<lambda>r0. case r0 of
              BC \<Rightarrow> emitByte 0x0b
            | DE \<Rightarrow> emitByte 0x1b
            | HL \<Rightarrow> emitByte 0x2b
            | IX \<Rightarrow> seq [emitByte 0xdd, emitByte 0x2b]
            | IY \<Rightarrow> seq [emitByte 0xfd, emitByte 0x2b]
            | _ \<Rightarrow> report_fatal_instr_problem name ''Allowed registers are BC, DE, HL, IX, IY.'')]"

text \<open>\<^verbatim>\<open>case Z80::DEC8o:\<close>\<close>

definition case_DEC8o :: "string \<Rightarrow> nat \<Rightarrow> MCInst \<Rightarrow> emit" where
  "case_DEC8o name numOperands MI =
     seq [check_num_operands name 2 numOperands,
          (if \<not> isReg (Operands MI 0)
           then report_fatal_instr_problem name ''First operand should be register.''
           else skip),
          (if \<not> isImm (Operands MI 1)
           then report_fatal_instr_problem name ''Second operand should be immediate.''
           else skip),
          getReg (Operands MI 0) (\<lambda>r0. case r0 of
              IX \<Rightarrow> emitByte 0xdd
            | IY \<Rightarrow> emitByte 0xfd
            | _ \<Rightarrow> report_fatal_instr_problem name ''Allowed registers are IX, IY.''),
          emitByte 0x35,
          getImm (Operands MI 1) (\<lambda>i. emitByte (ucast i))]"

text \<open>\<^verbatim>\<open>case Z80::DEC8p:\<close>\<close>

definition case_DEC8p :: "string \<Rightarrow> nat \<Rightarrow> MCInst \<Rightarrow> emit" where
  "case_DEC8p name numOperands MI =
     seq [check_num_operands name 1 numOperands,
          (if \<not> isReg (Operands MI 0)
           then report_fatal_instr_problem name ''Operand should be register.''
           else skip),
          getReg (Operands MI 0) (\<lambda>r0. case r0 of
              HL \<Rightarrow> emitByte 0x35
            | IX \<Rightarrow> seq [emitByte 0xdd, emitByte 0x35, emitByte 0x00]
            | IY \<Rightarrow> seq [emitByte 0xfd, emitByte 0x35, emitByte 0x00]
            | _ \<Rightarrow> report_fatal_instr_problem name ''Allowed registers are HL, IX, IY.'')]"

text \<open>\<^verbatim>\<open>case Z80::DEC8r:\<close>\<close>

definition case_DEC8r :: "string \<Rightarrow> nat \<Rightarrow> MCInst \<Rightarrow> emit" where
  "case_DEC8r name numOperands MI =
     seq [(if numOperands = 0
           then report_fatal_instr_problem name ''Operand missing.''
           else skip),
          (if \<not> isReg (Operands MI 0)
           then report_fatal_instr_problem name ''An operand should be an register.''
           else skip),
          getReg (Operands MI 0) (\<lambda>r0. case r0 of
              A \<Rightarrow> emitByte 0x3d
            | B \<Rightarrow> emitByte 0x05
            | C \<Rightarrow> emitByte 0x0d
            | D \<Rightarrow> emitByte 0x15
            | E \<Rightarrow> emitByte 0x1d
            | H \<Rightarrow> emitByte 0x25
            | L \<Rightarrow> emitByte 0x2d
            | IXH \<Rightarrow>
                  seq [emitByte 0xe5, emitByte 0xdd, emitByte 0xe5, emitByte 0xe1,
                       emitByte 0x25, emitByte 0xe5, emitByte 0xdd, emitByte 0xe1,
                       emitByte 0xe1]
            | IXL \<Rightarrow>
                  seq [emitByte 0xe5, emitByte 0xdd, emitByte 0xe5, emitByte 0xe1,
                       emitByte 0x2d, emitByte 0xe5, emitByte 0xdd, emitByte 0xe1,
                       emitByte 0xe1]
            | IYH \<Rightarrow>
                  seq [emitByte 0xe5, emitByte 0xfd, emitByte 0xe5, emitByte 0xe1,
                       emitByte 0x25, emitByte 0xe5, emitByte 0xfd, emitByte 0xe1,
                       emitByte 0xe1]
            | IYL \<Rightarrow>
                  seq [emitByte 0xe5, emitByte 0xfd, emitByte 0xe5, emitByte 0xe1,
                       emitByte 0x2d, emitByte 0xe5, emitByte 0xfd, emitByte 0xe1,
                       emitByte 0xe1]
            | _ \<Rightarrow> report_fatal_instr_problem name ''Allowed register are A, B, C, D, E, H, L.'')]"

text \<open>\<^verbatim>\<open>case Z80::DI:\<close>\<close>

definition case_DI :: "string \<Rightarrow> nat \<Rightarrow> MCInst \<Rightarrow> emit" where
  "case_DI name numOperands MI =
     seq [check_num_operands name 0 numOperands,
          emitByte 0xf3]"

text \<open>\<^verbatim>\<open>case Z80::EI:\<close>\<close>

definition case_EI :: "string \<Rightarrow> nat \<Rightarrow> MCInst \<Rightarrow> emit" where
  "case_EI name numOperands MI =
     seq [check_num_operands name 0 numOperands,
          emitByte 0xfb]"

text \<open>\<^verbatim>\<open>case Z80::EX16DE:\<close>\<close>

definition case_EX16DE :: "string \<Rightarrow> nat \<Rightarrow> MCInst \<Rightarrow> emit" where
  "case_EX16DE name numOperands MI =
     seq [check_num_operands name 0 numOperands,
          emitByte 0xeb]"

text \<open>\<^verbatim>\<open>case Z80::EX16SP:\<close>\<close>

definition case_EX16SP :: "string \<Rightarrow> nat \<Rightarrow> MCInst \<Rightarrow> emit" where
  "case_EX16SP name numOperands MI =
     seq [check_num_operands name 2 numOperands,
          (if \<not> (isReg (Operands MI 0) \<and> isReg (Operands MI 1))
           then report_fatal_instr_problem name ''Both operands should be registers.''
           else skip),
          getReg (Operands MI 0) (\<lambda>r0.
          getReg (Operands MI 1) (\<lambda>r1.
            if r0 \<noteq> r1
            then report_fatal_instr_problem name ''Both operands should be the same register.''
            else skip)),
          getReg (Operands MI 0) (\<lambda>r0. case r0 of
              HL \<Rightarrow> skip
            | IX \<Rightarrow> emitByte 0xdd
            | IY \<Rightarrow> emitByte 0xfd
            | _ \<Rightarrow> report_fatal_instr_problem name ''Allowed registers are HL, IX, IY.''),
          emitByte 0xe3]"

text \<open>\<^verbatim>\<open>case Z80::EXAF:\<close>\<close>

definition case_EXAF :: "string \<Rightarrow> nat \<Rightarrow> MCInst \<Rightarrow> emit" where
  "case_EXAF name numOperands MI =
     seq [check_num_operands name 0 numOperands,
          emitByte 0x08]"

text \<open>\<^verbatim>\<open>case Z80::EXX:\<close>\<close>

definition case_EXX :: "string \<Rightarrow> nat \<Rightarrow> MCInst \<Rightarrow> emit" where
  "case_EXX name numOperands MI =
     seq [check_num_operands name 0 numOperands,
          emitByte 0xd9]"

text \<open>\<^verbatim>\<open>case Z80::INC16SP:\<close>\<close>

definition case_INC16SP :: "string \<Rightarrow> nat \<Rightarrow> MCInst \<Rightarrow> emit" where
  "case_INC16SP name numOperands MI =
     seq [check_num_operands name 0 numOperands,
          emitByte 0x33]"

text \<open>\<^verbatim>\<open>case Z80::INC16r:\<close>\<close>

definition case_INC16r :: "string \<Rightarrow> nat \<Rightarrow> MCInst \<Rightarrow> emit" where
  "case_INC16r name numOperands MI =
     seq [(if numOperands = 0
           then report_fatal_instr_problem name ''Operand missing.''
           else skip),
          (if \<not> isReg (Operands MI 0)
           then report_fatal_instr_problem name ''An operand should be an register.''
           else skip),
          getReg (Operands MI 0) (\<lambda>r0. case r0 of
              BC \<Rightarrow> emitByte 0x03
            | DE \<Rightarrow> emitByte 0x13
            | HL \<Rightarrow> emitByte 0x23
            | IX \<Rightarrow> seq [emitByte 0xdd, emitByte 0x23]
            | IY \<Rightarrow> seq [emitByte 0xfd, emitByte 0x23]
            | _ \<Rightarrow> report_fatal_instr_problem name ''Allowed registers are BC, DE, HL, IX, IY.'')]"

text \<open>\<^verbatim>\<open>case Z80::INC8o:\<close>\<close>

definition case_INC8o :: "string \<Rightarrow> nat \<Rightarrow> MCInst \<Rightarrow> emit" where
  "case_INC8o name numOperands MI =
     seq [check_num_operands name 2 numOperands,
          (if \<not> isReg (Operands MI 0)
           then report_fatal_instr_problem name ''First operand should be register.''
           else skip),
          (if \<not> isImm (Operands MI 1)
           then report_fatal_instr_problem name ''Second operand should be immediate.''
           else skip),
          getReg (Operands MI 0) (\<lambda>r0. case r0 of
              IX \<Rightarrow> emitByte 0xdd
            | IY \<Rightarrow> emitByte 0xfd
            | _ \<Rightarrow> report_fatal_instr_problem name ''Allowed registers are IX, IY.''),
          emitByte 0x34,
          getImm (Operands MI 1) (\<lambda>i. emitByte (ucast i))]"

text \<open>\<^verbatim>\<open>case Z80::INC8p:\<close>\<close>

definition case_INC8p :: "string \<Rightarrow> nat \<Rightarrow> MCInst \<Rightarrow> emit" where
  "case_INC8p name numOperands MI =
     seq [check_num_operands name 1 numOperands,
          (if \<not> isReg (Operands MI 0)
           then report_fatal_instr_problem name ''Operand should be register.''
           else skip),
          getReg (Operands MI 0) (\<lambda>r0. case r0 of
              HL \<Rightarrow> emitByte 0x34
            | IX \<Rightarrow> seq [emitByte 0xdd, emitByte 0x34, emitByte 0x00]
            | IY \<Rightarrow> seq [emitByte 0xfd, emitByte 0x34, emitByte 0x00]
            | _ \<Rightarrow> report_fatal_instr_problem name ''Allowed registers are HL, IX, IY.'')]"

text \<open>\<^verbatim>\<open>case Z80::INC8r:\<close>\<close>

definition case_INC8r :: "string \<Rightarrow> nat \<Rightarrow> MCInst \<Rightarrow> emit" where
  "case_INC8r name numOperands MI =
     seq [(if numOperands = 0
           then report_fatal_instr_problem name ''Operand missing.''
           else skip),
          (if \<not> isReg (Operands MI 0)
           then report_fatal_instr_problem name ''An operand should be an register.''
           else skip),
          getReg (Operands MI 0) (\<lambda>r0. case r0 of
              A \<Rightarrow> emitByte 0x3c
            | B \<Rightarrow> emitByte 0x04
            | C \<Rightarrow> emitByte 0x0c
            | D \<Rightarrow> emitByte 0x14
            | E \<Rightarrow> emitByte 0x1c
            | H \<Rightarrow> emitByte 0x24
            | L \<Rightarrow> emitByte 0x2c
            | IXH \<Rightarrow>
                  seq [emitByte 0xe5, emitByte 0xdd, emitByte 0xe5, emitByte 0xe1,
                       emitByte 0x24, emitByte 0xe5, emitByte 0xdd, emitByte 0xe1,
                       emitByte 0xe1]
            | IXL \<Rightarrow>
                  seq [emitByte 0xe5, emitByte 0xdd, emitByte 0xe5, emitByte 0xe1,
                       emitByte 0x2c, emitByte 0xe5, emitByte 0xdd, emitByte 0xe1,
                       emitByte 0xe1]
            | IYH \<Rightarrow>
                  seq [emitByte 0xe5, emitByte 0xfd, emitByte 0xe5, emitByte 0xe1,
                       emitByte 0x24, emitByte 0xe5, emitByte 0xfd, emitByte 0xe1,
                       emitByte 0xe1]
            | IYL \<Rightarrow>
                  seq [emitByte 0xe5, emitByte 0xfd, emitByte 0xe5, emitByte 0xe1,
                       emitByte 0x2c, emitByte 0xe5, emitByte 0xfd, emitByte 0xe1,
                       emitByte 0xe1]
            | _ \<Rightarrow> report_fatal_instr_problem name ''Allowed register are A, B, C, D, E, H, L.'')]"

text \<open>\<^verbatim>\<open>case Z80::IND16:\<close>\<close>

definition case_IND16 :: "string \<Rightarrow> nat \<Rightarrow> MCInst \<Rightarrow> emit" where
  "case_IND16 name numOperands MI =
     seq [check_num_operands name 0 numOperands,
          emitByte 0xed, emitByte 0xaa]"

text \<open>\<^verbatim>\<open>case Z80::INDR16:\<close>\<close>

definition case_INDR16 :: "string \<Rightarrow> nat \<Rightarrow> MCInst \<Rightarrow> emit" where
  "case_INDR16 name numOperands MI =
     seq [check_num_operands name 0 numOperands,
          emitByte 0xed, emitByte 0xba]"

text \<open>\<^verbatim>\<open>case Z80::INI16:\<close>\<close>

definition case_INI16 :: "string \<Rightarrow> nat \<Rightarrow> MCInst \<Rightarrow> emit" where
  "case_INI16 name numOperands MI =
     seq [check_num_operands name 0 numOperands,
          emitByte 0xed, emitByte 0xa2]"

text \<open>\<^verbatim>\<open>case Z80::INIR16:\<close>\<close>

definition case_INIR16 :: "string \<Rightarrow> nat \<Rightarrow> MCInst \<Rightarrow> emit" where
  "case_INIR16 name numOperands MI =
     seq [check_num_operands name 0 numOperands,
          emitByte 0xed, emitByte 0xb2]"

text \<open>\<^verbatim>\<open>case Z80::JP16r:\<close>\<close>

definition case_JP16r :: "string \<Rightarrow> nat \<Rightarrow> MCInst \<Rightarrow> emit" where
  "case_JP16r name numOperands MI =
     seq [check_num_operands name 1 numOperands,
          (if \<not> isReg (Operands MI 0)
           then report_fatal_instr_problem name ''Operand should be register.''
           else skip),
          getReg (Operands MI 0) (\<lambda>r0. case r0 of
              HL \<Rightarrow> skip
            | IX \<Rightarrow> emitByte 0xdd
            | IY \<Rightarrow> emitByte 0xfd
            | _ \<Rightarrow> report_fatal_instr_problem name ''Allowed registers are HL, IX, IY.''),
          emitByte 0xe9]"

text \<open>\<^verbatim>\<open>case Z80::LD16SP:\<close>\<close>

definition case_LD16SP :: "string \<Rightarrow> nat \<Rightarrow> MCInst \<Rightarrow> emit" where
  "case_LD16SP name numOperands MI =
     seq [check_num_operands name 1 numOperands,
          (if \<not> isReg (Operands MI 0)
           then report_fatal_instr_problem name ''Operand should be register.''
           else skip),
          getReg (Operands MI 0) (\<lambda>r0. case r0 of
              HL \<Rightarrow> skip
            | IX \<Rightarrow> emitByte 0xdd
            | IY \<Rightarrow> emitByte 0xfd
            | _ \<Rightarrow> report_fatal_instr_problem name ''Allowed registers are HL, IX, IY.''),
          emitByte 0xf9]"

text \<open>\<^verbatim>\<open>case Z80::LD16am:\<close>\<close>

definition case_LD16am :: "string \<Rightarrow> nat \<Rightarrow> MCInst \<Rightarrow> emit" where
  "case_LD16am name numOperands MI =
     seq [check_num_operands name 2 numOperands,
          (if \<not> isReg (Operands MI 0)
           then report_fatal_instr_problem name ''First operand should be register.''
           else skip),
          getReg (Operands MI 0) (\<lambda>r0. case r0 of
              HL \<Rightarrow> skip
            | IX \<Rightarrow> emitByte 0xdd
            | IY \<Rightarrow> emitByte 0xfd
            | _ \<Rightarrow> report_fatal_instr_problem name ''Allowed registers are HL, IX, IY.''),
          emitByte 0x2a,
          (if isExpr (Operands MI 1)
           then seq [getExpr (Operands MI 1) (\<lambda>e.
                       Fixups_push_back (\<lambda>CurByte. MCFixup_create CurByte e fixup_16 (getLoc MI))),
                     emitByte 0x00, emitByte 0x00]
           else (if isImm (Operands MI 1)
                 then seq [getImm (Operands MI 1) (\<lambda>i. emitByte (ucast (drop_bit 0 (int_of_uint16 (uint16_t i)) AND 0xff))),
                           getImm (Operands MI 1) (\<lambda>i. emitByte (ucast (drop_bit 8 (int_of_uint16 (uint16_t i)) AND 0xff)))]
                 else report_fatal_instr_problem name ''Second operand should be an expression or immediate.''))]"

text \<open>\<^verbatim>\<open>case Z80::LD16ma:\<close>\<close>

definition case_LD16ma :: "string \<Rightarrow> nat \<Rightarrow> MCInst \<Rightarrow> emit" where
  "case_LD16ma name numOperands MI =
     seq [check_num_operands name 2 numOperands,
          (if \<not> isReg (Operands MI 1)
           then report_fatal_instr_problem name ''Second operand should be register.''
           else skip),
          getReg (Operands MI 1) (\<lambda>r1. case r1 of
              HL \<Rightarrow> skip
            | IX \<Rightarrow> emitByte 0xdd
            | IY \<Rightarrow> emitByte 0xfd
            | _ \<Rightarrow> report_fatal_instr_problem name ''Allowed registers are HL, IX, IY.''),
          emitByte 0x22,
          (if isExpr (Operands MI 0)
           then seq [getExpr (Operands MI 0) (\<lambda>e.
                       Fixups_push_back (\<lambda>CurByte. MCFixup_create CurByte e fixup_16 (getLoc MI))),
                     emitByte 0x00, emitByte 0x00]
           else (if isImm (Operands MI 0)
                 then seq [getImm (Operands MI 0) (\<lambda>i. emitByte (ucast (drop_bit 0 (int_of_uint16 (uint16_t i)) AND 0xff))),
                           getImm (Operands MI 0) (\<lambda>i. emitByte (ucast (drop_bit 8 (int_of_uint16 (uint16_t i)) AND 0xff)))]
                 else report_fatal_instr_problem name ''First operand should be an expression or immediate.''))]"

text \<open>\<^verbatim>\<open>case Z80::LD16mo:\<close>\<close>

definition case_LD16mo :: "string \<Rightarrow> nat \<Rightarrow> MCInst \<Rightarrow> emit" where
  "case_LD16mo name numOperands MI =
     seq [check_num_operands name 2 numOperands,
          (if \<not> isReg (Operands MI 1)
           then report_fatal_instr_problem name ''Second operand should be register.''
           else skip),
          getReg (Operands MI 1) (\<lambda>r1. case r1 of
              BC \<Rightarrow> seq [emitByte 0xed, emitByte 0x43]
            | DE \<Rightarrow> seq [emitByte 0xed, emitByte 0x53]
            | HL \<Rightarrow> seq [emitByte 0xed, emitByte 0x63]
            | IX \<Rightarrow> seq [emitByte 0xdd, emitByte 0x22]
            | IY \<Rightarrow> seq [emitByte 0xfd, emitByte 0x22]
            | _ \<Rightarrow> report_fatal_instr_problem name ''Allowed registers are BC, DE, HL, IX, IY.''),
          (if isExpr (Operands MI 0)
           then seq [getExpr (Operands MI 0) (\<lambda>e.
                       Fixups_push_back (\<lambda>CurByte. MCFixup_create CurByte e fixup_16 (getLoc MI))),
                     emitByte 0x00, emitByte 0x00]
           else (if isImm (Operands MI 0)
                 then seq [getImm (Operands MI 0) (\<lambda>i. emitByte (ucast (drop_bit 0 (int_of_uint16 (uint16_t i)) AND 0xff))),
                           getImm (Operands MI 0) (\<lambda>i. emitByte (ucast (drop_bit 8 (int_of_uint16 (uint16_t i)) AND 0xff)))]
                 else report_fatal_instr_problem name ''First operand should be an expression or immediate.''))]"

text \<open>\<^verbatim>\<open>case Z80::LD16om:\<close>\<close>

definition case_LD16om :: "string \<Rightarrow> nat \<Rightarrow> MCInst \<Rightarrow> emit" where
  "case_LD16om name numOperands MI =
     seq [check_num_operands name 2 numOperands,
          (if \<not> isReg (Operands MI 0)
           then report_fatal_instr_problem name ''First operand should be register.''
           else skip),
          getReg (Operands MI 0) (\<lambda>r0. case r0 of
              BC \<Rightarrow> seq [emitByte 0xed, emitByte 0x4b]
            | DE \<Rightarrow> seq [emitByte 0xed, emitByte 0x5b]
            | HL \<Rightarrow> seq [emitByte 0xed, emitByte 0x6b]
            | IX \<Rightarrow> seq [emitByte 0xdd, emitByte 0x2a]
            | IY \<Rightarrow> seq [emitByte 0xfd, emitByte 0x2a]
            | _ \<Rightarrow> report_fatal_instr_problem name ''Allowed registers are BC, DE, HL, IX, IY.''),
          (if isExpr (Operands MI 1)
           then seq [getExpr (Operands MI 1) (\<lambda>e.
                       Fixups_push_back (\<lambda>CurByte. MCFixup_create CurByte e fixup_16 (getLoc MI))),
                     emitByte 0x00, emitByte 0x00]
           else (if isImm (Operands MI 1)
                 then seq [getImm (Operands MI 1) (\<lambda>i. emitByte (ucast (drop_bit 0 (int_of_uint16 (uint16_t i)) AND 0xff))),
                           getImm (Operands MI 1) (\<lambda>i. emitByte (ucast (drop_bit 8 (int_of_uint16 (uint16_t i)) AND 0xff)))]
                 else report_fatal_instr_problem name ''Second operand should be an expression or immediate.''))]"

text \<open>\<^verbatim>\<open>case Z80::LD16ri:\<close>\<close>

definition case_LD16ri :: "string \<Rightarrow> nat \<Rightarrow> MCInst \<Rightarrow> emit" where
  "case_LD16ri name numOperands MI =
     seq [check_num_operands name 2 numOperands,
          (if \<not> isReg (Operands MI 0)
           then report_fatal_instr_problem name ''First operand should be register.''
           else skip),
          getReg (Operands MI 0) (\<lambda>r0. case r0 of
              BC \<Rightarrow> emitByte 0x01
            | DE \<Rightarrow> emitByte 0x11
            | HL \<Rightarrow> emitByte 0x21
            | IX \<Rightarrow> seq [emitByte 0xdd, emitByte 0x21]
            | IY \<Rightarrow> seq [emitByte 0xfd, emitByte 0x21]
            | _ \<Rightarrow> report_fatal_instr_problem name ''Allowed registers are BC, DE, HL, IX, IY.''),
          (if isExpr (Operands MI 1)
           then seq [getExpr (Operands MI 1) (\<lambda>e.
                       Fixups_push_back (\<lambda>CurByte. MCFixup_create CurByte e fixup_16 (getLoc MI))),
                     emitByte 0x00, emitByte 0x00]
           else (if isImm (Operands MI 1)
                 then seq [getImm (Operands MI 1) (\<lambda>i. emitByte (ucast (drop_bit 0 (int_of_uint16 (uint16_t i)) AND 0xff))),
                           getImm (Operands MI 1) (\<lambda>i. emitByte (ucast (drop_bit 8 (int_of_uint16 (uint16_t i)) AND 0xff)))]
                 else report_fatal_instr_problem name ''Second operand should be an expression or immediate.''))]"

text \<open>\<^verbatim>\<open>case Z80::LD8am:\<close>\<close>

definition case_LD8am :: "string \<Rightarrow> nat \<Rightarrow> MCInst \<Rightarrow> emit" where
  "case_LD8am name numOperands MI =
     seq [check_num_operands name 1 numOperands,
          emitByte 0x3a,
          (if isExpr (Operands MI 0)
           then seq [getExpr (Operands MI 0) (\<lambda>e.
                       Fixups_push_back (\<lambda>CurByte. MCFixup_create CurByte e fixup_16 (getLoc MI))),
                     emitByte 0x00, emitByte 0x00]
           else (if isImm (Operands MI 0)
                 then seq [getImm (Operands MI 0) (\<lambda>i. emitByte (ucast (drop_bit 0 (int_of_uint16 (uint16_t i)) AND 0xff))),
                           getImm (Operands MI 0) (\<lambda>i. emitByte (ucast (drop_bit 8 (int_of_uint16 (uint16_t i)) AND 0xff)))]
                 else report_fatal_instr_problem name ''Operand should be an expression or immediate.''))]"

text \<open>\<^verbatim>\<open>case Z80::LD8gg:\<close>, \<^verbatim>\<open>case Z80::LD8xx:\<close>, \<^verbatim>\<open>case Z80::LD8yy:\<close>\<close>

definition case_LD8gg :: "string \<Rightarrow> nat \<Rightarrow> MCInst \<Rightarrow> emit" where
  "case_LD8gg name numOperands MI =
     seq [check_num_operands name 2 numOperands,
          (if \<not> (isReg (Operands MI 0) \<and> isReg (Operands MI 1))
           then report_fatal_instr_problem name ''Both operands should be registers.''
           else skip),
          getReg (Operands MI 0) (\<lambda>r0. case r0 of
              A \<Rightarrow>
                  getReg (Operands MI 1) (\<lambda>r1. case r1 of
                      A \<Rightarrow> emitByte 0x7f
                    | B \<Rightarrow> emitByte 0x78
                    | C \<Rightarrow> emitByte 0x79
                    | D \<Rightarrow> emitByte 0x7a
                    | E \<Rightarrow> emitByte 0x7b
                    | H \<Rightarrow> emitByte 0x7c
                    | L \<Rightarrow> emitByte 0x7d
                    | IXH \<Rightarrow>
                          seq [emitByte 0xe5, emitByte 0xdd, emitByte 0xe5, emitByte 0xe1,
                               emitByte 0x7c, emitByte 0xe1]
                    | IXL \<Rightarrow>
                          seq [emitByte 0xe5, emitByte 0xdd, emitByte 0xe5, emitByte 0xe1,
                               emitByte 0x7d, emitByte 0xe1]
                    | IYH \<Rightarrow>
                          seq [emitByte 0xe5, emitByte 0xfd, emitByte 0xe5, emitByte 0xe1,
                               emitByte 0x7c, emitByte 0xe1]
                    | IYL \<Rightarrow>
                          seq [emitByte 0xe5, emitByte 0xfd, emitByte 0xe5, emitByte 0xe1,
                               emitByte 0x7d, emitByte 0xe1]
                    | _ \<Rightarrow> report_fatal_instr_problem name ''Allowed register are A, B, C, D, E, H, L.'')
            | B \<Rightarrow>
                  getReg (Operands MI 1) (\<lambda>r1. case r1 of
                      A \<Rightarrow> emitByte 0x47
                    | B \<Rightarrow> emitByte 0x40
                    | C \<Rightarrow> emitByte 0x41
                    | D \<Rightarrow> emitByte 0x42
                    | E \<Rightarrow> emitByte 0x43
                    | H \<Rightarrow> emitByte 0x44
                    | L \<Rightarrow> emitByte 0x45
                    | IXH \<Rightarrow>
                          seq [emitByte 0xe5, emitByte 0xdd, emitByte 0xe5, emitByte 0xe1,
                               emitByte 0x44, emitByte 0xe1]
                    | IXL \<Rightarrow>
                          seq [emitByte 0xe5, emitByte 0xdd, emitByte 0xe5, emitByte 0xe1,
                               emitByte 0x45, emitByte 0xe1]
                    | IYH \<Rightarrow>
                          seq [emitByte 0xe5, emitByte 0xfd, emitByte 0xe5, emitByte 0xe1,
                               emitByte 0x44, emitByte 0xe1]
                    | IYL \<Rightarrow>
                          seq [emitByte 0xe5, emitByte 0xfd, emitByte 0xe5, emitByte 0xe1,
                               emitByte 0x45, emitByte 0xe1]
                    | _ \<Rightarrow> report_fatal_instr_problem name ''Allowed register are A, B, C, D, E, H, L.'')
            | C \<Rightarrow>
                  getReg (Operands MI 1) (\<lambda>r1. case r1 of
                      A \<Rightarrow> emitByte 0x4f
                    | B \<Rightarrow> emitByte 0x48
                    | C \<Rightarrow> emitByte 0x49
                    | D \<Rightarrow> emitByte 0x4a
                    | E \<Rightarrow> emitByte 0x4b
                    | H \<Rightarrow> emitByte 0x4c
                    | L \<Rightarrow> emitByte 0x4d
                    | IXH \<Rightarrow>
                          seq [emitByte 0xe5, emitByte 0xdd, emitByte 0xe5, emitByte 0xe1,
                               emitByte 0x4c, emitByte 0xe1]
                    | IXL \<Rightarrow>
                          seq [emitByte 0xe5, emitByte 0xdd, emitByte 0xe5, emitByte 0xe1,
                               emitByte 0x4d, emitByte 0xe1]
                    | IYH \<Rightarrow>
                          seq [emitByte 0xe5, emitByte 0xfd, emitByte 0xe5, emitByte 0xe1,
                               emitByte 0x4c, emitByte 0xe1]
                    | IYL \<Rightarrow>
                          seq [emitByte 0xe5, emitByte 0xfd, emitByte 0xe5, emitByte 0xe1,
                               emitByte 0x4d, emitByte 0xe1]
                    | _ \<Rightarrow> report_fatal_instr_problem name ''Allowed register are A, B, C, D, E, H, L.'')
            | D \<Rightarrow>
                  getReg (Operands MI 1) (\<lambda>r1. case r1 of
                      A \<Rightarrow> emitByte 0x57
                    | B \<Rightarrow> emitByte 0x50
                    | C \<Rightarrow> emitByte 0x51
                    | D \<Rightarrow> emitByte 0x52
                    | E \<Rightarrow> emitByte 0x53
                    | H \<Rightarrow> emitByte 0x54
                    | L \<Rightarrow> emitByte 0x55
                    | IXH \<Rightarrow>
                          seq [emitByte 0xe5, emitByte 0xdd, emitByte 0xe5, emitByte 0xe1,
                               emitByte 0x54, emitByte 0xe1]
                    | IXL \<Rightarrow>
                          seq [emitByte 0xe5, emitByte 0xdd, emitByte 0xe5, emitByte 0xe1,
                               emitByte 0x55, emitByte 0xe1]
                    | IYH \<Rightarrow>
                          seq [emitByte 0xe5, emitByte 0xfd, emitByte 0xe5, emitByte 0xe1,
                               emitByte 0x54, emitByte 0xe1]
                    | IYL \<Rightarrow>
                          seq [emitByte 0xe5, emitByte 0xfd, emitByte 0xe5, emitByte 0xe1,
                               emitByte 0x55, emitByte 0xe1]
                    | _ \<Rightarrow> report_fatal_instr_problem name ''Allowed register are A, B, C, D, E, H, L.'')
            | E \<Rightarrow>
                  getReg (Operands MI 1) (\<lambda>r1. case r1 of
                      A \<Rightarrow> emitByte 0x5f
                    | B \<Rightarrow> emitByte 0x58
                    | C \<Rightarrow> emitByte 0x59
                    | D \<Rightarrow> emitByte 0x5a
                    | E \<Rightarrow> emitByte 0x5b
                    | H \<Rightarrow> emitByte 0x5c
                    | L \<Rightarrow> emitByte 0x5d
                    | IXH \<Rightarrow>
                          seq [emitByte 0xe5, emitByte 0xdd, emitByte 0xe5, emitByte 0xe1,
                               emitByte 0x5c, emitByte 0xe1]
                    | IXL \<Rightarrow>
                          seq [emitByte 0xe5, emitByte 0xdd, emitByte 0xe5, emitByte 0xe1,
                               emitByte 0x5d, emitByte 0xe1]
                    | IYH \<Rightarrow>
                          seq [emitByte 0xe5, emitByte 0xfd, emitByte 0xe5, emitByte 0xe1,
                               emitByte 0x5c, emitByte 0xe1]
                    | IYL \<Rightarrow>
                          seq [emitByte 0xe5, emitByte 0xfd, emitByte 0xe5, emitByte 0xe1,
                               emitByte 0x5d, emitByte 0xe1]
                    | _ \<Rightarrow> report_fatal_instr_problem name ''Allowed register are A, B, C, D, E, H, L.'')
            | H \<Rightarrow>
                  getReg (Operands MI 1) (\<lambda>r1. case r1 of
                      A \<Rightarrow> emitByte 0x67
                    | B \<Rightarrow> emitByte 0x60
                    | C \<Rightarrow> emitByte 0x61
                    | D \<Rightarrow> emitByte 0x62
                    | E \<Rightarrow> emitByte 0x63
                    | H \<Rightarrow> emitByte 0x64
                    | L \<Rightarrow> emitByte 0x65
                    | IXH \<Rightarrow>
                          seq [emitByte 0xd5, emitByte 0xdd, emitByte 0xe5, emitByte 0xd1,
                               emitByte 0x62, emitByte 0xd1]
                    | IXL \<Rightarrow>
                          seq [emitByte 0xd5, emitByte 0xdd, emitByte 0xe5, emitByte 0xd1,
                               emitByte 0x63, emitByte 0xd1]
                    | IYH \<Rightarrow>
                          seq [emitByte 0xd5, emitByte 0xfd, emitByte 0xe5, emitByte 0xd1,
                               emitByte 0x62, emitByte 0xd1]
                    | IYL \<Rightarrow>
                          seq [emitByte 0xd5, emitByte 0xfd, emitByte 0xe5, emitByte 0xd1,
                               emitByte 0x63, emitByte 0xd1]
                    | _ \<Rightarrow> report_fatal_instr_problem name ''Allowed register are A, B, C, D, E, H, L.'')
            | L \<Rightarrow>
                  getReg (Operands MI 1) (\<lambda>r1. case r1 of
                      A \<Rightarrow> emitByte 0x6f
                    | B \<Rightarrow> emitByte 0x68
                    | C \<Rightarrow> emitByte 0x69
                    | D \<Rightarrow> emitByte 0x6a
                    | E \<Rightarrow> emitByte 0x6b
                    | H \<Rightarrow> emitByte 0x6c
                    | L \<Rightarrow> emitByte 0x6d
                    | IXH \<Rightarrow>
                          seq [emitByte 0xd5, emitByte 0xdd, emitByte 0xe5, emitByte 0xd1,
                               emitByte 0x6a, emitByte 0xd1]
                    | IXL \<Rightarrow>
                          seq [emitByte 0xd5, emitByte 0xdd, emitByte 0xe5, emitByte 0xd1,
                               emitByte 0x6b, emitByte 0xd1]
                    | IYH \<Rightarrow>
                          seq [emitByte 0xd5, emitByte 0xfd, emitByte 0xe5, emitByte 0xd1,
                               emitByte 0x6a, emitByte 0xd1]
                    | IYL \<Rightarrow>
                          seq [emitByte 0xd5, emitByte 0xfd, emitByte 0xe5, emitByte 0xd1,
                               emitByte 0x6b, emitByte 0xd1]
                    | _ \<Rightarrow> report_fatal_instr_problem name ''Allowed register are A, B, C, D, E, H, L.'')
            | IXH \<Rightarrow>
                  getReg (Operands MI 1) (\<lambda>r1. case r1 of
                      A \<Rightarrow>
                          seq [emitByte 0xe5, emitByte 0xdd, emitByte 0xe5, emitByte 0xe1,
                               emitByte 0x67, emitByte 0xe5, emitByte 0xdd, emitByte 0xe1,
                               emitByte 0xe1]
                    | B \<Rightarrow>
                          seq [emitByte 0xe5, emitByte 0xdd, emitByte 0xe5, emitByte 0xe1,
                               emitByte 0x60, emitByte 0xe5, emitByte 0xdd, emitByte 0xe1,
                               emitByte 0xe1]
                    | C \<Rightarrow>
                          seq [emitByte 0xe5, emitByte 0xdd, emitByte 0xe5, emitByte 0xe1,
                               emitByte 0x61, emitByte 0xe5, emitByte 0xdd, emitByte 0xe1,
                               emitByte 0xe1]
                    | D \<Rightarrow>
                          seq [emitByte 0xe5, emitByte 0xdd, emitByte 0xe5, emitByte 0xe1,
                               emitByte 0x62, emitByte 0xe5, emitByte 0xdd, emitByte 0xe1,
                               emitByte 0xe1]
                    | E \<Rightarrow>
                          seq [emitByte 0xe5, emitByte 0xdd, emitByte 0xe5, emitByte 0xe1,
                               emitByte 0x63, emitByte 0xe5, emitByte 0xdd, emitByte 0xe1,
                               emitByte 0xe1]
                    | H \<Rightarrow>
                          seq [emitByte 0xd5, emitByte 0xdd, emitByte 0xe5, emitByte 0xd1,
                               emitByte 0x54, emitByte 0xd5, emitByte 0xdd, emitByte 0xe1,
                               emitByte 0xd1]
                    | L \<Rightarrow>
                          seq [emitByte 0xd5, emitByte 0xdd, emitByte 0xe5, emitByte 0xd1,
                               emitByte 0x55, emitByte 0xd5, emitByte 0xdd, emitByte 0xe1,
                               emitByte 0xd1]
                    | IXH \<Rightarrow>
                          seq [emitByte 0xe5, emitByte 0xdd, emitByte 0xe5, emitByte 0xe1,
                               emitByte 0x64, emitByte 0xe5, emitByte 0xdd, emitByte 0xe1,
                               emitByte 0xe1]
                    | IXL \<Rightarrow>
                          seq [emitByte 0xe5, emitByte 0xdd, emitByte 0xe5, emitByte 0xe1,
                               emitByte 0x65, emitByte 0xe5, emitByte 0xdd, emitByte 0xe1,
                               emitByte 0xe1]
                    | IYH \<Rightarrow>
                          seq [emitByte 0xe5, emitByte 0xd5, emitByte 0xdd, emitByte 0xe5,
                               emitByte 0xe1, emitByte 0xfd, emitByte 0xe5, emitByte 0xd1,
                               emitByte 0x62, emitByte 0xe5, emitByte 0xdd, emitByte 0xe1,
                               emitByte 0xd1, emitByte 0xe1]
                    | IYL \<Rightarrow>
                          seq [emitByte 0xe5, emitByte 0xd5, emitByte 0xdd, emitByte 0xe5,
                               emitByte 0xe1, emitByte 0xfd, emitByte 0xe5, emitByte 0xd1,
                               emitByte 0x63, emitByte 0xe5, emitByte 0xdd, emitByte 0xe1,
                               emitByte 0xd1, emitByte 0xe1]
                    | _ \<Rightarrow> report_fatal_instr_problem name ''Allowed register are A, B, C, D, E, H, L.'')
            | IXL \<Rightarrow>
                  getReg (Operands MI 1) (\<lambda>r1. case r1 of
                      A \<Rightarrow>
                          seq [emitByte 0xe5, emitByte 0xdd, emitByte 0xe5, emitByte 0xe1,
                               emitByte 0x6f, emitByte 0xe5, emitByte 0xdd, emitByte 0xe1,
                               emitByte 0xe1]
                    | B \<Rightarrow>
                          seq [emitByte 0xe5, emitByte 0xdd, emitByte 0xe5, emitByte 0xe1,
                               emitByte 0x68, emitByte 0xe5, emitByte 0xdd, emitByte 0xe1,
                               emitByte 0xe1]
                    | C \<Rightarrow>
                          seq [emitByte 0xe5, emitByte 0xdd, emitByte 0xe5, emitByte 0xe1,
                               emitByte 0x69, emitByte 0xe5, emitByte 0xdd, emitByte 0xe1,
                               emitByte 0xe1]
                    | D \<Rightarrow>
                          seq [emitByte 0xe5, emitByte 0xdd, emitByte 0xe5, emitByte 0xe1,
                               emitByte 0x6a, emitByte 0xe5, emitByte 0xdd, emitByte 0xe1,
                               emitByte 0xe1]
                    | E \<Rightarrow>
                          seq [emitByte 0xe5, emitByte 0xdd, emitByte 0xe5, emitByte 0xe1,
                               emitByte 0x6b, emitByte 0xe5, emitByte 0xdd, emitByte 0xe1,
                               emitByte 0xe1]
                    | H \<Rightarrow>
                          seq [emitByte 0xd5, emitByte 0xdd, emitByte 0xe5, emitByte 0xd1,
                               emitByte 0x5c, emitByte 0xd5, emitByte 0xdd, emitByte 0xe1,
                               emitByte 0xd1]
                    | L \<Rightarrow>
                          seq [emitByte 0xd5, emitByte 0xdd, emitByte 0xe5, emitByte 0xd1,
                               emitByte 0x5d, emitByte 0xd5, emitByte 0xdd, emitByte 0xe1,
                               emitByte 0xd1]
                    | IXH \<Rightarrow>
                          seq [emitByte 0xe5, emitByte 0xdd, emitByte 0xe5, emitByte 0xe1,
                               emitByte 0x6c, emitByte 0xe5, emitByte 0xdd, emitByte 0xe1,
                               emitByte 0xe1]
                    | IXL \<Rightarrow>
                          seq [emitByte 0xe5, emitByte 0xdd, emitByte 0xe5, emitByte 0xe1,
                               emitByte 0x6d, emitByte 0xe5, emitByte 0xdd, emitByte 0xe1,
                               emitByte 0xe1]
                    | IYH \<Rightarrow>
                          seq [emitByte 0xe5, emitByte 0xd5, emitByte 0xdd, emitByte 0xe5,
                               emitByte 0xe1, emitByte 0xfd, emitByte 0xe5, emitByte 0xd1,
                               emitByte 0x6a, emitByte 0xe5, emitByte 0xdd, emitByte 0xe1,
                               emitByte 0xd1, emitByte 0xe1]
                    | IYL \<Rightarrow>
                          seq [emitByte 0xe5, emitByte 0xd5, emitByte 0xdd, emitByte 0xe5,
                               emitByte 0xe1, emitByte 0xfd, emitByte 0xe5, emitByte 0xd1,
                               emitByte 0x6b, emitByte 0xe5, emitByte 0xdd, emitByte 0xe1,
                               emitByte 0xd1, emitByte 0xe1]
                    | _ \<Rightarrow> report_fatal_instr_problem name ''Allowed register are A, B, C, D, E, H, L.'')
            | IYH \<Rightarrow>
                  getReg (Operands MI 1) (\<lambda>r1. case r1 of
                      A \<Rightarrow>
                          seq [emitByte 0xe5, emitByte 0xfd, emitByte 0xe5, emitByte 0xe1,
                               emitByte 0x67, emitByte 0xe5, emitByte 0xfd, emitByte 0xe1,
                               emitByte 0xe1]
                    | B \<Rightarrow>
                          seq [emitByte 0xe5, emitByte 0xfd, emitByte 0xe5, emitByte 0xe1,
                               emitByte 0x60, emitByte 0xe5, emitByte 0xfd, emitByte 0xe1,
                               emitByte 0xe1]
                    | C \<Rightarrow>
                          seq [emitByte 0xe5, emitByte 0xfd, emitByte 0xe5, emitByte 0xe1,
                               emitByte 0x61, emitByte 0xe5, emitByte 0xfd, emitByte 0xe1,
                               emitByte 0xe1]
                    | D \<Rightarrow>
                          seq [emitByte 0xe5, emitByte 0xfd, emitByte 0xe5, emitByte 0xe1,
                               emitByte 0x62, emitByte 0xe5, emitByte 0xfd, emitByte 0xe1,
                               emitByte 0xe1]
                    | E \<Rightarrow>
                          seq [emitByte 0xe5, emitByte 0xfd, emitByte 0xe5, emitByte 0xe1,
                               emitByte 0x63, emitByte 0xe5, emitByte 0xfd, emitByte 0xe1,
                               emitByte 0xe1]
                    | H \<Rightarrow>
                          seq [emitByte 0xd5, emitByte 0xfd, emitByte 0xe5, emitByte 0xd1,
                               emitByte 0x54, emitByte 0xd5, emitByte 0xfd, emitByte 0xe1,
                               emitByte 0xd1]
                    | L \<Rightarrow>
                          seq [emitByte 0xd5, emitByte 0xfd, emitByte 0xe5, emitByte 0xd1,
                               emitByte 0x55, emitByte 0xd5, emitByte 0xfd, emitByte 0xe1,
                               emitByte 0xd1]
                    | IXH \<Rightarrow>
                          seq [emitByte 0xe5, emitByte 0xd5, emitByte 0xfd, emitByte 0xe5,
                               emitByte 0xe1, emitByte 0xdd, emitByte 0xe5, emitByte 0xd1,
                               emitByte 0x62, emitByte 0xe5, emitByte 0xfd, emitByte 0xe1,
                               emitByte 0xd1, emitByte 0xe1]
                    | IXL \<Rightarrow>
                          seq [emitByte 0xe5, emitByte 0xd5, emitByte 0xfd, emitByte 0xe5,
                               emitByte 0xe1, emitByte 0xdd, emitByte 0xe5, emitByte 0xd1,
                               emitByte 0x63, emitByte 0xe5, emitByte 0xfd, emitByte 0xe1,
                               emitByte 0xd1, emitByte 0xe1]
                    | IYH \<Rightarrow>
                          seq [emitByte 0xe5, emitByte 0xfd, emitByte 0xe5, emitByte 0xe1,
                               emitByte 0x64, emitByte 0xe5, emitByte 0xfd, emitByte 0xe1,
                               emitByte 0xe1]
                    | IYL \<Rightarrow>
                          seq [emitByte 0xe5, emitByte 0xfd, emitByte 0xe5, emitByte 0xe1,
                               emitByte 0x65, emitByte 0xe5, emitByte 0xfd, emitByte 0xe1,
                               emitByte 0xe1]
                    | _ \<Rightarrow> report_fatal_instr_problem name ''Allowed register are A, B, C, D, E, H, L.'')
            | IYL \<Rightarrow>
                  getReg (Operands MI 1) (\<lambda>r1. case r1 of
                      A \<Rightarrow>
                          seq [emitByte 0xe5, emitByte 0xfd, emitByte 0xe5, emitByte 0xe1,
                               emitByte 0x6f, emitByte 0xe5, emitByte 0xfd, emitByte 0xe1,
                               emitByte 0xe1]
                    | B \<Rightarrow>
                          seq [emitByte 0xe5, emitByte 0xfd, emitByte 0xe5, emitByte 0xe1,
                               emitByte 0x68, emitByte 0xe5, emitByte 0xfd, emitByte 0xe1,
                               emitByte 0xe1]
                    | C \<Rightarrow>
                          seq [emitByte 0xe5, emitByte 0xfd, emitByte 0xe5, emitByte 0xe1,
                               emitByte 0x69, emitByte 0xe5, emitByte 0xfd, emitByte 0xe1,
                               emitByte 0xe1]
                    | D \<Rightarrow>
                          seq [emitByte 0xe5, emitByte 0xfd, emitByte 0xe5, emitByte 0xe1,
                               emitByte 0x6a, emitByte 0xe5, emitByte 0xfd, emitByte 0xe1,
                               emitByte 0xe1]
                    | E \<Rightarrow>
                          seq [emitByte 0xe5, emitByte 0xfd, emitByte 0xe5, emitByte 0xe1,
                               emitByte 0x6b, emitByte 0xe5, emitByte 0xfd, emitByte 0xe1,
                               emitByte 0xe1]
                    | H \<Rightarrow>
                          seq [emitByte 0xd5, emitByte 0xfd, emitByte 0xe5, emitByte 0xd1,
                               emitByte 0x5c, emitByte 0xd5, emitByte 0xfd, emitByte 0xe1,
                               emitByte 0xd1]
                    | L \<Rightarrow>
                          seq [emitByte 0xd5, emitByte 0xfd, emitByte 0xe5, emitByte 0xd1,
                               emitByte 0x5d, emitByte 0xd5, emitByte 0xfd, emitByte 0xe1,
                               emitByte 0xd1]
                    | IXH \<Rightarrow>
                          seq [emitByte 0xe5, emitByte 0xd5, emitByte 0xfd, emitByte 0xe5,
                               emitByte 0xe1, emitByte 0xdd, emitByte 0xe5, emitByte 0xd1,
                               emitByte 0x6a, emitByte 0xe5, emitByte 0xfd, emitByte 0xe1,
                               emitByte 0xd1, emitByte 0xe1]
                    | IXL \<Rightarrow>
                          seq [emitByte 0xe5, emitByte 0xd5, emitByte 0xfd, emitByte 0xe5,
                               emitByte 0xe1, emitByte 0xdd, emitByte 0xe5, emitByte 0xd1,
                               emitByte 0x6b, emitByte 0xe5, emitByte 0xfd, emitByte 0xe1,
                               emitByte 0xd1, emitByte 0xe1]
                    | IYH \<Rightarrow>
                          seq [emitByte 0xe5, emitByte 0xfd, emitByte 0xe5, emitByte 0xe1,
                               emitByte 0x6c, emitByte 0xe5, emitByte 0xfd, emitByte 0xe1,
                               emitByte 0xe1]
                    | IYL \<Rightarrow>
                          seq [emitByte 0xe5, emitByte 0xfd, emitByte 0xe5, emitByte 0xe1,
                               emitByte 0x6d, emitByte 0xe5, emitByte 0xfd, emitByte 0xe1,
                               emitByte 0xe1]
                    | _ \<Rightarrow> report_fatal_instr_problem name ''Allowed register are A, B, C, D, E, H, L.'')
            | _ \<Rightarrow> report_fatal_instr_problem name ''Allowed register are A, B, C, D, E, H, L.'')]"

text \<open>\<^verbatim>\<open>case Z80::LD8go:\<close>\<close>

definition case_LD8go :: "string \<Rightarrow> nat \<Rightarrow> MCInst \<Rightarrow> emit" where
  "case_LD8go name numOperands MI =
     seq [check_num_operands name 3 numOperands,
          (if \<not> (isReg (Operands MI 0) \<and> isReg (Operands MI 1))
           then report_fatal_instr_problem name ''First two operands should be registers.''
           else skip),
          (if \<not> isImm (Operands MI 2)
           then report_fatal_instr_problem name ''Third operand should be immediate.''
           else skip),
          getReg (Operands MI 0) (\<lambda>r0. case r0 of
              IXH \<Rightarrow>
                  seq [emitByte 0xe5, emitByte 0xdd, emitByte 0xe5, emitByte 0xe1,
                       getReg (Operands MI 1) (\<lambda>r1. case r1 of
                           IX \<Rightarrow> emitByte 0xdd
                         | IY \<Rightarrow> emitByte 0xfd
                         | _ \<Rightarrow> report_fatal_instr_problem name ''Allowed second operand registers are IX, IY.''),
                       emitByte 0x66,
                       getImm (Operands MI 2) (\<lambda>i. emitByte (ucast i)),
                       emitByte 0xe5, emitByte 0xdd, emitByte 0xe1, emitByte 0xe1]
            | IXL \<Rightarrow>
                  seq [emitByte 0xe5, emitByte 0xdd, emitByte 0xe5, emitByte 0xe1,
                       getReg (Operands MI 1) (\<lambda>r1. case r1 of
                           IX \<Rightarrow> emitByte 0xdd
                         | IY \<Rightarrow> emitByte 0xfd
                         | _ \<Rightarrow> report_fatal_instr_problem name ''Allowed second operand registers are IX, IY.''),
                       emitByte 0x6e,
                       getImm (Operands MI 2) (\<lambda>i. emitByte (ucast i)),
                       emitByte 0xe5, emitByte 0xdd, emitByte 0xe1, emitByte 0xe1]
            | IYH \<Rightarrow>
                  seq [emitByte 0xe5, emitByte 0xfd, emitByte 0xe5, emitByte 0xe1,
                       getReg (Operands MI 1) (\<lambda>r1. case r1 of
                           IX \<Rightarrow> emitByte 0xdd
                         | IY \<Rightarrow> emitByte 0xfd
                         | _ \<Rightarrow> report_fatal_instr_problem name ''Allowed second operand registers are IX, IY.''),
                       emitByte 0x66,
                       getImm (Operands MI 2) (\<lambda>i. emitByte (ucast i)),
                       emitByte 0xe5, emitByte 0xfd, emitByte 0xe1, emitByte 0xe1]
            | IYL \<Rightarrow>
                  seq [emitByte 0xe5, emitByte 0xfd, emitByte 0xe5, emitByte 0xe1,
                       getReg (Operands MI 1) (\<lambda>r1. case r1 of
                           IX \<Rightarrow> emitByte 0xdd
                         | IY \<Rightarrow> emitByte 0xfd
                         | _ \<Rightarrow> report_fatal_instr_problem name ''Allowed second operand registers are IX, IY.''),
                       emitByte 0x6e,
                       getImm (Operands MI 2) (\<lambda>i. emitByte (ucast i)),
                       emitByte 0xe5, emitByte 0xfd, emitByte 0xe1, emitByte 0xe1]
            | _ \<Rightarrow>
                  seq [getReg (Operands MI 1) (\<lambda>r1. case r1 of
                           IX \<Rightarrow> emitByte 0xdd
                         | IY \<Rightarrow> emitByte 0xfd
                         | _ \<Rightarrow> report_fatal_instr_problem name ''Allowed second operand registers are IX, IY.''),
                       getReg (Operands MI 0) (\<lambda>r0. case r0 of
                           A \<Rightarrow> emitByte 0x7e
                         | B \<Rightarrow> emitByte 0x46
                         | C \<Rightarrow> emitByte 0x4e
                         | D \<Rightarrow> emitByte 0x56
                         | E \<Rightarrow> emitByte 0x5e
                         | H \<Rightarrow> emitByte 0x66
                         | L \<Rightarrow> emitByte 0x6e
                         | _ \<Rightarrow> report_fatal_instr_problem name ''Allowed first operand registers are A, B, C, D, E, H, L.''),
                       getImm (Operands MI 2) (\<lambda>i. emitByte (ucast i))])]"

text \<open>\<^verbatim>\<open>case Z80::LD8gp:\<close>\<close>

definition case_LD8gp :: "string \<Rightarrow> nat \<Rightarrow> MCInst \<Rightarrow> emit" where
  "case_LD8gp name numOperands MI =
     seq [check_num_operands name 2 numOperands,
          (if \<not> (isReg (Operands MI 0) \<and> isReg (Operands MI 1))
           then report_fatal_instr_problem name ''Both operands should be registers.''
           else skip),
          getReg (Operands MI 1) (\<lambda>r1. case r1 of
              HL \<Rightarrow>
                  getReg (Operands MI 0) (\<lambda>r0. case r0 of
                      A \<Rightarrow> emitByte 0x7e
                    | B \<Rightarrow> emitByte 0x46
                    | C \<Rightarrow> emitByte 0x4e
                    | D \<Rightarrow> emitByte 0x56
                    | E \<Rightarrow> emitByte 0x5e
                    | H \<Rightarrow> emitByte 0x66
                    | L \<Rightarrow> emitByte 0x6e
                    | IXH \<Rightarrow>
                          seq [emitByte 0xd5, emitByte 0xdd, emitByte 0xe5, emitByte 0xd1,
                               emitByte 0x56, emitByte 0xd5, emitByte 0xdd, emitByte 0xe1,
                               emitByte 0xd1]
                    | IXL \<Rightarrow>
                          seq [emitByte 0xd5, emitByte 0xdd, emitByte 0xe5, emitByte 0xd1,
                               emitByte 0x5e, emitByte 0xd5, emitByte 0xdd, emitByte 0xe1,
                               emitByte 0xd1]
                    | IYH \<Rightarrow>
                          seq [emitByte 0xd5, emitByte 0xfd, emitByte 0xe5, emitByte 0xd1,
                               emitByte 0x56, emitByte 0xd5, emitByte 0xfd, emitByte 0xe1,
                               emitByte 0xd1]
                    | IYL \<Rightarrow>
                          seq [emitByte 0xd5, emitByte 0xfd, emitByte 0xe5, emitByte 0xd1,
                               emitByte 0x5e, emitByte 0xd5, emitByte 0xfd, emitByte 0xe1,
                               emitByte 0xd1]
                    | _ \<Rightarrow> report_fatal_instr_problem name ''Allowed first operand registers are A, B, C, D, E, H, L.'')
            | IX \<Rightarrow>
                  getReg (Operands MI 0) (\<lambda>r0. case r0 of
                      A \<Rightarrow> seq [emitByte 0xdd, emitByte 0x7e, emitByte 0x00]
                    | B \<Rightarrow> seq [emitByte 0xdd, emitByte 0x46, emitByte 0x00]
                    | C \<Rightarrow> seq [emitByte 0xdd, emitByte 0x4e, emitByte 0x00]
                    | D \<Rightarrow> seq [emitByte 0xdd, emitByte 0x56, emitByte 0x00]
                    | E \<Rightarrow> seq [emitByte 0xdd, emitByte 0x5e, emitByte 0x00]
                    | H \<Rightarrow> seq [emitByte 0xdd, emitByte 0x66, emitByte 0x00]
                    | L \<Rightarrow> seq [emitByte 0xdd, emitByte 0x6e, emitByte 0x00]
                    | IXH \<Rightarrow>
                          seq [emitByte 0xd5, emitByte 0xdd, emitByte 0xe5, emitByte 0xd1,
                               emitByte 0xdd, emitByte 0x56, emitByte 0x00, emitByte 0xd5,
                               emitByte 0xdd, emitByte 0xe1, emitByte 0xd1]
                    | IXL \<Rightarrow>
                          seq [emitByte 0xd5, emitByte 0xdd, emitByte 0xe5, emitByte 0xd1,
                               emitByte 0xdd, emitByte 0x5e, emitByte 0x00, emitByte 0xd5,
                               emitByte 0xdd, emitByte 0xe1, emitByte 0xd1]
                    | IYH \<Rightarrow>
                          seq [emitByte 0xd5, emitByte 0xfd, emitByte 0xe5, emitByte 0xd1,
                               emitByte 0xdd, emitByte 0x56, emitByte 0x00, emitByte 0xd5,
                               emitByte 0xfd, emitByte 0xe1, emitByte 0xd1]
                    | IYL \<Rightarrow>
                          seq [emitByte 0xd5, emitByte 0xfd, emitByte 0xe5, emitByte 0xd1,
                               emitByte 0xdd, emitByte 0x5e, emitByte 0x00, emitByte 0xd5,
                               emitByte 0xfd, emitByte 0xe1, emitByte 0xd1]
                    | _ \<Rightarrow> report_fatal_instr_problem name ''Allowed first operand registers are A, B, C, D, E, H, L.'')
            | IY \<Rightarrow>
                  getReg (Operands MI 0) (\<lambda>r0. case r0 of
                      A \<Rightarrow> seq [emitByte 0xfd, emitByte 0x7e, emitByte 0x00]
                    | B \<Rightarrow> seq [emitByte 0xfd, emitByte 0x46, emitByte 0x00]
                    | C \<Rightarrow> seq [emitByte 0xfd, emitByte 0x4e, emitByte 0x00]
                    | D \<Rightarrow> seq [emitByte 0xfd, emitByte 0x56, emitByte 0x00]
                    | E \<Rightarrow> seq [emitByte 0xfd, emitByte 0x5e, emitByte 0x00]
                    | H \<Rightarrow> seq [emitByte 0xfd, emitByte 0x66, emitByte 0x00]
                    | L \<Rightarrow> seq [emitByte 0xfd, emitByte 0x6e, emitByte 0x00]
                    | IXH \<Rightarrow>
                          seq [emitByte 0xd5, emitByte 0xdd, emitByte 0xe5, emitByte 0xd1,
                               emitByte 0xfd, emitByte 0x56, emitByte 0x00, emitByte 0xd5,
                               emitByte 0xdd, emitByte 0xe1, emitByte 0xd1]
                    | IXL \<Rightarrow>
                          seq [emitByte 0xd5, emitByte 0xdd, emitByte 0xe5, emitByte 0xd1,
                               emitByte 0xfd, emitByte 0x5e, emitByte 0x00, emitByte 0xd5,
                               emitByte 0xdd, emitByte 0xe1, emitByte 0xd1]
                    | IYH \<Rightarrow>
                          seq [emitByte 0xd5, emitByte 0xfd, emitByte 0xe5, emitByte 0xd1,
                               emitByte 0xfd, emitByte 0x56, emitByte 0x00, emitByte 0xd5,
                               emitByte 0xfd, emitByte 0xe1, emitByte 0xd1]
                    | IYL \<Rightarrow>
                          seq [emitByte 0xd5, emitByte 0xfd, emitByte 0xe5, emitByte 0xd1,
                               emitByte 0xfd, emitByte 0x5e, emitByte 0x00, emitByte 0xd5,
                               emitByte 0xfd, emitByte 0xe1, emitByte 0xd1]
                    | _ \<Rightarrow> report_fatal_instr_problem name ''Allowed first operand registers are A, B, C, D, E, H, L.'')
            | _ \<Rightarrow> report_fatal_instr_problem name ''Allowed registers are HL, IX, IY.'')]"

text \<open>\<^verbatim>\<open>case Z80::LD8ma:\<close>\<close>

definition case_LD8ma :: "string \<Rightarrow> nat \<Rightarrow> MCInst \<Rightarrow> emit" where
  "case_LD8ma name numOperands MI =
     seq [check_num_operands name 1 numOperands,
          emitByte 0x32,
          (if isExpr (Operands MI 0)
           then seq [getExpr (Operands MI 0) (\<lambda>e.
                       Fixups_push_back (\<lambda>CurByte. MCFixup_create CurByte e fixup_16 (getLoc MI))),
                     emitByte 0x00, emitByte 0x00]
           else (if isImm (Operands MI 0)
                 then seq [getImm (Operands MI 0) (\<lambda>i. emitByte (ucast (drop_bit 0 (int_of_uint16 (uint16_t i)) AND 0xff))),
                           getImm (Operands MI 0) (\<lambda>i. emitByte (ucast (drop_bit 8 (int_of_uint16 (uint16_t i)) AND 0xff)))]
                 else report_fatal_instr_problem name ''Operand should be an expression or immediate.''))]"

text \<open>\<^verbatim>\<open>case Z80::LD8og:\<close>\<close>

definition case_LD8og :: "string \<Rightarrow> nat \<Rightarrow> MCInst \<Rightarrow> emit" where
  "case_LD8og name numOperands MI =
     seq [check_num_operands name 3 numOperands,
          (if \<not> (isReg (Operands MI 0) \<and> isReg (Operands MI 2))
           then report_fatal_instr_problem name ''First and third operand should be registers.''
           else skip),
          (if \<not> isImm (Operands MI 1)
           then report_fatal_instr_problem name ''Second operand should be immediate.''
           else skip),
          getReg (Operands MI 2) (\<lambda>r2. case r2 of
              IXH \<Rightarrow>
                  seq [emitByte 0xe5, emitByte 0xdd, emitByte 0xe5, emitByte 0xe1,
                       getReg (Operands MI 0) (\<lambda>r0. case r0 of
                           IX \<Rightarrow> emitByte 0xdd
                         | IY \<Rightarrow> emitByte 0xfd
                         | _ \<Rightarrow> report_fatal_instr_problem name ''Allowed first operand registers are IX, IY.''),
                       emitByte 0x74,
                       getImm (Operands MI 1) (\<lambda>i. emitByte (ucast i)),
                       emitByte 0xe5, emitByte 0xdd, emitByte 0xe1, emitByte 0xe1]
            | IXL \<Rightarrow>
                  seq [emitByte 0xe5, emitByte 0xdd, emitByte 0xe5, emitByte 0xe1,
                       getReg (Operands MI 0) (\<lambda>r0. case r0 of
                           IX \<Rightarrow> emitByte 0xdd
                         | IY \<Rightarrow> emitByte 0xfd
                         | _ \<Rightarrow> report_fatal_instr_problem name ''Allowed first operand registers are IX, IY.''),
                       emitByte 0x75,
                       getImm (Operands MI 1) (\<lambda>i. emitByte (ucast i)),
                       emitByte 0xe5, emitByte 0xdd, emitByte 0xe1, emitByte 0xe1]
            | IYH \<Rightarrow>
                  seq [emitByte 0xe5, emitByte 0xfd, emitByte 0xe5, emitByte 0xe1,
                       getReg (Operands MI 0) (\<lambda>r0. case r0 of
                           IX \<Rightarrow> emitByte 0xdd
                         | IY \<Rightarrow> emitByte 0xfd
                         | _ \<Rightarrow> report_fatal_instr_problem name ''Allowed first operand registers are IX, IY.''),
                       emitByte 0x74,
                       getImm (Operands MI 1) (\<lambda>i. emitByte (ucast i)),
                       emitByte 0xe5, emitByte 0xfd, emitByte 0xe1, emitByte 0xe1]
            | IYL \<Rightarrow>
                  seq [emitByte 0xe5, emitByte 0xfd, emitByte 0xe5, emitByte 0xe1,
                       getReg (Operands MI 0) (\<lambda>r0. case r0 of
                           IX \<Rightarrow> emitByte 0xdd
                         | IY \<Rightarrow> emitByte 0xfd
                         | _ \<Rightarrow> report_fatal_instr_problem name ''Allowed first operand registers are IX, IY.''),
                       emitByte 0x75,
                       getImm (Operands MI 1) (\<lambda>i. emitByte (ucast i)),
                       emitByte 0xe5, emitByte 0xfd, emitByte 0xe1, emitByte 0xe1]
            | _ \<Rightarrow>
                  seq [getReg (Operands MI 0) (\<lambda>r0. case r0 of
                           IX \<Rightarrow> emitByte 0xdd
                         | IY \<Rightarrow> emitByte 0xfd
                         | _ \<Rightarrow> report_fatal_instr_problem name ''Allowed first operand registers are IX, IY.''),
                       getReg (Operands MI 2) (\<lambda>r2. case r2 of
                           A \<Rightarrow> emitByte 0x77
                         | B \<Rightarrow> emitByte 0x70
                         | C \<Rightarrow> emitByte 0x71
                         | D \<Rightarrow> emitByte 0x72
                         | E \<Rightarrow> emitByte 0x73
                         | H \<Rightarrow> emitByte 0x74
                         | L \<Rightarrow> emitByte 0x75
                         | _ \<Rightarrow> report_fatal_instr_problem name ''Allowed third operand registers are A, B, C, D, E, H, L.''),
                       getImm (Operands MI 1) (\<lambda>i. emitByte (ucast i))])]"

text \<open>\<^verbatim>\<open>case Z80::LD8oi:\<close>\<close>

definition case_LD8oi :: "string \<Rightarrow> nat \<Rightarrow> MCInst \<Rightarrow> emit" where
  "case_LD8oi name numOperands MI =
     seq [check_num_operands name 3 numOperands,
          (if \<not> isReg (Operands MI 0)
           then report_fatal_instr_problem name ''First operand should be register.''
           else skip),
          (if \<not> (isImm (Operands MI 1) \<and> isImm (Operands MI 2))
           then report_fatal_instr_problem name ''Second and third  operand should be immediate.''
           else skip),
          getReg (Operands MI 0) (\<lambda>r0. case r0 of
              IX \<Rightarrow> emitByte 0xdd
            | IY \<Rightarrow> emitByte 0xfd
            | _ \<Rightarrow> report_fatal_instr_problem name ''Allowed registers are IX, IY.''),
          emitByte 0x36,
          getImm (Operands MI 1) (\<lambda>i. emitByte (ucast i)),
          getImm (Operands MI 2) (\<lambda>i. emitByte (ucast i))]"

text \<open>\<^verbatim>\<open>case Z80::LD8pg:\<close>\<close>

definition case_LD8pg :: "string \<Rightarrow> nat \<Rightarrow> MCInst \<Rightarrow> emit" where
  "case_LD8pg name numOperands MI =
     seq [check_num_operands name 2 numOperands,
          (if \<not> (isReg (Operands MI 0) \<and> isReg (Operands MI 1))
           then report_fatal_instr_problem name ''Both operands should be registers.''
           else skip),
          getReg (Operands MI 0) (\<lambda>r0. case r0 of
              HL \<Rightarrow>
                  getReg (Operands MI 1) (\<lambda>r1. case r1 of
                      A \<Rightarrow> emitByte 0x77
                    | B \<Rightarrow> emitByte 0x70
                    | C \<Rightarrow> emitByte 0x71
                    | D \<Rightarrow> emitByte 0x72
                    | E \<Rightarrow> emitByte 0x73
                    | H \<Rightarrow> emitByte 0x74
                    | L \<Rightarrow> emitByte 0x75
                    | IXH \<Rightarrow>
                          seq [emitByte 0xd5, emitByte 0xdd, emitByte 0xe5, emitByte 0xd1,
                               emitByte 0x72, emitByte 0xd1]
                    | IXL \<Rightarrow>
                          seq [emitByte 0xd5, emitByte 0xdd, emitByte 0xe5, emitByte 0xd1,
                               emitByte 0x73, emitByte 0xd1]
                    | IYH \<Rightarrow>
                          seq [emitByte 0xd5, emitByte 0xfd, emitByte 0xe5, emitByte 0xd1,
                               emitByte 0x72, emitByte 0xd1]
                    | IYL \<Rightarrow>
                          seq [emitByte 0xd5, emitByte 0xfd, emitByte 0xe5, emitByte 0xd1,
                               emitByte 0x73, emitByte 0xd1]
                    | _ \<Rightarrow> report_fatal_instr_problem name ''Allowed first operand registers are A, B, C, D, E, H, L.'')
            | IX \<Rightarrow>
                  getReg (Operands MI 1) (\<lambda>r1. case r1 of
                      A \<Rightarrow> seq [emitByte 0xdd, emitByte 0x77, emitByte 0x00]
                    | B \<Rightarrow> seq [emitByte 0xdd, emitByte 0x70, emitByte 0x00]
                    | C \<Rightarrow> seq [emitByte 0xdd, emitByte 0x71, emitByte 0x00]
                    | D \<Rightarrow> seq [emitByte 0xdd, emitByte 0x72, emitByte 0x00]
                    | E \<Rightarrow> seq [emitByte 0xdd, emitByte 0x73, emitByte 0x00]
                    | H \<Rightarrow> seq [emitByte 0xdd, emitByte 0x74, emitByte 0x00]
                    | L \<Rightarrow> seq [emitByte 0xdd, emitByte 0x75, emitByte 0x00]
                    | IXH \<Rightarrow>
                          seq [emitByte 0xd5, emitByte 0xdd, emitByte 0xe5, emitByte 0xd1,
                               emitByte 0xdd, emitByte 0x72, emitByte 0x00, emitByte 0xd1]
                    | IXL \<Rightarrow>
                          seq [emitByte 0xd5, emitByte 0xdd, emitByte 0xe5, emitByte 0xd1,
                               emitByte 0xdd, emitByte 0x73, emitByte 0x00, emitByte 0xd1]
                    | IYH \<Rightarrow>
                          seq [emitByte 0xd5, emitByte 0xfd, emitByte 0xe5, emitByte 0xd1,
                               emitByte 0xdd, emitByte 0x72, emitByte 0x00, emitByte 0xd1]
                    | IYL \<Rightarrow>
                          seq [emitByte 0xd5, emitByte 0xfd, emitByte 0xe5, emitByte 0xd1,
                               emitByte 0xdd, emitByte 0x73, emitByte 0x00, emitByte 0xd1]
                    | _ \<Rightarrow> report_fatal_instr_problem name ''Allowed first operand registers are A, B, C, D, E, H, L.'')
            | IY \<Rightarrow>
                  getReg (Operands MI 1) (\<lambda>r1. case r1 of
                      A \<Rightarrow> seq [emitByte 0xfd, emitByte 0x77, emitByte 0x00]
                    | B \<Rightarrow> seq [emitByte 0xfd, emitByte 0x70, emitByte 0x00]
                    | C \<Rightarrow> seq [emitByte 0xfd, emitByte 0x71, emitByte 0x00]
                    | D \<Rightarrow> seq [emitByte 0xfd, emitByte 0x72, emitByte 0x00]
                    | E \<Rightarrow> seq [emitByte 0xfd, emitByte 0x73, emitByte 0x00]
                    | H \<Rightarrow> seq [emitByte 0xfd, emitByte 0x74, emitByte 0x00]
                    | L \<Rightarrow> seq [emitByte 0xfd, emitByte 0x75, emitByte 0x00]
                    | IXH \<Rightarrow>
                          seq [emitByte 0xd5, emitByte 0xdd, emitByte 0xe5, emitByte 0xd1,
                               emitByte 0xfd, emitByte 0x72, emitByte 0x00, emitByte 0xd1]
                    | IXL \<Rightarrow>
                          seq [emitByte 0xd5, emitByte 0xdd, emitByte 0xe5, emitByte 0xd1,
                               emitByte 0xfd, emitByte 0x73, emitByte 0x00, emitByte 0xd1]
                    | IYH \<Rightarrow>
                          seq [emitByte 0xd5, emitByte 0xfd, emitByte 0xe5, emitByte 0xd1,
                               emitByte 0xfd, emitByte 0x72, emitByte 0x00, emitByte 0xd1]
                    | IYL \<Rightarrow>
                          seq [emitByte 0xd5, emitByte 0xfd, emitByte 0xe5, emitByte 0xd1,
                               emitByte 0xfd, emitByte 0x73, emitByte 0x00, emitByte 0xd1]
                    | _ \<Rightarrow> report_fatal_instr_problem name ''Allowed first operand registers are A, B, C, D, E, H, L.'')
            | _ \<Rightarrow> report_fatal_instr_problem name ''Allowed registers are HL, IX, IY.'')]"

text \<open>\<^verbatim>\<open>case Z80::LD8ri:\<close>\<close>

definition case_LD8ri :: "string \<Rightarrow> nat \<Rightarrow> MCInst \<Rightarrow> emit" where
  "case_LD8ri name numOperands MI =
     seq [check_num_operands name 2 numOperands,
          (if \<not> isReg (Operands MI 0)
           then report_fatal_instr_problem name ''First operand should be register.''
           else skip),
          (if \<not> isImm (Operands MI 1)
           then report_fatal_instr_problem name ''Second operand should be immediate.''
           else skip),
          getReg (Operands MI 0) (\<lambda>r0. case r0 of
              A \<Rightarrow>
                  seq [emitByte 0x3e,
                       getImm (Operands MI 1) (\<lambda>i. emitByte (ucast i))]
            | B \<Rightarrow>
                  seq [emitByte 0x06,
                       getImm (Operands MI 1) (\<lambda>i. emitByte (ucast i))]
            | C \<Rightarrow>
                  seq [emitByte 0x0e,
                       getImm (Operands MI 1) (\<lambda>i. emitByte (ucast i))]
            | D \<Rightarrow>
                  seq [emitByte 0x16,
                       getImm (Operands MI 1) (\<lambda>i. emitByte (ucast i))]
            | E \<Rightarrow>
                  seq [emitByte 0x1e,
                       getImm (Operands MI 1) (\<lambda>i. emitByte (ucast i))]
            | H \<Rightarrow>
                  seq [emitByte 0x26,
                       getImm (Operands MI 1) (\<lambda>i. emitByte (ucast i))]
            | L \<Rightarrow>
                  seq [emitByte 0x2e,
                       getImm (Operands MI 1) (\<lambda>i. emitByte (ucast i))]
            | IXH \<Rightarrow>
                  seq [emitByte 0xe5, emitByte 0xdd, emitByte 0xe5, emitByte 0xe1,
                       emitByte 0x26,
                       getImm (Operands MI 1) (\<lambda>i. emitByte (ucast i)),
                       emitByte 0xe5, emitByte 0xdd, emitByte 0xe1, emitByte 0xe1]
            | IXL \<Rightarrow>
                  seq [emitByte 0xe5, emitByte 0xdd, emitByte 0xe5, emitByte 0xe1,
                       emitByte 0x2e,
                       getImm (Operands MI 1) (\<lambda>i. emitByte (ucast i)),
                       emitByte 0xe5, emitByte 0xdd, emitByte 0xe1, emitByte 0xe1]
            | IYH \<Rightarrow>
                  seq [emitByte 0xe5, emitByte 0xfd, emitByte 0xe5, emitByte 0xe1,
                       emitByte 0x26,
                       getImm (Operands MI 1) (\<lambda>i. emitByte (ucast i)),
                       emitByte 0xe5, emitByte 0xfd, emitByte 0xe1, emitByte 0xe1]
            | IYL \<Rightarrow>
                  seq [emitByte 0xe5, emitByte 0xfd, emitByte 0xe5, emitByte 0xe1,
                       emitByte 0x2e,
                       getImm (Operands MI 1) (\<lambda>i. emitByte (ucast i)),
                       emitByte 0xe5, emitByte 0xfd, emitByte 0xe1, emitByte 0xe1]
            | _ \<Rightarrow> report_fatal_instr_problem name ''Allowed first operand registers are A, B, C, D, E, H, L.'')]"

text \<open>\<^verbatim>\<open>case Z80::LD8pi:\<close>\<close>

definition case_LD8pi :: "string \<Rightarrow> nat \<Rightarrow> MCInst \<Rightarrow> emit" where
  "case_LD8pi name numOperands MI =
     seq [check_num_operands name 2 numOperands,
          (if \<not> isReg (Operands MI 0)
           then report_fatal_instr_problem name ''First operand should be register.''
           else skip),
          (if \<not> isImm (Operands MI 1)
           then report_fatal_instr_problem name ''Second operand should be immediate.''
           else skip),
          getReg (Operands MI 0) (\<lambda>r0. case r0 of
              HL \<Rightarrow> emitByte 0x36
            | IX \<Rightarrow> seq [emitByte 0xdd, emitByte 0x36, emitByte 0x00]
            | IY \<Rightarrow> seq [emitByte 0xfd, emitByte 0x36, emitByte 0x00]
            | _ \<Rightarrow> report_fatal_instr_problem name ''Allowed registers are HL, IX, IY.''),
          getImm (Operands MI 1) (\<lambda>i. emitByte (ucast i))]"

text \<open>\<^verbatim>\<open>case Z80::LDD16:\<close>\<close>

definition case_LDD16 :: "string \<Rightarrow> nat \<Rightarrow> MCInst \<Rightarrow> emit" where
  "case_LDD16 name numOperands MI =
     seq [check_num_operands name 0 numOperands,
          emitByte 0xed, emitByte 0xa8]"

text \<open>\<^verbatim>\<open>case Z80::LDDR16:\<close>\<close>

definition case_LDDR16 :: "string \<Rightarrow> nat \<Rightarrow> MCInst \<Rightarrow> emit" where
  "case_LDDR16 name numOperands MI =
     seq [check_num_operands name 0 numOperands,
          emitByte 0xed, emitByte 0xb8]"

text \<open>\<^verbatim>\<open>case Z80::LDI16:\<close>\<close>

definition case_LDI16 :: "string \<Rightarrow> nat \<Rightarrow> MCInst \<Rightarrow> emit" where
  "case_LDI16 name numOperands MI =
     seq [check_num_operands name 0 numOperands,
          emitByte 0xed, emitByte 0xa0]"

text \<open>\<^verbatim>\<open>case Z80::LDIR16:\<close>\<close>

definition case_LDIR16 :: "string \<Rightarrow> nat \<Rightarrow> MCInst \<Rightarrow> emit" where
  "case_LDIR16 name numOperands MI =
     seq [check_num_operands name 0 numOperands,
          emitByte 0xed, emitByte 0xb0]"

text \<open>\<^verbatim>\<open>case Z80::LEA16ro:\<close>\<close>

definition case_LEA16ro :: "string \<Rightarrow> nat \<Rightarrow> MCInst \<Rightarrow> emit" where
  "case_LEA16ro name numOperands MI =
     seq [check_num_operands name 3 numOperands,
          (if \<not> (isReg (Operands MI 0) \<and> isReg (Operands MI 1))
           then report_fatal_instr_problem name ''First two operands should be registers.''
           else skip),
          (if \<not> isImm (Operands MI 2)
           then report_fatal_instr_problem name ''Third operand should be immediate.''
           else skip),
          emitByte 0xf5,
          getReg (Operands MI 0) (\<lambda>r0.
            if BC \<noteq> r0 then emitByte 0xc5 else skip),
          emitByte 0x06, emitByte 0x00, emitByte 0x0e,
          getImm (Operands MI 2) (\<lambda>i. emitByte (ucast i)),
          getReg (Operands MI 1) (\<lambda>r1. case r1 of
              IX \<Rightarrow>
                  seq [getReg (Operands MI 0) (\<lambda>r0.
                       getReg (Operands MI 1) (\<lambda>r1.
                         if r0 \<noteq> r1 then seq [emitByte 0xdd, emitByte 0xe5] else skip)),
                       emitByte 0xdd, emitByte 0x09,
                       getReg (Operands MI 0) (\<lambda>r0.
                       getReg (Operands MI 1) (\<lambda>r1.
                         if r0 \<noteq> r1 then seq [emitByte 0xdd, emitByte 0xe5] else skip))]
            | IY \<Rightarrow>
                  seq [getReg (Operands MI 0) (\<lambda>r0.
                       getReg (Operands MI 1) (\<lambda>r1.
                         if r0 \<noteq> r1 then seq [emitByte 0xfd, emitByte 0xe5] else skip)),
                       emitByte 0xfd, emitByte 0x09,
                       getReg (Operands MI 0) (\<lambda>r0.
                       getReg (Operands MI 1) (\<lambda>r1.
                         if r0 \<noteq> r1 then seq [emitByte 0xfd, emitByte 0xe5] else skip))]
            | _ \<Rightarrow> report_fatal_instr_problem name ''Allowed registers in the second operand are IX, IY.''),
          getReg (Operands MI 0) (\<lambda>r0.
          getReg (Operands MI 1) (\<lambda>r1.
            if r0 \<noteq> r1
            then seq [getReg (Operands MI 0) (\<lambda>r0. case r0 of
                          BC \<Rightarrow> emitByte 0xc1
                        | DE \<Rightarrow> emitByte 0xd1
                        | HL \<Rightarrow> emitByte 0xe1
                        | IX \<Rightarrow> seq [emitByte 0xdd, emitByte 0xe1]
                        | IY \<Rightarrow> seq [emitByte 0xfd, emitByte 0xe1]
                        | _ \<Rightarrow> report_fatal_instr_problem name ''Allowed registers in the first operand are BC, DE, HL, IX, IY.''),
                      getReg (Operands MI 1) (\<lambda>r1. case r1 of
                          IX \<Rightarrow> seq [emitByte 0xdd, emitByte 0xe1]
                        | IY \<Rightarrow> seq [emitByte 0xfd, emitByte 0xe1]
                        | _ \<Rightarrow> report_fatal_instr_problem name ''Allowed registers in the second operand are IX, IY.'')]
            else skip)),
          getReg (Operands MI 0) (\<lambda>r0.
            if BC \<noteq> r0 then emitByte 0xc1 else skip),
          emitByte 0xf1]"

text \<open>\<^verbatim>\<open>case Z80::NEG:\<close>\<close>

definition case_NEG :: "string \<Rightarrow> nat \<Rightarrow> MCInst \<Rightarrow> emit" where
  "case_NEG name numOperands MI =
     seq [check_num_operands name 0 numOperands,
          emitByte 0xed, emitByte 0x44]"

text \<open>\<^verbatim>\<open>case Z80::NOP:\<close>\<close>

definition case_NOP :: "string \<Rightarrow> nat \<Rightarrow> MCInst \<Rightarrow> emit" where
  "case_NOP name numOperands MI =
     seq [check_num_operands name 0 numOperands,
          emitByte 0x00]"

text \<open>\<^verbatim>\<open>case Z80::OR8ai:\<close>\<close>

definition case_OR8ai :: "string \<Rightarrow> nat \<Rightarrow> MCInst \<Rightarrow> emit" where
  "case_OR8ai name numOperands MI =
     seq [check_num_operands name 1 numOperands,
          (if \<not> isImm (Operands MI 0)
           then report_fatal_instr_problem name ''Operand should be immediate.''
           else skip),
          emitByte 0xf6,
          getImm (Operands MI 0) (\<lambda>i. emitByte (ucast i))]"

text \<open>\<^verbatim>\<open>case Z80::OR8ao:\<close>\<close>

definition case_OR8ao :: "string \<Rightarrow> nat \<Rightarrow> MCInst \<Rightarrow> emit" where
  "case_OR8ao name numOperands MI =
     seq [check_num_operands name 2 numOperands,
          (if \<not> isReg (Operands MI 0)
           then report_fatal_instr_problem name ''First operand should be register.''
           else skip),
          (if \<not> isImm (Operands MI 1)
           then report_fatal_instr_problem name ''Second operand should be immediate.''
           else skip),
          getReg (Operands MI 0) (\<lambda>r0. case r0 of
              IX \<Rightarrow> emitByte 0xdd
            | IY \<Rightarrow> emitByte 0xfd
            | _ \<Rightarrow> report_fatal_instr_problem name ''Allowed registers are IX, IY.''),
          emitByte 0xb6,
          getImm (Operands MI 1) (\<lambda>i. emitByte (ucast i))]"

text \<open>\<^verbatim>\<open>case Z80::OR8ap:\<close>\<close>

definition case_OR8ap :: "string \<Rightarrow> nat \<Rightarrow> MCInst \<Rightarrow> emit" where
  "case_OR8ap name numOperands MI =
     seq [check_num_operands name 1 numOperands,
          (if \<not> isReg (Operands MI 0)
           then report_fatal_instr_problem name ''Operand should be register.''
           else skip),
          getReg (Operands MI 0) (\<lambda>r0. case r0 of
              HL \<Rightarrow> skip
            | _ \<Rightarrow> report_fatal_instr_problem name ''The only allowed register is HL.''),
          emitByte 0xb6]"

text \<open>\<^verbatim>\<open>case Z80::OR8ar:\<close>\<close>

definition case_OR8ar :: "string \<Rightarrow> nat \<Rightarrow> MCInst \<Rightarrow> emit" where
  "case_OR8ar name numOperands MI =
     seq [check_num_operands name 1 numOperands,
          (if \<not> isReg (Operands MI 0)
           then report_fatal_instr_problem name ''Operand should be register.''
           else skip),
          getReg (Operands MI 0) (\<lambda>r0. case r0 of
              A \<Rightarrow> emitByte 0xb7
            | B \<Rightarrow> emitByte 0xb0
            | C \<Rightarrow> emitByte 0xb1
            | D \<Rightarrow> emitByte 0xb2
            | E \<Rightarrow> emitByte 0xb3
            | H \<Rightarrow> emitByte 0xb4
            | L \<Rightarrow> emitByte 0xb5
            | IXH \<Rightarrow>
                  seq [emitByte 0xe5, emitByte 0xdd, emitByte 0xe5, emitByte 0xe1,
                       emitByte 0xb4, emitByte 0xe1]
            | IXL \<Rightarrow>
                  seq [emitByte 0xe5, emitByte 0xdd, emitByte 0xe5, emitByte 0xe1,
                       emitByte 0xb5, emitByte 0xe1]
            | IYH \<Rightarrow>
                  seq [emitByte 0xe5, emitByte 0xfd, emitByte 0xe5, emitByte 0xe1,
                       emitByte 0xb4, emitByte 0xe1]
            | IYL \<Rightarrow>
                  seq [emitByte 0xe5, emitByte 0xfd, emitByte 0xe5, emitByte 0xe1,
                       emitByte 0xb5, emitByte 0xe1]
            | _ \<Rightarrow> report_fatal_instr_problem name ''Allowed register are A, B, C, D, E, H, L.'')]"

text \<open>\<^verbatim>\<open>case Z80::OUTD16:\<close>\<close>

definition case_OUTD16 :: "string \<Rightarrow> nat \<Rightarrow> MCInst \<Rightarrow> emit" where
  "case_OUTD16 name numOperands MI =
     seq [check_num_operands name 0 numOperands,
          emitByte 0xed, emitByte 0xab]"

text \<open>\<^verbatim>\<open>case Z80::OUTDR16:\<close>\<close>

definition case_OUTDR16 :: "string \<Rightarrow> nat \<Rightarrow> MCInst \<Rightarrow> emit" where
  "case_OUTDR16 name numOperands MI =
     seq [check_num_operands name 0 numOperands,
          emitByte 0xed, emitByte 0xbb]"

text \<open>\<^verbatim>\<open>case Z80::OUTI16:\<close>\<close>

definition case_OUTI16 :: "string \<Rightarrow> nat \<Rightarrow> MCInst \<Rightarrow> emit" where
  "case_OUTI16 name numOperands MI =
     seq [check_num_operands name 0 numOperands,
          emitByte 0xed, emitByte 0xa3]"

text \<open>\<^verbatim>\<open>case Z80::OUTIR16:\<close>\<close>

definition case_OUTIR16 :: "string \<Rightarrow> nat \<Rightarrow> MCInst \<Rightarrow> emit" where
  "case_OUTIR16 name numOperands MI =
     seq [check_num_operands name 0 numOperands,
          emitByte 0xed, emitByte 0xb3]"

text \<open>\<^verbatim>\<open>case Z80::POP16AF:\<close>\<close>

definition case_POP16AF :: "string \<Rightarrow> nat \<Rightarrow> MCInst \<Rightarrow> emit" where
  "case_POP16AF name numOperands MI =
     seq [check_num_operands name 0 numOperands,
          emitByte 0xf1]"

text \<open>\<^verbatim>\<open>case Z80::POP16r:\<close>\<close>

definition case_POP16r :: "string \<Rightarrow> nat \<Rightarrow> MCInst \<Rightarrow> emit" where
  "case_POP16r name numOperands MI =
     seq [check_num_operands name 1 numOperands,
          (if \<not> isReg (Operands MI 0)
           then report_fatal_instr_problem name ''Operand should be register.''
           else skip),
          getReg (Operands MI 0) (\<lambda>r0. case r0 of
              BC \<Rightarrow> emitByte 0xc1
            | DE \<Rightarrow> emitByte 0xd1
            | HL \<Rightarrow> emitByte 0xe1
            | IX \<Rightarrow> seq [emitByte 0xdd, emitByte 0xe1]
            | IY \<Rightarrow> seq [emitByte 0xfd, emitByte 0xe1]
            | _ \<Rightarrow> report_fatal_instr_problem name ''Allowed registers are BC, DE, HL, IX, IY.'')]"

text \<open>\<^verbatim>\<open>case Z80::PUSH16AF:\<close>\<close>

definition case_PUSH16AF :: "string \<Rightarrow> nat \<Rightarrow> MCInst \<Rightarrow> emit" where
  "case_PUSH16AF name numOperands MI =
     seq [check_num_operands name 0 numOperands,
          emitByte 0xf5]"

text \<open>\<^verbatim>\<open>case Z80::PUSH16r:\<close>\<close>

definition case_PUSH16r :: "string \<Rightarrow> nat \<Rightarrow> MCInst \<Rightarrow> emit" where
  "case_PUSH16r name numOperands MI =
     seq [check_num_operands name 1 numOperands,
          (if \<not> isReg (Operands MI 0)
           then report_fatal_instr_problem name ''Operand should be register.''
           else skip),
          getReg (Operands MI 0) (\<lambda>r0. case r0 of
              BC \<Rightarrow> emitByte 0xc5
            | DE \<Rightarrow> emitByte 0xd5
            | HL \<Rightarrow> emitByte 0xe5
            | IX \<Rightarrow> seq [emitByte 0xdd, emitByte 0xe5]
            | IY \<Rightarrow> seq [emitByte 0xfd, emitByte 0xe5]
            | _ \<Rightarrow> report_fatal_instr_problem name ''Allowed registers are BC, DE, HL, IX, IY.'')]"

text \<open>\<^verbatim>\<open>case Z80::RES8bg:\<close>\<close>

definition case_RES8bg :: "string \<Rightarrow> nat \<Rightarrow> MCInst \<Rightarrow> emit" where
  "case_RES8bg name numOperands MI =
     seq [check_num_operands name 2 numOperands,
          (if \<not> isImm (Operands MI 0)
           then report_fatal_instr_problem name ''First operand should be immediate.''
           else skip),
          getImm (Operands MI 0) (\<lambda>i0.
            if 8 \<le> int_of_uint8 (uint8_t i0)
            then report_fatal_instr_problem name ''First operand should be in range 0..7.''
            else skip),
          (if \<not> isReg (Operands MI 1)
           then report_fatal_instr_problem name ''Second operand should be register.''
           else skip),
          getReg (Operands MI 1) (\<lambda>r1. case r1 of
              A \<Rightarrow>
                  seq [emitByte 0xcb,
                       getImm (Operands MI 0) (\<lambda>i. emitByte (ucast (push_bit 3 (int_of_uint8 (uint8_t i)) OR 0x87)))]
            | B \<Rightarrow>
                  seq [emitByte 0xcb,
                       getImm (Operands MI 0) (\<lambda>i. emitByte (ucast (push_bit 3 (int_of_uint8 (uint8_t i)) OR 0x80)))]
            | C \<Rightarrow>
                  seq [emitByte 0xcb,
                       getImm (Operands MI 0) (\<lambda>i. emitByte (ucast (push_bit 3 (int_of_uint8 (uint8_t i)) OR 0x81)))]
            | D \<Rightarrow>
                  seq [emitByte 0xcb,
                       getImm (Operands MI 0) (\<lambda>i. emitByte (ucast (push_bit 3 (int_of_uint8 (uint8_t i)) OR 0x82)))]
            | E \<Rightarrow>
                  seq [emitByte 0xcb,
                       getImm (Operands MI 0) (\<lambda>i. emitByte (ucast (push_bit 3 (int_of_uint8 (uint8_t i)) OR 0x83)))]
            | H \<Rightarrow>
                  seq [emitByte 0xcb,
                       getImm (Operands MI 0) (\<lambda>i. emitByte (ucast (push_bit 3 (int_of_uint8 (uint8_t i)) OR 0x84)))]
            | L \<Rightarrow>
                  seq [emitByte 0xcb,
                       getImm (Operands MI 0) (\<lambda>i. emitByte (ucast (push_bit 3 (int_of_uint8 (uint8_t i)) OR 0x85)))]
            | IXH \<Rightarrow>
                  seq [emitByte 0xe5, emitByte 0xdd, emitByte 0xe5, emitByte 0xe1,
                       emitByte 0xcb,
                       getImm (Operands MI 0) (\<lambda>i. emitByte (ucast (push_bit 3 (int_of_uint8 (uint8_t i)) OR 0x84))),
                       emitByte 0xe1]
            | IXL \<Rightarrow>
                  seq [emitByte 0xe5, emitByte 0xdd, emitByte 0xe5, emitByte 0xe1,
                       emitByte 0xcb,
                       getImm (Operands MI 0) (\<lambda>i. emitByte (ucast (push_bit 3 (int_of_uint8 (uint8_t i)) OR 0x85))),
                       emitByte 0xe1]
            | IYH \<Rightarrow>
                  seq [emitByte 0xe5, emitByte 0xfd, emitByte 0xe5, emitByte 0xe1,
                       emitByte 0xcb,
                       getImm (Operands MI 0) (\<lambda>i. emitByte (ucast (push_bit 3 (int_of_uint8 (uint8_t i)) OR 0x84))),
                       emitByte 0xe1]
            | IYL \<Rightarrow>
                  seq [emitByte 0xe5, emitByte 0xfd, emitByte 0xe5, emitByte 0xe1,
                       emitByte 0xcb,
                       getImm (Operands MI 0) (\<lambda>i. emitByte (ucast (push_bit 3 (int_of_uint8 (uint8_t i)) OR 0x85))),
                       emitByte 0xe1]
            | _ \<Rightarrow> report_fatal_instr_problem name ''Allowed register are A, B, C, D, E, H, L.'')]"

text \<open>\<^verbatim>\<open>case Z80::RES8bo:\<close>\<close>

definition case_RES8bo :: "string \<Rightarrow> nat \<Rightarrow> MCInst \<Rightarrow> emit" where
  "case_RES8bo name numOperands MI =
     seq [check_num_operands name 3 numOperands,
          (if \<not> isImm (Operands MI 0)
           then report_fatal_instr_problem name ''First operand should be immediate.''
           else skip),
          getImm (Operands MI 0) (\<lambda>i0.
            if 8 \<le> int_of_uint8 (uint8_t i0)
            then report_fatal_instr_problem name ''First operand should be in range 0..7.''
            else skip),
          (if \<not> isReg (Operands MI 1)
           then report_fatal_instr_problem name ''Second operand should be register.''
           else skip),
          (if \<not> isImm (Operands MI 2)
           then report_fatal_instr_problem name ''Third operand should be immediate.''
           else skip),
          getReg (Operands MI 1) (\<lambda>r1. case r1 of
              IX \<Rightarrow> emitByte 0xdd
            | IY \<Rightarrow> emitByte 0xfd
            | _ \<Rightarrow> report_fatal_instr_problem name ''Allowed registers are IX, IY.''),
          emitByte 0xcb,
          getImm (Operands MI 2) (\<lambda>i. emitByte (ucast i)),
          getImm (Operands MI 0) (\<lambda>i. emitByte (ucast (push_bit 3 (int_of_uint8 (uint8_t i)) OR 0x86)))]"

text \<open>\<^verbatim>\<open>case Z80::RES8bp:\<close>\<close>

definition case_RES8bp :: "string \<Rightarrow> nat \<Rightarrow> MCInst \<Rightarrow> emit" where
  "case_RES8bp name numOperands MI =
     seq [check_num_operands name 2 numOperands,
          (if \<not> isImm (Operands MI 0)
           then report_fatal_instr_problem name ''First operand should be immediate.''
           else skip),
          getImm (Operands MI 0) (\<lambda>i0.
            if 8 \<le> int_of_uint8 (uint8_t i0)
            then report_fatal_instr_problem name ''First operand should be in range 0..7.''
            else skip),
          (if \<not> isReg (Operands MI 1)
           then report_fatal_instr_problem name ''Second operand should be register.''
           else skip),
          getReg (Operands MI 1) (\<lambda>r1. case r1 of
              HL \<Rightarrow> skip
            | _ \<Rightarrow> report_fatal_instr_problem name ''The only allowed register is HL.''),
          emitByte 0xcb,
          getImm (Operands MI 0) (\<lambda>i. emitByte (ucast (push_bit 3 (int_of_uint8 (uint8_t i)) OR 0x86)))]"

text \<open>\<^verbatim>\<open>case Z80::RET16:\<close>\<close>

definition case_RET16 :: "string \<Rightarrow> nat \<Rightarrow> MCInst \<Rightarrow> emit" where
  "case_RET16 name numOperands MI =
     seq [check_num_operands name 0 numOperands,
          emitByte 0xc9]"

text \<open>\<^verbatim>\<open>case Z80::RET16CC:\<close>\<close>

definition case_RET16CC :: "string \<Rightarrow> nat \<Rightarrow> MCInst \<Rightarrow> emit" where
  "case_RET16CC name numOperands MI =
     seq [check_num_operands name 1 numOperands,
          (if \<not> isImm (Operands MI 0)
           then report_fatal_instr_problem name ''Operand should be immediate.''
           else skip),
          getImm (Operands MI 0) (\<lambda>i0.
            if 8 \<le> int_of_uint8 (uint8_t i0)
            then report_fatal_instr_problem name ''Operand should be in range 0..7.''
            else skip),
          getImm (Operands MI 0) (\<lambda>i. emitByte (ucast (push_bit 3 (int_of_uint8 (uint8_t i)) OR 0xc0)))]"

text \<open>\<^verbatim>\<open>case Z80::RETI16:\<close>\<close>

definition case_RETI16 :: "string \<Rightarrow> nat \<Rightarrow> MCInst \<Rightarrow> emit" where
  "case_RETI16 name numOperands MI =
     seq [check_num_operands name 0 numOperands,
          emitByte 0xed, emitByte 0x4d]"

text \<open>\<^verbatim>\<open>case Z80::RETN16:\<close>\<close>

definition case_RETN16 :: "string \<Rightarrow> nat \<Rightarrow> MCInst \<Rightarrow> emit" where
  "case_RETN16 name numOperands MI =
     seq [check_num_operands name 0 numOperands,
          emitByte 0xed, emitByte 0x45]"

text \<open>\<^verbatim>\<open>case Z80::RL8o:\<close>\<close>

definition case_RL8o :: "string \<Rightarrow> nat \<Rightarrow> MCInst \<Rightarrow> emit" where
  "case_RL8o name numOperands MI =
     seq [check_num_operands name 2 numOperands,
          (if \<not> isReg (Operands MI 0)
           then report_fatal_instr_problem name ''First operand should be register.''
           else skip),
          (if \<not> isImm (Operands MI 1)
           then report_fatal_instr_problem name ''Second operand should be immediate.''
           else skip),
          getReg (Operands MI 0) (\<lambda>r0. case r0 of
              IX \<Rightarrow> emitByte 0xdd
            | IY \<Rightarrow> emitByte 0xfd
            | _ \<Rightarrow> report_fatal_instr_problem name ''Allowed registers are IX, IY.''),
          emitByte 0xcb,
          getImm (Operands MI 1) (\<lambda>i. emitByte (ucast i)),
          emitByte 0x16]"

text \<open>\<^verbatim>\<open>case Z80::RL8p:\<close>\<close>

definition case_RL8p :: "string \<Rightarrow> nat \<Rightarrow> MCInst \<Rightarrow> emit" where
  "case_RL8p name numOperands MI =
     seq [check_num_operands name 1 numOperands,
          (if \<not> isReg (Operands MI 0)
           then report_fatal_instr_problem name ''Operand should be register.''
           else skip),
          getReg (Operands MI 0) (\<lambda>r0. case r0 of
              HL \<Rightarrow> skip
            | _ \<Rightarrow> report_fatal_instr_problem name ''The only allowed register is HL.''),
          emitByte 0xcb, emitByte 0x16]"

text \<open>\<^verbatim>\<open>case Z80::RL8r:\<close>\<close>

definition case_RL8r :: "string \<Rightarrow> nat \<Rightarrow> MCInst \<Rightarrow> emit" where
  "case_RL8r name numOperands MI =
     seq [(if numOperands = 0
           then report_fatal_instr_problem name ''Operand missing.''
           else skip),
          (if \<not> isReg (Operands MI 0)
           then report_fatal_instr_problem name ''An operand should be an register.''
           else skip),
          getReg (Operands MI 0) (\<lambda>r0. case r0 of
              A \<Rightarrow> seq [emitByte 0xcb, emitByte 0x17]
            | B \<Rightarrow> seq [emitByte 0xcb, emitByte 0x10]
            | C \<Rightarrow> seq [emitByte 0xcb, emitByte 0x11]
            | D \<Rightarrow> seq [emitByte 0xcb, emitByte 0x12]
            | E \<Rightarrow> seq [emitByte 0xcb, emitByte 0x13]
            | H \<Rightarrow> seq [emitByte 0xcb, emitByte 0x14]
            | L \<Rightarrow> seq [emitByte 0xcb, emitByte 0x15]
            | IXH \<Rightarrow>
                  seq [emitByte 0xe5, emitByte 0xdd, emitByte 0xe5, emitByte 0xe1,
                       emitByte 0xcb, emitByte 0x14, emitByte 0xe5, emitByte 0xdd,
                       emitByte 0xe1, emitByte 0xe1]
            | IXL \<Rightarrow>
                  seq [emitByte 0xe5, emitByte 0xdd, emitByte 0xe5, emitByte 0xe1,
                       emitByte 0xcb, emitByte 0x15, emitByte 0xe5, emitByte 0xdd,
                       emitByte 0xe1, emitByte 0xe1]
            | IYH \<Rightarrow>
                  seq [emitByte 0xe5, emitByte 0xfd, emitByte 0xe5, emitByte 0xe1,
                       emitByte 0xcb, emitByte 0x14, emitByte 0xe5, emitByte 0xfd,
                       emitByte 0xe1, emitByte 0xe1]
            | IYL \<Rightarrow>
                  seq [emitByte 0xe5, emitByte 0xfd, emitByte 0xe5, emitByte 0xe1,
                       emitByte 0xcb, emitByte 0x15, emitByte 0xe5, emitByte 0xfd,
                       emitByte 0xe1, emitByte 0xe1]
            | _ \<Rightarrow> report_fatal_instr_problem name ''Allowed register are A, B, C, D, E, H, L.'')]"

text \<open>\<^verbatim>\<open>case Z80::RLC8o:\<close>\<close>

definition case_RLC8o :: "string \<Rightarrow> nat \<Rightarrow> MCInst \<Rightarrow> emit" where
  "case_RLC8o name numOperands MI =
     seq [check_num_operands name 2 numOperands,
          (if \<not> isReg (Operands MI 0)
           then report_fatal_instr_problem name ''First operand should be register.''
           else skip),
          (if \<not> isImm (Operands MI 1)
           then report_fatal_instr_problem name ''Second operand should be immediate.''
           else skip),
          getReg (Operands MI 0) (\<lambda>r0. case r0 of
              IX \<Rightarrow> emitByte 0xdd
            | IY \<Rightarrow> emitByte 0xfd
            | _ \<Rightarrow> report_fatal_instr_problem name ''Allowed registers are IX, IY.''),
          emitByte 0xcb,
          getImm (Operands MI 1) (\<lambda>i. emitByte (ucast i)),
          emitByte 0x06]"

text \<open>\<^verbatim>\<open>case Z80::RLC8p:\<close>\<close>

definition case_RLC8p :: "string \<Rightarrow> nat \<Rightarrow> MCInst \<Rightarrow> emit" where
  "case_RLC8p name numOperands MI =
     seq [check_num_operands name 1 numOperands,
          (if \<not> isReg (Operands MI 0)
           then report_fatal_instr_problem name ''Operand should be register.''
           else skip),
          getReg (Operands MI 0) (\<lambda>r0. case r0 of
              HL \<Rightarrow> skip
            | _ \<Rightarrow> report_fatal_instr_problem name ''The only allowed register is HL.''),
          emitByte 0xcb, emitByte 0x06]"

text \<open>\<^verbatim>\<open>case Z80::RLC8r:\<close>\<close>

definition case_RLC8r :: "string \<Rightarrow> nat \<Rightarrow> MCInst \<Rightarrow> emit" where
  "case_RLC8r name numOperands MI =
     seq [(if numOperands = 0
           then report_fatal_instr_problem name ''Operand missing.''
           else skip),
          (if \<not> isReg (Operands MI 0)
           then report_fatal_instr_problem name ''An operand should be an register.''
           else skip),
          getReg (Operands MI 0) (\<lambda>r0. case r0 of
              A \<Rightarrow> seq [emitByte 0xcb, emitByte 0x07]
            | B \<Rightarrow> seq [emitByte 0xcb, emitByte 0x00]
            | C \<Rightarrow> seq [emitByte 0xcb, emitByte 0x01]
            | D \<Rightarrow> seq [emitByte 0xcb, emitByte 0x02]
            | E \<Rightarrow> seq [emitByte 0xcb, emitByte 0x03]
            | H \<Rightarrow> seq [emitByte 0xcb, emitByte 0x04]
            | L \<Rightarrow> seq [emitByte 0xcb, emitByte 0x05]
            | IXH \<Rightarrow>
                  seq [emitByte 0xe5, emitByte 0xdd, emitByte 0xe5, emitByte 0xe1,
                       emitByte 0xcb, emitByte 0x04, emitByte 0xe5, emitByte 0xdd,
                       emitByte 0xe1, emitByte 0xe1]
            | IXL \<Rightarrow>
                  seq [emitByte 0xe5, emitByte 0xdd, emitByte 0xe5, emitByte 0xe1,
                       emitByte 0xcb, emitByte 0x05, emitByte 0xe5, emitByte 0xdd,
                       emitByte 0xe1, emitByte 0xe1]
            | IYH \<Rightarrow>
                  seq [emitByte 0xe5, emitByte 0xfd, emitByte 0xe5, emitByte 0xe1,
                       emitByte 0xcb, emitByte 0x04, emitByte 0xe5, emitByte 0xfd,
                       emitByte 0xe1, emitByte 0xe1]
            | IYL \<Rightarrow>
                  seq [emitByte 0xe5, emitByte 0xfd, emitByte 0xe5, emitByte 0xe1,
                       emitByte 0xcb, emitByte 0x05, emitByte 0xe5, emitByte 0xfd,
                       emitByte 0xe1, emitByte 0xe1]
            | _ \<Rightarrow> report_fatal_instr_problem name ''Allowed register are A, B, C, D, E, H, L.'')]"

text \<open>\<^verbatim>\<open>case Z80::RR8o:\<close>\<close>

definition case_RR8o :: "string \<Rightarrow> nat \<Rightarrow> MCInst \<Rightarrow> emit" where
  "case_RR8o name numOperands MI =
     seq [check_num_operands name 2 numOperands,
          (if \<not> isReg (Operands MI 0)
           then report_fatal_instr_problem name ''First operand should be register.''
           else skip),
          (if \<not> isImm (Operands MI 1)
           then report_fatal_instr_problem name ''Second operand should be immediate.''
           else skip),
          getReg (Operands MI 0) (\<lambda>r0. case r0 of
              IX \<Rightarrow> emitByte 0xdd
            | IY \<Rightarrow> emitByte 0xfd
            | _ \<Rightarrow> report_fatal_instr_problem name ''Allowed registers are IX, IY.''),
          emitByte 0xcb,
          getImm (Operands MI 1) (\<lambda>i. emitByte (ucast i)),
          emitByte 0x1e]"

text \<open>\<^verbatim>\<open>case Z80::RR8p:\<close>\<close>

definition case_RR8p :: "string \<Rightarrow> nat \<Rightarrow> MCInst \<Rightarrow> emit" where
  "case_RR8p name numOperands MI =
     seq [check_num_operands name 1 numOperands,
          (if \<not> isReg (Operands MI 0)
           then report_fatal_instr_problem name ''Operand should be register.''
           else skip),
          getReg (Operands MI 0) (\<lambda>r0. case r0 of
              HL \<Rightarrow> skip
            | _ \<Rightarrow> report_fatal_instr_problem name ''The only allowed register is HL.''),
          emitByte 0xcb, emitByte 0x1e]"

text \<open>\<^verbatim>\<open>case Z80::RR8r:\<close>\<close>

definition case_RR8r :: "string \<Rightarrow> nat \<Rightarrow> MCInst \<Rightarrow> emit" where
  "case_RR8r name numOperands MI =
     seq [(if numOperands = 0
           then report_fatal_instr_problem name ''Operand missing.''
           else skip),
          (if \<not> isReg (Operands MI 0)
           then report_fatal_instr_problem name ''An operand should be an register.''
           else skip),
          getReg (Operands MI 0) (\<lambda>r0. case r0 of
              A \<Rightarrow> seq [emitByte 0xcb, emitByte 0x1f]
            | B \<Rightarrow> seq [emitByte 0xcb, emitByte 0x18]
            | C \<Rightarrow> seq [emitByte 0xcb, emitByte 0x19]
            | D \<Rightarrow> seq [emitByte 0xcb, emitByte 0x1a]
            | E \<Rightarrow> seq [emitByte 0xcb, emitByte 0x1b]
            | H \<Rightarrow> seq [emitByte 0xcb, emitByte 0x1c]
            | L \<Rightarrow> seq [emitByte 0xcb, emitByte 0x1d]
            | IXH \<Rightarrow>
                  seq [emitByte 0xe5, emitByte 0xdd, emitByte 0xe5, emitByte 0xe1,
                       emitByte 0xcb, emitByte 0x1c, emitByte 0xe5, emitByte 0xdd,
                       emitByte 0xe1, emitByte 0xe1]
            | IXL \<Rightarrow>
                  seq [emitByte 0xe5, emitByte 0xdd, emitByte 0xe5, emitByte 0xe1,
                       emitByte 0xcb, emitByte 0x1d, emitByte 0xe5, emitByte 0xdd,
                       emitByte 0xe1, emitByte 0xe1]
            | IYH \<Rightarrow>
                  seq [emitByte 0xe5, emitByte 0xfd, emitByte 0xe5, emitByte 0xe1,
                       emitByte 0xcb, emitByte 0x1c, emitByte 0xe5, emitByte 0xfd,
                       emitByte 0xe1, emitByte 0xe1]
            | IYL \<Rightarrow>
                  seq [emitByte 0xe5, emitByte 0xfd, emitByte 0xe5, emitByte 0xe1,
                       emitByte 0xcb, emitByte 0x1d, emitByte 0xe5, emitByte 0xfd,
                       emitByte 0xe1, emitByte 0xe1]
            | _ \<Rightarrow> report_fatal_instr_problem name ''Allowed register are A, B, C, D, E, H, L.'')]"

text \<open>\<^verbatim>\<open>case Z80::RRC8o:\<close>\<close>

definition case_RRC8o :: "string \<Rightarrow> nat \<Rightarrow> MCInst \<Rightarrow> emit" where
  "case_RRC8o name numOperands MI =
     seq [check_num_operands name 2 numOperands,
          (if \<not> isReg (Operands MI 0)
           then report_fatal_instr_problem name ''First operand should be register.''
           else skip),
          (if \<not> isImm (Operands MI 1)
           then report_fatal_instr_problem name ''Second operand should be immediate.''
           else skip),
          getReg (Operands MI 0) (\<lambda>r0. case r0 of
              IX \<Rightarrow> emitByte 0xdd
            | IY \<Rightarrow> emitByte 0xfd
            | _ \<Rightarrow> report_fatal_instr_problem name ''Allowed registers are IX, IY.''),
          emitByte 0xcb,
          getImm (Operands MI 1) (\<lambda>i. emitByte (ucast i)),
          emitByte 0x0e]"

text \<open>\<^verbatim>\<open>case Z80::RRC8p:\<close>\<close>

definition case_RRC8p :: "string \<Rightarrow> nat \<Rightarrow> MCInst \<Rightarrow> emit" where
  "case_RRC8p name numOperands MI =
     seq [check_num_operands name 1 numOperands,
          (if \<not> isReg (Operands MI 0)
           then report_fatal_instr_problem name ''Operand should be register.''
           else skip),
          getReg (Operands MI 0) (\<lambda>r0. case r0 of
              HL \<Rightarrow> skip
            | _ \<Rightarrow> report_fatal_instr_problem name ''The only allowed register is HL.''),
          emitByte 0xcb, emitByte 0x0e]"

text \<open>\<^verbatim>\<open>case Z80::RRC8r:\<close>\<close>

definition case_RRC8r :: "string \<Rightarrow> nat \<Rightarrow> MCInst \<Rightarrow> emit" where
  "case_RRC8r name numOperands MI =
     seq [(if numOperands = 0
           then report_fatal_instr_problem name ''Operand missing.''
           else skip),
          (if \<not> isReg (Operands MI 0)
           then report_fatal_instr_problem name ''An operand should be an register.''
           else skip),
          getReg (Operands MI 0) (\<lambda>r0. case r0 of
              A \<Rightarrow> seq [emitByte 0xcb, emitByte 0x0f]
            | B \<Rightarrow> seq [emitByte 0xcb, emitByte 0x08]
            | C \<Rightarrow> seq [emitByte 0xcb, emitByte 0x09]
            | D \<Rightarrow> seq [emitByte 0xcb, emitByte 0x0a]
            | E \<Rightarrow> seq [emitByte 0xcb, emitByte 0x0b]
            | H \<Rightarrow> seq [emitByte 0xcb, emitByte 0x0c]
            | L \<Rightarrow> seq [emitByte 0xcb, emitByte 0x0d]
            | IXH \<Rightarrow>
                  seq [emitByte 0xe5, emitByte 0xdd, emitByte 0xe5, emitByte 0xe1,
                       emitByte 0xcb, emitByte 0x0c, emitByte 0xe5, emitByte 0xdd,
                       emitByte 0xe1, emitByte 0xe1]
            | IXL \<Rightarrow>
                  seq [emitByte 0xe5, emitByte 0xdd, emitByte 0xe5, emitByte 0xe1,
                       emitByte 0xcb, emitByte 0x0d, emitByte 0xe5, emitByte 0xdd,
                       emitByte 0xe1, emitByte 0xe1]
            | IYH \<Rightarrow>
                  seq [emitByte 0xe5, emitByte 0xfd, emitByte 0xe5, emitByte 0xe1,
                       emitByte 0xcb, emitByte 0x0c, emitByte 0xe5, emitByte 0xfd,
                       emitByte 0xe1, emitByte 0xe1]
            | IYL \<Rightarrow>
                  seq [emitByte 0xe5, emitByte 0xfd, emitByte 0xe5, emitByte 0xe1,
                       emitByte 0xcb, emitByte 0x0d, emitByte 0xe5, emitByte 0xfd,
                       emitByte 0xe1, emitByte 0xe1]
            | _ \<Rightarrow> report_fatal_instr_problem name ''Allowed register are A, B, C, D, E, H, L.'')]"

text \<open>\<^verbatim>\<open>case Z80::SBC16SP:\<close>\<close>

definition case_SBC16SP :: "string \<Rightarrow> nat \<Rightarrow> MCInst \<Rightarrow> emit" where
  "case_SBC16SP name numOperands MI =
     seq [check_num_operands name 0 numOperands,
          emitByte 0xed, emitByte 0x72]"

text \<open>\<^verbatim>\<open>case Z80::SBC16aa:\<close>\<close>

definition case_SBC16aa :: "string \<Rightarrow> nat \<Rightarrow> MCInst \<Rightarrow> emit" where
  "case_SBC16aa name numOperands MI =
     seq [check_num_operands name 0 numOperands,
          emitByte 0xed, emitByte 0x62]"

text \<open>\<^verbatim>\<open>case Z80::SBC16ao:\<close>\<close>

definition case_SBC16ao :: "string \<Rightarrow> nat \<Rightarrow> MCInst \<Rightarrow> emit" where
  "case_SBC16ao name numOperands MI =
     seq [check_num_operands name 1 numOperands,
          emitByte 0xed,
          (if \<not> isReg (Operands MI 0)
           then report_fatal_instr_problem name ''Operand should be register.''
           else skip),
          getReg (Operands MI 0) (\<lambda>r0. case r0 of
              BC \<Rightarrow> emitByte 0x42
            | DE \<Rightarrow> emitByte 0x52
            | _ \<Rightarrow> report_fatal_instr_problem name ''Allowed registers are BC, DE.'')]"

text \<open>\<^verbatim>\<open>case Z80::SBC8ai:\<close>\<close>

definition case_SBC8ai :: "string \<Rightarrow> nat \<Rightarrow> MCInst \<Rightarrow> emit" where
  "case_SBC8ai name numOperands MI =
     seq [check_num_operands name 1 numOperands,
          (if \<not> isImm (Operands MI 0)
           then report_fatal_instr_problem name ''Operand should be immediate.''
           else skip),
          emitByte 0xde,
          getImm (Operands MI 0) (\<lambda>i. emitByte (ucast i))]"

text \<open>\<^verbatim>\<open>case Z80::SBC8ao:\<close>\<close>

definition case_SBC8ao :: "string \<Rightarrow> nat \<Rightarrow> MCInst \<Rightarrow> emit" where
  "case_SBC8ao name numOperands MI =
     seq [check_num_operands name 2 numOperands,
          (if \<not> isReg (Operands MI 0)
           then report_fatal_instr_problem name ''First operand should be register.''
           else skip),
          (if \<not> isImm (Operands MI 1)
           then report_fatal_instr_problem name ''Second operand should be immediate.''
           else skip),
          getReg (Operands MI 0) (\<lambda>r0. case r0 of
              IX \<Rightarrow> emitByte 0xdd
            | IY \<Rightarrow> emitByte 0xfd
            | _ \<Rightarrow> report_fatal_instr_problem name ''Allowed registers are IX, IY.''),
          emitByte 0x9e,
          getImm (Operands MI 1) (\<lambda>i. emitByte (ucast i))]"

text \<open>\<^verbatim>\<open>case Z80::SBC8ap:\<close>\<close>

definition case_SBC8ap :: "string \<Rightarrow> nat \<Rightarrow> MCInst \<Rightarrow> emit" where
  "case_SBC8ap name numOperands MI =
     seq [check_num_operands name 1 numOperands,
          (if \<not> isReg (Operands MI 0)
           then report_fatal_instr_problem name ''Operand should be register.''
           else skip),
          getReg (Operands MI 0) (\<lambda>r0. case r0 of
              HL \<Rightarrow> skip
            | _ \<Rightarrow> report_fatal_instr_problem name ''The only allowed register is HL.''),
          emitByte 0x9e]"

text \<open>\<^verbatim>\<open>case Z80::SBC8ar:\<close>\<close>

definition case_SBC8ar :: "string \<Rightarrow> nat \<Rightarrow> MCInst \<Rightarrow> emit" where
  "case_SBC8ar name numOperands MI =
     seq [check_num_operands name 1 numOperands,
          (if \<not> isReg (Operands MI 0)
           then report_fatal_instr_problem name ''Operand should be register.''
           else skip),
          getReg (Operands MI 0) (\<lambda>r0. case r0 of
              A \<Rightarrow> emitByte 0x9f
            | B \<Rightarrow> emitByte 0x98
            | C \<Rightarrow> emitByte 0x99
            | D \<Rightarrow> emitByte 0x9a
            | E \<Rightarrow> emitByte 0x9b
            | H \<Rightarrow> emitByte 0x9c
            | L \<Rightarrow> emitByte 0x9d
            | IXH \<Rightarrow>
                  seq [emitByte 0xe5, emitByte 0xdd, emitByte 0xe5, emitByte 0xe1,
                       emitByte 0x9c, emitByte 0xe1]
            | IXL \<Rightarrow>
                  seq [emitByte 0xe5, emitByte 0xdd, emitByte 0xe5, emitByte 0xe1,
                       emitByte 0x9d, emitByte 0xe1]
            | IYH \<Rightarrow>
                  seq [emitByte 0xe5, emitByte 0xfd, emitByte 0xe5, emitByte 0xe1,
                       emitByte 0x9c, emitByte 0xe1]
            | IYL \<Rightarrow>
                  seq [emitByte 0xe5, emitByte 0xfd, emitByte 0xe5, emitByte 0xe1,
                       emitByte 0x9d, emitByte 0xe1]
            | _ \<Rightarrow> report_fatal_instr_problem name ''Allowed register are A, B, C, D, E, H, L.'')]"

text \<open>\<^verbatim>\<open>case Z80::SCF:\<close>\<close>

definition case_SCF :: "string \<Rightarrow> nat \<Rightarrow> MCInst \<Rightarrow> emit" where
  "case_SCF name numOperands MI =
     seq [check_num_operands name 0 numOperands,
          emitByte 0x37]"

text \<open>\<^verbatim>\<open>case Z80::SET8bg:\<close>\<close>

definition case_SET8bg :: "string \<Rightarrow> nat \<Rightarrow> MCInst \<Rightarrow> emit" where
  "case_SET8bg name numOperands MI =
     seq [check_num_operands name 2 numOperands,
          (if \<not> isImm (Operands MI 0)
           then report_fatal_instr_problem name ''First operand should be immediate.''
           else skip),
          getImm (Operands MI 0) (\<lambda>i0.
            if 8 \<le> int_of_uint8 (uint8_t i0)
            then report_fatal_instr_problem name ''First operand should be in range 0..7.''
            else skip),
          (if \<not> isReg (Operands MI 1)
           then report_fatal_instr_problem name ''Second operand should be register.''
           else skip),
          getReg (Operands MI 1) (\<lambda>r1. case r1 of
              A \<Rightarrow>
                  seq [emitByte 0xcb,
                       getImm (Operands MI 0) (\<lambda>i. emitByte (ucast (push_bit 3 (int_of_uint8 (uint8_t i)) OR 0xc7)))]
            | B \<Rightarrow>
                  seq [emitByte 0xcb,
                       getImm (Operands MI 0) (\<lambda>i. emitByte (ucast (push_bit 3 (int_of_uint8 (uint8_t i)) OR 0xc0)))]
            | C \<Rightarrow>
                  seq [emitByte 0xcb,
                       getImm (Operands MI 0) (\<lambda>i. emitByte (ucast (push_bit 3 (int_of_uint8 (uint8_t i)) OR 0xc1)))]
            | D \<Rightarrow>
                  seq [emitByte 0xcb,
                       getImm (Operands MI 0) (\<lambda>i. emitByte (ucast (push_bit 3 (int_of_uint8 (uint8_t i)) OR 0xc2)))]
            | E \<Rightarrow>
                  seq [emitByte 0xcb,
                       getImm (Operands MI 0) (\<lambda>i. emitByte (ucast (push_bit 3 (int_of_uint8 (uint8_t i)) OR 0xc3)))]
            | H \<Rightarrow>
                  seq [emitByte 0xcb,
                       getImm (Operands MI 0) (\<lambda>i. emitByte (ucast (push_bit 3 (int_of_uint8 (uint8_t i)) OR 0xc4)))]
            | L \<Rightarrow>
                  seq [emitByte 0xcb,
                       getImm (Operands MI 0) (\<lambda>i. emitByte (ucast (push_bit 3 (int_of_uint8 (uint8_t i)) OR 0xc5)))]
            | IXH \<Rightarrow>
                  seq [emitByte 0xe5, emitByte 0xdd, emitByte 0xe5, emitByte 0xe1,
                       emitByte 0xcb,
                       getImm (Operands MI 0) (\<lambda>i. emitByte (ucast (push_bit 3 (int_of_uint8 (uint8_t i)) OR 0xc4))),
                       emitByte 0xe1]
            | IXL \<Rightarrow>
                  seq [emitByte 0xe5, emitByte 0xdd, emitByte 0xe5, emitByte 0xe1,
                       emitByte 0xcb,
                       getImm (Operands MI 0) (\<lambda>i. emitByte (ucast (push_bit 3 (int_of_uint8 (uint8_t i)) OR 0xc5))),
                       emitByte 0xe1]
            | IYH \<Rightarrow>
                  seq [emitByte 0xe5, emitByte 0xfd, emitByte 0xe5, emitByte 0xe1,
                       emitByte 0xcb,
                       getImm (Operands MI 0) (\<lambda>i. emitByte (ucast (push_bit 3 (int_of_uint8 (uint8_t i)) OR 0xc4))),
                       emitByte 0xe1]
            | IYL \<Rightarrow>
                  seq [emitByte 0xe5, emitByte 0xfd, emitByte 0xe5, emitByte 0xe1,
                       emitByte 0xcb,
                       getImm (Operands MI 0) (\<lambda>i. emitByte (ucast (push_bit 3 (int_of_uint8 (uint8_t i)) OR 0xc5))),
                       emitByte 0xe1]
            | _ \<Rightarrow> report_fatal_instr_problem name ''Allowed register are A, B, C, D, E, H, L.'')]"

text \<open>\<^verbatim>\<open>case Z80::SET8bo:\<close>\<close>

definition case_SET8bo :: "string \<Rightarrow> nat \<Rightarrow> MCInst \<Rightarrow> emit" where
  "case_SET8bo name numOperands MI =
     seq [check_num_operands name 3 numOperands,
          (if \<not> isImm (Operands MI 0)
           then report_fatal_instr_problem name ''First operand should be immediate.''
           else skip),
          getImm (Operands MI 0) (\<lambda>i0.
            if 8 \<le> int_of_uint8 (uint8_t i0)
            then report_fatal_instr_problem name ''First operand should be in range 0..7.''
            else skip),
          (if \<not> isReg (Operands MI 1)
           then report_fatal_instr_problem name ''Second operand should be register.''
           else skip),
          (if \<not> isImm (Operands MI 2)
           then report_fatal_instr_problem name ''Third operand should be immediate.''
           else skip),
          getReg (Operands MI 1) (\<lambda>r1. case r1 of
              IX \<Rightarrow> emitByte 0xdd
            | IY \<Rightarrow> emitByte 0xfd
            | _ \<Rightarrow> report_fatal_instr_problem name ''Allowed registers are IX, IY.''),
          emitByte 0xcb,
          getImm (Operands MI 2) (\<lambda>i. emitByte (ucast i)),
          getImm (Operands MI 0) (\<lambda>i. emitByte (ucast (push_bit 3 (int_of_uint8 (uint8_t i)) OR 0xc6)))]"

text \<open>\<^verbatim>\<open>case Z80::SET8bp:\<close>\<close>

definition case_SET8bp :: "string \<Rightarrow> nat \<Rightarrow> MCInst \<Rightarrow> emit" where
  "case_SET8bp name numOperands MI =
     seq [check_num_operands name 2 numOperands,
          (if \<not> isImm (Operands MI 0)
           then report_fatal_instr_problem name ''First operand should be immediate.''
           else skip),
          getImm (Operands MI 0) (\<lambda>i0.
            if 8 \<le> int_of_uint8 (uint8_t i0)
            then report_fatal_instr_problem name ''First operand should be in range 0..7.''
            else skip),
          (if \<not> isReg (Operands MI 1)
           then report_fatal_instr_problem name ''Second operand should be register.''
           else skip),
          getReg (Operands MI 1) (\<lambda>r1. case r1 of
              HL \<Rightarrow> skip
            | _ \<Rightarrow> report_fatal_instr_problem name ''The only allowed register is HL.''),
          emitByte 0xcb,
          getImm (Operands MI 0) (\<lambda>i. emitByte (ucast (push_bit 3 (int_of_uint8 (uint8_t i)) OR 0xc6)))]"

text \<open>\<^verbatim>\<open>case Z80::SLA8o:\<close>\<close>

definition case_SLA8o :: "string \<Rightarrow> nat \<Rightarrow> MCInst \<Rightarrow> emit" where
  "case_SLA8o name numOperands MI =
     seq [check_num_operands name 2 numOperands,
          (if \<not> isReg (Operands MI 0)
           then report_fatal_instr_problem name ''First operand should be register.''
           else skip),
          (if \<not> isImm (Operands MI 1)
           then report_fatal_instr_problem name ''Second operand should be immediate.''
           else skip),
          getReg (Operands MI 0) (\<lambda>r0. case r0 of
              IX \<Rightarrow> emitByte 0xdd
            | IY \<Rightarrow> emitByte 0xfd
            | _ \<Rightarrow> report_fatal_instr_problem name ''Allowed registers are IX, IY.''),
          emitByte 0xcb,
          getImm (Operands MI 1) (\<lambda>i. emitByte (ucast i)),
          emitByte 0x26]"

text \<open>\<^verbatim>\<open>case Z80::SLA8p:\<close>\<close>

definition case_SLA8p :: "string \<Rightarrow> nat \<Rightarrow> MCInst \<Rightarrow> emit" where
  "case_SLA8p name numOperands MI =
     seq [check_num_operands name 1 numOperands,
          (if \<not> isReg (Operands MI 0)
           then report_fatal_instr_problem name ''Operand should be register.''
           else skip),
          getReg (Operands MI 0) (\<lambda>r0. case r0 of
              HL \<Rightarrow> skip
            | _ \<Rightarrow> report_fatal_instr_problem name ''The only allowed register is HL.''),
          emitByte 0xcb, emitByte 0x26]"

text \<open>\<^verbatim>\<open>case Z80::SLA8r:\<close>\<close>

definition case_SLA8r :: "string \<Rightarrow> nat \<Rightarrow> MCInst \<Rightarrow> emit" where
  "case_SLA8r name numOperands MI =
     seq [(if numOperands = 0
           then report_fatal_instr_problem name ''Operand missing.''
           else skip),
          (if \<not> isReg (Operands MI 0)
           then report_fatal_instr_problem name ''An operand should be an register.''
           else skip),
          getReg (Operands MI 0) (\<lambda>r0. case r0 of
              A \<Rightarrow> seq [emitByte 0xcb, emitByte 0x27]
            | B \<Rightarrow> seq [emitByte 0xcb, emitByte 0x20]
            | C \<Rightarrow> seq [emitByte 0xcb, emitByte 0x21]
            | D \<Rightarrow> seq [emitByte 0xcb, emitByte 0x22]
            | E \<Rightarrow> seq [emitByte 0xcb, emitByte 0x23]
            | H \<Rightarrow> seq [emitByte 0xcb, emitByte 0x24]
            | L \<Rightarrow> seq [emitByte 0xcb, emitByte 0x25]
            | IXH \<Rightarrow>
                  seq [emitByte 0xe5, emitByte 0xdd, emitByte 0xe5, emitByte 0xe1,
                       emitByte 0xcb, emitByte 0x24, emitByte 0xe5, emitByte 0xdd,
                       emitByte 0xe1, emitByte 0xe1]
            | IXL \<Rightarrow>
                  seq [emitByte 0xe5, emitByte 0xdd, emitByte 0xe5, emitByte 0xe1,
                       emitByte 0xcb, emitByte 0x25, emitByte 0xe5, emitByte 0xdd,
                       emitByte 0xe1, emitByte 0xe1]
            | IYH \<Rightarrow>
                  seq [emitByte 0xe5, emitByte 0xfd, emitByte 0xe5, emitByte 0xe1,
                       emitByte 0xcb, emitByte 0x24, emitByte 0xe5, emitByte 0xfd,
                       emitByte 0xe1, emitByte 0xe1]
            | IYL \<Rightarrow>
                  seq [emitByte 0xe5, emitByte 0xfd, emitByte 0xe5, emitByte 0xe1,
                       emitByte 0xcb, emitByte 0x25, emitByte 0xe5, emitByte 0xfd,
                       emitByte 0xe1, emitByte 0xe1]
            | _ \<Rightarrow> report_fatal_instr_problem name ''Allowed register are A, B, C, D, E, H, L.'')]"

text \<open>\<^verbatim>\<open>case Z80::SRA8o:\<close>\<close>

definition case_SRA8o :: "string \<Rightarrow> nat \<Rightarrow> MCInst \<Rightarrow> emit" where
  "case_SRA8o name numOperands MI =
     seq [check_num_operands name 2 numOperands,
          (if \<not> isReg (Operands MI 0)
           then report_fatal_instr_problem name ''First operand should be register.''
           else skip),
          (if \<not> isImm (Operands MI 1)
           then report_fatal_instr_problem name ''Second operand should be immediate.''
           else skip),
          getReg (Operands MI 0) (\<lambda>r0. case r0 of
              IX \<Rightarrow> emitByte 0xdd
            | IY \<Rightarrow> emitByte 0xfd
            | _ \<Rightarrow> report_fatal_instr_problem name ''Allowed registers are IX, IY.''),
          emitByte 0xcb,
          getImm (Operands MI 1) (\<lambda>i. emitByte (ucast i)),
          emitByte 0x2e]"

text \<open>\<^verbatim>\<open>case Z80::SRA8p:\<close>\<close>

definition case_SRA8p :: "string \<Rightarrow> nat \<Rightarrow> MCInst \<Rightarrow> emit" where
  "case_SRA8p name numOperands MI =
     seq [check_num_operands name 1 numOperands,
          (if \<not> isReg (Operands MI 0)
           then report_fatal_instr_problem name ''Operand should be register.''
           else skip),
          getReg (Operands MI 0) (\<lambda>r0. case r0 of
              HL \<Rightarrow> skip
            | _ \<Rightarrow> report_fatal_instr_problem name ''The only allowed register is HL.''),
          emitByte 0xcb, emitByte 0x2e]"

text \<open>\<^verbatim>\<open>case Z80::SRA8r:\<close>\<close>

definition case_SRA8r :: "string \<Rightarrow> nat \<Rightarrow> MCInst \<Rightarrow> emit" where
  "case_SRA8r name numOperands MI =
     seq [(if numOperands = 0
           then report_fatal_instr_problem name ''Operand missing.''
           else skip),
          (if \<not> isReg (Operands MI 0)
           then report_fatal_instr_problem name ''An operand should be an register.''
           else skip),
          getReg (Operands MI 0) (\<lambda>r0. case r0 of
              A \<Rightarrow> seq [emitByte 0xcb, emitByte 0x2f]
            | B \<Rightarrow> seq [emitByte 0xcb, emitByte 0x28]
            | C \<Rightarrow> seq [emitByte 0xcb, emitByte 0x29]
            | D \<Rightarrow> seq [emitByte 0xcb, emitByte 0x2a]
            | E \<Rightarrow> seq [emitByte 0xcb, emitByte 0x2b]
            | H \<Rightarrow> seq [emitByte 0xcb, emitByte 0x2c]
            | L \<Rightarrow> seq [emitByte 0xcb, emitByte 0x2d]
            | IXH \<Rightarrow>
                  seq [emitByte 0xe5, emitByte 0xdd, emitByte 0xe5, emitByte 0xe1,
                       emitByte 0xcb, emitByte 0x2c, emitByte 0xe5, emitByte 0xdd,
                       emitByte 0xe1, emitByte 0xe1]
            | IXL \<Rightarrow>
                  seq [emitByte 0xe5, emitByte 0xdd, emitByte 0xe5, emitByte 0xe1,
                       emitByte 0xcb, emitByte 0x2d, emitByte 0xe5, emitByte 0xdd,
                       emitByte 0xe1, emitByte 0xe1]
            | IYH \<Rightarrow>
                  seq [emitByte 0xe5, emitByte 0xfd, emitByte 0xe5, emitByte 0xe1,
                       emitByte 0xcb, emitByte 0x2c, emitByte 0xe5, emitByte 0xfd,
                       emitByte 0xe1, emitByte 0xe1]
            | IYL \<Rightarrow>
                  seq [emitByte 0xe5, emitByte 0xfd, emitByte 0xe5, emitByte 0xe1,
                       emitByte 0xcb, emitByte 0x2d, emitByte 0xe5, emitByte 0xfd,
                       emitByte 0xe1, emitByte 0xe1]
            | _ \<Rightarrow> report_fatal_instr_problem name ''Allowed register are A, B, C, D, E, H, L.'')]"

text \<open>\<^verbatim>\<open>case Z80::SRL8o:\<close>\<close>

definition case_SRL8o :: "string \<Rightarrow> nat \<Rightarrow> MCInst \<Rightarrow> emit" where
  "case_SRL8o name numOperands MI =
     seq [check_num_operands name 2 numOperands,
          (if \<not> isReg (Operands MI 0)
           then report_fatal_instr_problem name ''First operand should be register.''
           else skip),
          (if \<not> isImm (Operands MI 1)
           then report_fatal_instr_problem name ''Second operand should be immediate.''
           else skip),
          getReg (Operands MI 0) (\<lambda>r0. case r0 of
              IX \<Rightarrow> emitByte 0xdd
            | IY \<Rightarrow> emitByte 0xfd
            | _ \<Rightarrow> report_fatal_instr_problem name ''Allowed registers are IX, IY.''),
          emitByte 0xcb,
          getImm (Operands MI 1) (\<lambda>i. emitByte (ucast i)),
          emitByte 0x3e]"

text \<open>\<^verbatim>\<open>case Z80::SRL8p:\<close>\<close>

definition case_SRL8p :: "string \<Rightarrow> nat \<Rightarrow> MCInst \<Rightarrow> emit" where
  "case_SRL8p name numOperands MI =
     seq [check_num_operands name 1 numOperands,
          (if \<not> isReg (Operands MI 0)
           then report_fatal_instr_problem name ''Operand should be register.''
           else skip),
          getReg (Operands MI 0) (\<lambda>r0. case r0 of
              HL \<Rightarrow> skip
            | _ \<Rightarrow> report_fatal_instr_problem name ''The only allowed register is HL.''),
          emitByte 0xcb, emitByte 0x3e]"

text \<open>\<^verbatim>\<open>case Z80::SRL8r:\<close>\<close>

definition case_SRL8r :: "string \<Rightarrow> nat \<Rightarrow> MCInst \<Rightarrow> emit" where
  "case_SRL8r name numOperands MI =
     seq [(if numOperands = 0
           then report_fatal_instr_problem name ''Operand missing.''
           else skip),
          (if \<not> isReg (Operands MI 0)
           then report_fatal_instr_problem name ''An operand should be an register.''
           else skip),
          getReg (Operands MI 0) (\<lambda>r0. case r0 of
              A \<Rightarrow> seq [emitByte 0xcb, emitByte 0x3f]
            | B \<Rightarrow> seq [emitByte 0xcb, emitByte 0x38]
            | C \<Rightarrow> seq [emitByte 0xcb, emitByte 0x39]
            | D \<Rightarrow> seq [emitByte 0xcb, emitByte 0x3a]
            | E \<Rightarrow> seq [emitByte 0xcb, emitByte 0x3b]
            | H \<Rightarrow> seq [emitByte 0xcb, emitByte 0x3c]
            | L \<Rightarrow> seq [emitByte 0xcb, emitByte 0x3d]
            | IXH \<Rightarrow>
                  seq [emitByte 0xe5, emitByte 0xdd, emitByte 0xe5, emitByte 0xe1,
                       emitByte 0xcb, emitByte 0x3c, emitByte 0xe5, emitByte 0xdd,
                       emitByte 0xe1, emitByte 0xe1]
            | IXL \<Rightarrow>
                  seq [emitByte 0xe5, emitByte 0xdd, emitByte 0xe5, emitByte 0xe1,
                       emitByte 0xcb, emitByte 0x3d, emitByte 0xe5, emitByte 0xdd,
                       emitByte 0xe1, emitByte 0xe1]
            | IYH \<Rightarrow>
                  seq [emitByte 0xe5, emitByte 0xfd, emitByte 0xe5, emitByte 0xe1,
                       emitByte 0xcb, emitByte 0x3c, emitByte 0xe5, emitByte 0xfd,
                       emitByte 0xe1, emitByte 0xe1]
            | IYL \<Rightarrow>
                  seq [emitByte 0xe5, emitByte 0xfd, emitByte 0xe5, emitByte 0xe1,
                       emitByte 0xcb, emitByte 0x3d, emitByte 0xe5, emitByte 0xfd,
                       emitByte 0xe1, emitByte 0xe1]
            | _ \<Rightarrow> report_fatal_instr_problem name ''Allowed register are A, B, C, D, E, H, L.'')]"

text \<open>\<^verbatim>\<open>case Z80::SUB8ai:\<close>\<close>

definition case_SUB8ai :: "string \<Rightarrow> nat \<Rightarrow> MCInst \<Rightarrow> emit" where
  "case_SUB8ai name numOperands MI =
     seq [check_num_operands name 1 numOperands,
          (if \<not> isImm (Operands MI 0)
           then report_fatal_instr_problem name ''Operand should be immediate.''
           else skip),
          emitByte 0xd6,
          getImm (Operands MI 0) (\<lambda>i. emitByte (ucast i))]"

text \<open>\<^verbatim>\<open>case Z80::SUB8ao:\<close>\<close>

definition case_SUB8ao :: "string \<Rightarrow> nat \<Rightarrow> MCInst \<Rightarrow> emit" where
  "case_SUB8ao name numOperands MI =
     seq [check_num_operands name 2 numOperands,
          (if \<not> isReg (Operands MI 0)
           then report_fatal_instr_problem name ''First operand should be register.''
           else skip),
          (if \<not> isImm (Operands MI 1)
           then report_fatal_instr_problem name ''Second operand should be immediate.''
           else skip),
          getReg (Operands MI 0) (\<lambda>r0. case r0 of
              IX \<Rightarrow> emitByte 0xdd
            | IY \<Rightarrow> emitByte 0xfd
            | _ \<Rightarrow> report_fatal_instr_problem name ''Allowed registers are IX, IY.''),
          emitByte 0x96,
          getImm (Operands MI 1) (\<lambda>i. emitByte (ucast i))]"

text \<open>\<^verbatim>\<open>case Z80::SUB8ap:\<close>\<close>

definition case_SUB8ap :: "string \<Rightarrow> nat \<Rightarrow> MCInst \<Rightarrow> emit" where
  "case_SUB8ap name numOperands MI =
     seq [check_num_operands name 1 numOperands,
          (if \<not> isReg (Operands MI 0)
           then report_fatal_instr_problem name ''Operand should be register.''
           else skip),
          getReg (Operands MI 0) (\<lambda>r0. case r0 of
              HL \<Rightarrow> skip
            | _ \<Rightarrow> report_fatal_instr_problem name ''The only allowed register is HL.''),
          emitByte 0x96]"

text \<open>\<^verbatim>\<open>case Z80::SUB8ar:\<close>\<close>

definition case_SUB8ar :: "string \<Rightarrow> nat \<Rightarrow> MCInst \<Rightarrow> emit" where
  "case_SUB8ar name numOperands MI =
     seq [check_num_operands name 1 numOperands,
          (if \<not> isReg (Operands MI 0)
           then report_fatal_instr_problem name ''Operand should be register.''
           else skip),
          getReg (Operands MI 0) (\<lambda>r0. case r0 of
              A \<Rightarrow> emitByte 0x97
            | B \<Rightarrow> emitByte 0x90
            | C \<Rightarrow> emitByte 0x91
            | D \<Rightarrow> emitByte 0x92
            | E \<Rightarrow> emitByte 0x93
            | H \<Rightarrow> emitByte 0x94
            | L \<Rightarrow> emitByte 0x95
            | IXH \<Rightarrow>
                  seq [emitByte 0xe5, emitByte 0xdd, emitByte 0xe5, emitByte 0xe1,
                       emitByte 0x94, emitByte 0xe1]
            | IXL \<Rightarrow>
                  seq [emitByte 0xe5, emitByte 0xdd, emitByte 0xe5, emitByte 0xe1,
                       emitByte 0x95, emitByte 0xe1]
            | IYH \<Rightarrow>
                  seq [emitByte 0xe5, emitByte 0xfd, emitByte 0xe5, emitByte 0xe1,
                       emitByte 0x94, emitByte 0xe1]
            | IYL \<Rightarrow>
                  seq [emitByte 0xe5, emitByte 0xfd, emitByte 0xe5, emitByte 0xe1,
                       emitByte 0x95, emitByte 0xe1]
            | _ \<Rightarrow> report_fatal_instr_problem name ''Allowed register are A, B, C, D, E, H, L.'')]"

text \<open>\<^verbatim>\<open>case Z80::XOR8ai:\<close>\<close>

definition case_XOR8ai :: "string \<Rightarrow> nat \<Rightarrow> MCInst \<Rightarrow> emit" where
  "case_XOR8ai name numOperands MI =
     seq [check_num_operands name 1 numOperands,
          (if \<not> isImm (Operands MI 0)
           then report_fatal_instr_problem name ''Operand should be immediate.''
           else skip),
          emitByte 0xee,
          getImm (Operands MI 0) (\<lambda>i. emitByte (ucast i))]"

text \<open>\<^verbatim>\<open>case Z80::XOR8ao:\<close>\<close>

definition case_XOR8ao :: "string \<Rightarrow> nat \<Rightarrow> MCInst \<Rightarrow> emit" where
  "case_XOR8ao name numOperands MI =
     seq [check_num_operands name 2 numOperands,
          (if \<not> isReg (Operands MI 0)
           then report_fatal_instr_problem name ''First operand should be register.''
           else skip),
          (if \<not> isImm (Operands MI 1)
           then report_fatal_instr_problem name ''Second operand should be immediate.''
           else skip),
          getReg (Operands MI 0) (\<lambda>r0. case r0 of
              IX \<Rightarrow> emitByte 0xdd
            | IY \<Rightarrow> emitByte 0xfd
            | _ \<Rightarrow> report_fatal_instr_problem name ''Allowed registers are IX, IY.''),
          emitByte 0xae,
          getImm (Operands MI 1) (\<lambda>i. emitByte (ucast i))]"

text \<open>\<^verbatim>\<open>case Z80::XOR8ap:\<close>\<close>

definition case_XOR8ap :: "string \<Rightarrow> nat \<Rightarrow> MCInst \<Rightarrow> emit" where
  "case_XOR8ap name numOperands MI =
     seq [check_num_operands name 1 numOperands,
          (if \<not> isReg (Operands MI 0)
           then report_fatal_instr_problem name ''Operand should be register.''
           else skip),
          getReg (Operands MI 0) (\<lambda>r0. case r0 of
              HL \<Rightarrow> skip
            | _ \<Rightarrow> report_fatal_instr_problem name ''The only allowed register is HL.''),
          emitByte 0xae]"

text \<open>\<^verbatim>\<open>case Z80::XOR8ar:\<close>\<close>

definition case_XOR8ar :: "string \<Rightarrow> nat \<Rightarrow> MCInst \<Rightarrow> emit" where
  "case_XOR8ar name numOperands MI =
     seq [check_num_operands name 1 numOperands,
          (if \<not> isReg (Operands MI 0)
           then report_fatal_instr_problem name ''Operand should be register.''
           else skip),
          getReg (Operands MI 0) (\<lambda>r0. case r0 of
              A \<Rightarrow> emitByte 0xaf
            | B \<Rightarrow> emitByte 0xa8
            | C \<Rightarrow> emitByte 0xa9
            | D \<Rightarrow> emitByte 0xaa
            | E \<Rightarrow> emitByte 0xab
            | H \<Rightarrow> emitByte 0xac
            | L \<Rightarrow> emitByte 0xad
            | IXH \<Rightarrow>
                  seq [emitByte 0xe5, emitByte 0xdd, emitByte 0xe5, emitByte 0xe1,
                       emitByte 0xac, emitByte 0xe1]
            | IXL \<Rightarrow>
                  seq [emitByte 0xe5, emitByte 0xdd, emitByte 0xe5, emitByte 0xe1,
                       emitByte 0xad, emitByte 0xe1]
            | IYH \<Rightarrow>
                  seq [emitByte 0xe5, emitByte 0xfd, emitByte 0xe5, emitByte 0xe1,
                       emitByte 0xac, emitByte 0xe1]
            | IYL \<Rightarrow>
                  seq [emitByte 0xe5, emitByte 0xfd, emitByte 0xe5, emitByte 0xe1,
                       emitByte 0xad, emitByte 0xe1]
            | _ \<Rightarrow> report_fatal_instr_problem name ''Allowed register are A, B, C, D, E, H, L.'')]"

text \<open>\<^verbatim>\<open>case Z80::ADC16SP:\<close>, \<^verbatim>\<open>case Z80::ADC16aa:\<close>, \<^verbatim>\<open>case Z80::ADC16ao:\<close>, \<^verbatim>\<open>case Z80::JP16:\<close>, \<^verbatim>\<open>case Z80::JP16CC:\<close>, \<^verbatim>\<open>case Z80::JR:\<close>, \<^verbatim>\<open>case Z80::JRCC:\<close>, \<^verbatim>\<open>case Z80::LD16or:\<close>, \<^verbatim>\<open>case Z80::LD16pr:\<close>, \<^verbatim>\<open>case Z80::LD16ro:\<close>, \<^verbatim>\<open>case Z80::LD16rp:\<close>\<close>

definition case_ADC16SP :: "string \<Rightarrow> nat \<Rightarrow> MCInst \<Rightarrow> emit" where
  "case_ADC16SP name numOperands MI =
     report_fatal_instr_problem name ''Not implemented.''"

subsection \<open>The pseudo instructions\<close>

text \<open>\<^verbatim>\<open>case Z80::JQ:\<close>, with both branches of \<^verbatim>\<open>#ifdef EMIT_JR_INSTEAD_OF_JP\<close>\<close>

definition case_JQ :: "Z80Build \<Rightarrow> string \<Rightarrow> nat \<Rightarrow> MCInst \<Rightarrow> emit" where
  "case_JQ build name numOperands MI =
     seq [check_num_operands name 1 numOperands,
          (if \<not> isExpr (Operands MI 0)
           then report_fatal_instr_problem name ''Operand should be an expression.''
           else skip),
          (if EMIT_JR_INSTEAD_OF_JP build
           then seq [emitByte 0x18,
                     getExpr (Operands MI 0) (\<lambda>e.
                       Fixups_push_back (\<lambda>CurByte. MCFixup_create CurByte e fixup_8_pcrel (getLoc MI))),
                     emitByte 0x00]
           else seq [emitByte 0xc3,
                     getExpr (Operands MI 0) (\<lambda>e.
                       Fixups_push_back (\<lambda>CurByte. MCFixup_create CurByte e fixup_16 (getLoc MI))),
                     emitByte 0x00, emitByte 0x00])]"

text \<open>\<^verbatim>\<open>case Z80::JQCC:\<close>, with both branches of \<^verbatim>\<open>#ifdef EMIT_JRCC_INSTEAD_OF_JPCC\<close>\<close>

definition case_JQCC :: "Z80Build \<Rightarrow> string \<Rightarrow> nat \<Rightarrow> MCInst \<Rightarrow> emit" where
  "case_JQCC build name numOperands MI =
     seq [check_num_operands name 2 numOperands,
          (if \<not> isExpr (Operands MI 0)
           then report_fatal_instr_problem name ''First operand should be an expression.''
           else skip),
          (if \<not> isImm (Operands MI 1)
           then report_fatal_instr_problem name ''Second operand should be immediate.''
           else skip),
          (if EMIT_JRCC_INSTEAD_OF_JPCC build
           then getImm (Operands MI 1) (\<lambda>i1.
                  if 4 \<le> int_of_uint8 (uint8_t i1)
                  then report_fatal_instr_problem name ''Second operand should be in range 0..3.''
                  else skip)
           else getImm (Operands MI 1) (\<lambda>i1.
                  if 8 \<le> int_of_uint8 (uint8_t i1)
                  then report_fatal_instr_problem name ''Second operand should be in range 0..7.''
                  else skip)),
          (if EMIT_JRCC_INSTEAD_OF_JPCC build
           then seq [getImm (Operands MI 1) (\<lambda>i. emitByte (ucast (push_bit 3 (int_of_uint8 (uint8_t i)) OR 0x20))),
                     getExpr (Operands MI 0) (\<lambda>e.
                       Fixups_push_back (\<lambda>CurByte. MCFixup_create CurByte e fixup_8_pcrel (getLoc MI))),
                     emitByte 0x00]
           else seq [getImm (Operands MI 1) (\<lambda>i. emitByte (ucast (push_bit 3 (int_of_uint8 (uint8_t i)) OR 0xc2))),
                     getExpr (Operands MI 0) (\<lambda>e.
                       Fixups_push_back (\<lambda>CurByte. MCFixup_create CurByte e fixup_16 (getLoc MI))),
                     emitByte 0x00, emitByte 0x00])]"

definition encodePseudo :: "Z80Build \<Rightarrow> string \<Rightarrow> nat \<Rightarrow> MCInst \<Rightarrow> emit" where
  "encodePseudo build name numOperands MI =
     (case getOpcode MI of
          JQ \<Rightarrow> case_JQ build name numOperands MI
        | JQCC \<Rightarrow> case_JQCC build name numOperands MI
        | _ \<Rightarrow> report_fatal_error (NotSupportedPseudo MI))"

subsection \<open>The dispatcher\<close>

text \<open>
  \<^verbatim>\<open>switch (opcode)\<close> of the real instructions; its \<^verbatim>\<open>default:\<close> is the error
  \<^verbatim>\<open>Not supported instr\<close>.
\<close>

definition encodeReal :: "string \<Rightarrow> nat \<Rightarrow> MCInst \<Rightarrow> emit" where
  "encodeReal name numOperands MI =
     (case getOpcode MI of
          ADC8ai \<Rightarrow> case_ADC8ai name numOperands MI
        | ADC8ao \<Rightarrow> case_ADC8ao name numOperands MI
        | ADC8ap \<Rightarrow> case_ADC8ap name numOperands MI
        | ADC8ar \<Rightarrow> case_ADC8ar name numOperands MI
        | ADD16SP \<Rightarrow> case_ADD16SP name numOperands MI
        | ADD16aa \<Rightarrow> case_ADD16aa name numOperands MI
        | ADD16ao \<Rightarrow> case_ADD16ao name numOperands MI
        | ADD8ai \<Rightarrow> case_ADD8ai name numOperands MI
        | ADD8ao \<Rightarrow> case_ADD8ao name numOperands MI
        | ADD8ap \<Rightarrow> case_ADD8ap name numOperands MI
        | ADD8ar \<Rightarrow> case_ADD8ar name numOperands MI
        | AND8ai \<Rightarrow> case_AND8ai name numOperands MI
        | AND8ao \<Rightarrow> case_AND8ao name numOperands MI
        | AND8ap \<Rightarrow> case_AND8ap name numOperands MI
        | AND8ar \<Rightarrow> case_AND8ar name numOperands MI
        | BIT8bg \<Rightarrow> case_BIT8bg name numOperands MI
        | BIT8bo \<Rightarrow> case_BIT8bo name numOperands MI
        | BIT8bp \<Rightarrow> case_BIT8bp name numOperands MI
        | CALL16 \<Rightarrow> case_CALL16 name numOperands MI
        | CALL16CC \<Rightarrow> case_CALL16CC name numOperands MI
        | CCF \<Rightarrow> case_CCF name numOperands MI
        | CP8ai \<Rightarrow> case_CP8ai name numOperands MI
        | CP8ao \<Rightarrow> case_CP8ao name numOperands MI
        | CP8ap \<Rightarrow> case_CP8ap name numOperands MI
        | CP8ar \<Rightarrow> case_CP8ar name numOperands MI
        | CPD16 \<Rightarrow> case_CPD16 name numOperands MI
        | CPDR16 \<Rightarrow> case_CPDR16 name numOperands MI
        | CPI16 \<Rightarrow> case_CPI16 name numOperands MI
        | CPIR16 \<Rightarrow> case_CPIR16 name numOperands MI
        | CPL \<Rightarrow> case_CPL name numOperands MI
        | DEC16SP \<Rightarrow> case_DEC16SP name numOperands MI
        | DEC16r \<Rightarrow> case_DEC16r name numOperands MI
        | DEC8o \<Rightarrow> case_DEC8o name numOperands MI
        | DEC8p \<Rightarrow> case_DEC8p name numOperands MI
        | DEC8r \<Rightarrow> case_DEC8r name numOperands MI
        | DI \<Rightarrow> case_DI name numOperands MI
        | EI \<Rightarrow> case_EI name numOperands MI
        | EX16DE \<Rightarrow> case_EX16DE name numOperands MI
        | EX16SP \<Rightarrow> case_EX16SP name numOperands MI
        | EXAF \<Rightarrow> case_EXAF name numOperands MI
        | EXX \<Rightarrow> case_EXX name numOperands MI
        | INC16SP \<Rightarrow> case_INC16SP name numOperands MI
        | INC16r \<Rightarrow> case_INC16r name numOperands MI
        | INC8o \<Rightarrow> case_INC8o name numOperands MI
        | INC8p \<Rightarrow> case_INC8p name numOperands MI
        | INC8r \<Rightarrow> case_INC8r name numOperands MI
        | IND16 \<Rightarrow> case_IND16 name numOperands MI
        | INDR16 \<Rightarrow> case_INDR16 name numOperands MI
        | INI16 \<Rightarrow> case_INI16 name numOperands MI
        | INIR16 \<Rightarrow> case_INIR16 name numOperands MI
        | JP16r \<Rightarrow> case_JP16r name numOperands MI
        | LD16SP \<Rightarrow> case_LD16SP name numOperands MI
        | LD16am \<Rightarrow> case_LD16am name numOperands MI
        | LD16ma \<Rightarrow> case_LD16ma name numOperands MI
        | LD16mo \<Rightarrow> case_LD16mo name numOperands MI
        | LD16om \<Rightarrow> case_LD16om name numOperands MI
        | LD16ri \<Rightarrow> case_LD16ri name numOperands MI
        | LD8am \<Rightarrow> case_LD8am name numOperands MI
        | LD8gg \<Rightarrow> case_LD8gg name numOperands MI
        | LD8xx \<Rightarrow> case_LD8gg name numOperands MI
        | LD8yy \<Rightarrow> case_LD8gg name numOperands MI
        | LD8go \<Rightarrow> case_LD8go name numOperands MI
        | LD8gp \<Rightarrow> case_LD8gp name numOperands MI
        | LD8ma \<Rightarrow> case_LD8ma name numOperands MI
        | LD8og \<Rightarrow> case_LD8og name numOperands MI
        | LD8oi \<Rightarrow> case_LD8oi name numOperands MI
        | LD8pg \<Rightarrow> case_LD8pg name numOperands MI
        | LD8ri \<Rightarrow> case_LD8ri name numOperands MI
        | LD8pi \<Rightarrow> case_LD8pi name numOperands MI
        | LDD16 \<Rightarrow> case_LDD16 name numOperands MI
        | LDDR16 \<Rightarrow> case_LDDR16 name numOperands MI
        | LDI16 \<Rightarrow> case_LDI16 name numOperands MI
        | LDIR16 \<Rightarrow> case_LDIR16 name numOperands MI
        | LEA16ro \<Rightarrow> case_LEA16ro name numOperands MI
        | NEG \<Rightarrow> case_NEG name numOperands MI
        | NOP \<Rightarrow> case_NOP name numOperands MI
        | OR8ai \<Rightarrow> case_OR8ai name numOperands MI
        | OR8ao \<Rightarrow> case_OR8ao name numOperands MI
        | OR8ap \<Rightarrow> case_OR8ap name numOperands MI
        | OR8ar \<Rightarrow> case_OR8ar name numOperands MI
        | OUTD16 \<Rightarrow> case_OUTD16 name numOperands MI
        | OUTDR16 \<Rightarrow> case_OUTDR16 name numOperands MI
        | OUTI16 \<Rightarrow> case_OUTI16 name numOperands MI
        | OUTIR16 \<Rightarrow> case_OUTIR16 name numOperands MI
        | POP16AF \<Rightarrow> case_POP16AF name numOperands MI
        | POP16r \<Rightarrow> case_POP16r name numOperands MI
        | PUSH16AF \<Rightarrow> case_PUSH16AF name numOperands MI
        | PUSH16r \<Rightarrow> case_PUSH16r name numOperands MI
        | RES8bg \<Rightarrow> case_RES8bg name numOperands MI
        | RES8bo \<Rightarrow> case_RES8bo name numOperands MI
        | RES8bp \<Rightarrow> case_RES8bp name numOperands MI
        | RET16 \<Rightarrow> case_RET16 name numOperands MI
        | RET16CC \<Rightarrow> case_RET16CC name numOperands MI
        | RETI16 \<Rightarrow> case_RETI16 name numOperands MI
        | RETN16 \<Rightarrow> case_RETN16 name numOperands MI
        | RL8o \<Rightarrow> case_RL8o name numOperands MI
        | RL8p \<Rightarrow> case_RL8p name numOperands MI
        | RL8r \<Rightarrow> case_RL8r name numOperands MI
        | RLC8o \<Rightarrow> case_RLC8o name numOperands MI
        | RLC8p \<Rightarrow> case_RLC8p name numOperands MI
        | RLC8r \<Rightarrow> case_RLC8r name numOperands MI
        | RR8o \<Rightarrow> case_RR8o name numOperands MI
        | RR8p \<Rightarrow> case_RR8p name numOperands MI
        | RR8r \<Rightarrow> case_RR8r name numOperands MI
        | RRC8o \<Rightarrow> case_RRC8o name numOperands MI
        | RRC8p \<Rightarrow> case_RRC8p name numOperands MI
        | RRC8r \<Rightarrow> case_RRC8r name numOperands MI
        | SBC16SP \<Rightarrow> case_SBC16SP name numOperands MI
        | SBC16aa \<Rightarrow> case_SBC16aa name numOperands MI
        | SBC16ao \<Rightarrow> case_SBC16ao name numOperands MI
        | SBC8ai \<Rightarrow> case_SBC8ai name numOperands MI
        | SBC8ao \<Rightarrow> case_SBC8ao name numOperands MI
        | SBC8ap \<Rightarrow> case_SBC8ap name numOperands MI
        | SBC8ar \<Rightarrow> case_SBC8ar name numOperands MI
        | SCF \<Rightarrow> case_SCF name numOperands MI
        | SET8bg \<Rightarrow> case_SET8bg name numOperands MI
        | SET8bo \<Rightarrow> case_SET8bo name numOperands MI
        | SET8bp \<Rightarrow> case_SET8bp name numOperands MI
        | SLA8o \<Rightarrow> case_SLA8o name numOperands MI
        | SLA8p \<Rightarrow> case_SLA8p name numOperands MI
        | SLA8r \<Rightarrow> case_SLA8r name numOperands MI
        | SRA8o \<Rightarrow> case_SRA8o name numOperands MI
        | SRA8p \<Rightarrow> case_SRA8p name numOperands MI
        | SRA8r \<Rightarrow> case_SRA8r name numOperands MI
        | SRL8o \<Rightarrow> case_SRL8o name numOperands MI
        | SRL8p \<Rightarrow> case_SRL8p name numOperands MI
        | SRL8r \<Rightarrow> case_SRL8r name numOperands MI
        | SUB8ai \<Rightarrow> case_SUB8ai name numOperands MI
        | SUB8ao \<Rightarrow> case_SUB8ao name numOperands MI
        | SUB8ap \<Rightarrow> case_SUB8ap name numOperands MI
        | SUB8ar \<Rightarrow> case_SUB8ar name numOperands MI
        | XOR8ai \<Rightarrow> case_XOR8ai name numOperands MI
        | XOR8ao \<Rightarrow> case_XOR8ao name numOperands MI
        | XOR8ap \<Rightarrow> case_XOR8ap name numOperands MI
        | XOR8ar \<Rightarrow> case_XOR8ar name numOperands MI
        | ADC16SP \<Rightarrow> case_ADC16SP name numOperands MI
        | ADC16aa \<Rightarrow> case_ADC16SP name numOperands MI
        | ADC16ao \<Rightarrow> case_ADC16SP name numOperands MI
        | JP16 \<Rightarrow> case_ADC16SP name numOperands MI
        | JP16CC \<Rightarrow> case_ADC16SP name numOperands MI
        | JR \<Rightarrow> case_ADC16SP name numOperands MI
        | JRCC \<Rightarrow> case_ADC16SP name numOperands MI
        | LD16or \<Rightarrow> case_ADC16SP name numOperands MI
        | LD16pr \<Rightarrow> case_ADC16SP name numOperands MI
        | LD16ro \<Rightarrow> case_ADC16SP name numOperands MI
        | LD16rp \<Rightarrow> case_ADC16SP name numOperands MI
      | _ \<Rightarrow> report_fatal_error (NotSupportedInstr name MI))"

text \<open>
  \<^verbatim>\<open>Z80MCCodeEmitter::encodeInstruction\<close>. The caller's sinks come in the state; \<^verbatim>\<open>CurByte\<close>
  starts at 0.
\<close>

definition encodeInstruction :: "Z80Build \<Rightarrow> MCInstrInfo \<Rightarrow> MCInst \<Rightarrow> emit" where
  "encodeInstruction build MCII MI s =
     (let opcode = getOpcode MI;
          Desc = get MCII opcode;
          numOperands = NumOperands Desc;
          name = getName MCII opcode
      in seq [(if EZ80Mode build = TSFlags Desc AND ModeMask build
               then report_fatal_error EZ80NotSupported
               else skip),
              (if isPseudo Desc
               then encodePseudo build name numOperands MI
               else encodeReal name numOperands MI)]
           (s\<lparr>CurByte := 0\<rparr>))"

section \<open>The assembler backend and the object writer\<close>

subsection \<open>\<^verbatim>\<open>Z80AsmBackend::getFixupKindInfo\<close>\<close>

text \<open>
  Modelled from the spec: \<^verbatim>\<open>MCFixupKindInfo\<close> is declared in \<^verbatim>\<open>llvm/MC/MCFixupKindInfo.h\<close>.
  It is the record of the name, the bit offset, the bit width and the flags of a kind, the
  flag \<^verbatim>\<open>FKF_IsPCRel\<close> being the lowest bit.
\<close>

record MCFixupKindInfo =
  Name :: string
  TargetOffset :: nat
  TargetSize :: nat
  Flags :: nat

definition FKF_IsPCRel :: nat where
  "FKF_IsPCRel = 1"

definition NumTargetFixupKinds :: nat where
  "NumTargetFixupKinds = 13"

text \<open>
  \<^verbatim>\<open>Kind - FirstTargetFixupKind\<close> for the kinds that are not below \<^verbatim>\<open>FirstTargetFixupKind\<close>,
  after the order of the enumeration in \<^verbatim>\<open>Z80FixupKinds.h\<close>.
\<close>

definition target_index :: "MCFixupKind \<Rightarrow> nat option" where
  "target_index Kind' =
     (case Kind' of
        FK_Data_1 \<Rightarrow> None | FK_Data_2 \<Rightarrow> None | FK_Data_4 \<Rightarrow> None | FK_Generic _ \<Rightarrow> None
      | fixup_8 \<Rightarrow> Some 0 | fixup_8_dis \<Rightarrow> Some 1 | fixup_8_pcrel \<Rightarrow> Some 2
      | fixup_16 \<Rightarrow> Some 3 | fixup_24 \<Rightarrow> Some 4 | fixup_32 \<Rightarrow> Some 5
      | fixup_byte0 \<Rightarrow> Some 6 | fixup_byte1 \<Rightarrow> Some 7 | fixup_byte2 \<Rightarrow> Some 8
      | fixup_byte3 \<Rightarrow> Some 9 | fixup_word0 \<Rightarrow> Some 10 | fixup_word1 \<Rightarrow> Some 11
      | fixup_16_be \<Rightarrow> Some 12
      | FK_Beyond n \<Rightarrow> Some (13 + n))"

definition Infos :: "MCFixupKindInfo list" where
  "Infos =
     [\<lparr>Name = ''fixup_8'', TargetOffset = 0, TargetSize = 8, Flags = 0\<rparr>,
      \<lparr>Name = ''fixup_8_dis'', TargetOffset = 0, TargetSize = 8, Flags = 0\<rparr>,
      \<lparr>Name = ''fixup_8_pcrel'', TargetOffset = 0, TargetSize = 8, Flags = FKF_IsPCRel\<rparr>,
      \<lparr>Name = ''fixup_16'', TargetOffset = 0, TargetSize = 16, Flags = 0\<rparr>,
      \<lparr>Name = ''fixup_24'', TargetOffset = 0, TargetSize = 24, Flags = 0\<rparr>,
      \<lparr>Name = ''fixup_32'', TargetOffset = 0, TargetSize = 32, Flags = 0\<rparr>,
      \<lparr>Name = ''fixup_byte0'', TargetOffset = 0, TargetSize = 32, Flags = 0\<rparr>,
      \<lparr>Name = ''fixup_byte1'', TargetOffset = 0, TargetSize = 32, Flags = 0\<rparr>,
      \<lparr>Name = ''fixup_byte2'', TargetOffset = 0, TargetSize = 32, Flags = 0\<rparr>,
      \<lparr>Name = ''fixup_byte3'', TargetOffset = 0, TargetSize = 32, Flags = 0\<rparr>,
      \<lparr>Name = ''fixup_word0'', TargetOffset = 0, TargetSize = 32, Flags = 0\<rparr>,
      \<lparr>Name = ''fixup_word1'', TargetOffset = 0, TargetSize = 32, Flags = 0\<rparr>,
      \<lparr>Name = ''fixup_16_be'', TargetOffset = 0, TargetSize = 16, Flags = 0\<rparr>]"

text \<open>
  The first argument is \<^verbatim>\<open>MCAsmBackend::getFixupKindInfo\<close>, the catalog of the generic
  kinds.
\<close>

definition getFixupKindInfo ::
  "(MCFixupKind \<Rightarrow> MCFixupKindInfo) \<Rightarrow> MCFixupKind \<Rightarrow> fatal_error + MCFixupKindInfo" where
  "getFixupKindInfo generic Kind' =
     (case target_index Kind' of
        None \<Rightarrow> Inr (generic Kind')
      | Some i \<Rightarrow>
          if \<not> i < NumTargetFixupKinds then Inl (AssertionFailed ''Invalid kind!'')
          else Inr (Infos ! i))"

subsection \<open>\<^verbatim>\<open>Z80AsmBackend::shouldForceRelocation\<close>\<close>

text \<open>The arguments \<^verbatim>\<open>Asm\<close> and \<^verbatim>\<open>Target\<close> are not read.\<close>

definition shouldForceRelocation :: "MCFixup \<Rightarrow> bool" where
  "shouldForceRelocation Fixup =
     (case Kind Fixup of
        fixup_8_dis \<Rightarrow> True
      | fixup_8_pcrel \<Rightarrow> True
      | fixup_16 \<Rightarrow> True
      | _ \<Rightarrow> False)"

subsection \<open>\<^verbatim>\<open>Z80ELFObjectWriter::getRelocType\<close>\<close>

text \<open>
  The relocation codes \<^verbatim>\<open>ELF::R_Z80_*\<close> that the function returns; their numbers are
  declared outside of these sources.
\<close>

datatype ELF_reloc =
    R_Z80_8 | R_Z80_8_DIS | R_Z80_8_PCREL | R_Z80_16 | R_Z80_24 | R_Z80_32
  | R_Z80_BYTE0 | R_Z80_BYTE1 | R_Z80_BYTE2 | R_Z80_BYTE3
  | R_Z80_WORD0 | R_Z80_WORD1 | R_Z80_16_BE

text \<open>\<^verbatim>\<open>dyn_cast<MCSymbolRefExpr>(Fixup.getValue())\<close>\<close>

definition dyn_cast_MCSymbolRefExpr :: "MCExpr \<Rightarrow> MCExpr option" where
  "dyn_cast_MCSymbolRefExpr e = (if getKind e = SymbolRef then Some e else None)"

text \<open>
  The arguments \<^verbatim>\<open>Ctx\<close> and \<^verbatim>\<open>Target\<close> are not read. \<^verbatim>\<open>assert(IsPCRel)\<close> and
  \<^verbatim>\<open>llvm_unreachable\<close> are errors; the latter carries the symbol reference, if the fixup's
  value is one.
\<close>

definition getRelocType :: "MCFixup \<Rightarrow> bool \<Rightarrow> fatal_error + ELF_reloc" where
  "getRelocType Fixup IsPCRel =
     (let SymRef = dyn_cast_MCSymbolRefExpr (Value Fixup) in
      case Kind Fixup of
        FK_Data_1 \<Rightarrow> Inr R_Z80_8
      | fixup_8 \<Rightarrow> Inr R_Z80_8
      | fixup_8_dis \<Rightarrow> Inr R_Z80_8_DIS
      | fixup_8_pcrel \<Rightarrow>
          if \<not> IsPCRel then Inl (AssertionFailed ''IsPCRel'') else Inr R_Z80_8_PCREL
      | FK_Data_2 \<Rightarrow> Inr R_Z80_16
      | fixup_16 \<Rightarrow> Inr R_Z80_16
      | fixup_24 \<Rightarrow> Inr R_Z80_24
      | FK_Data_4 \<Rightarrow> Inr R_Z80_32
      | fixup_32 \<Rightarrow> Inr R_Z80_32
      | fixup_byte0 \<Rightarrow> Inr R_Z80_BYTE0
      | fixup_byte1 \<Rightarrow> Inr R_Z80_BYTE1
      | fixup_byte2 \<Rightarrow> Inr R_Z80_BYTE2
      | fixup_byte3 \<Rightarrow> Inr R_Z80_BYTE3
      | fixup_word0 \<Rightarrow> Inr R_Z80_WORD0
      | fixup_word1 \<Rightarrow> Inr R_Z80_WORD1
      | fixup_16_be \<Rightarrow> Inr R_Z80_16_BE
      | _ \<Rightarrow> Inl (InvalidFixupKind SymRef))"

section \<open>What a statement appends\<close>

text \<open>
  \<open>appended s s' bs fs\<close>: from \<open>s\<close> to \<open>s'\<close> the bytes \<open>bs\<close> and the fixups \<open>fs\<close> were
  appended to the sinks, and \<open>CurByte\<close> counted the bytes.
\<close>

definition appended :: "emitter \<Rightarrow> emitter \<Rightarrow> 8 word list \<Rightarrow> MCFixup list \<Rightarrow> bool" where
  "appended s s' bs fs \<longleftrightarrow>
     OS s' = OS s @ bs \<and> CurByte s' = CurByte s + length bs \<and> Fixups s' = Fixups s @ fs"

text \<open>A statement that, when it returns, has appended bytes only.\<close>

definition bytes_only :: "emit \<Rightarrow> bool" where
  "bytes_only f \<longleftrightarrow> (\<forall>s s'. f s = Inr s' \<longrightarrow> (\<exists>bs. appended s s' bs []))"

text \<open>
  A statement that, when it returns, has appended bytes only, or bytes and then one fixup
  with its placeholder: a \<open>fixup_16\<close> at the current byte and two zero bytes, or (when
  \<open>short\<close> holds) a \<open>fixup_8_pcrel\<close> at the current byte and one zero byte.
\<close>

definition fixup_last :: "bool \<Rightarrow> SMLoc \<Rightarrow> emit \<Rightarrow> bool" where
  "fixup_last short loc f \<longleftrightarrow>
     (\<forall>s s'. f s = Inr s' \<longrightarrow>
        (\<exists>bs. appended s s' bs []) \<or>
        (\<exists>pre e. appended s s' (pre @ [0, 0])
                    [MCFixup_create (CurByte s + length pre) e fixup_16 loc]) \<or>
        (short \<and> (\<exists>pre e. appended s s' (pre @ [0])
                     [MCFixup_create (CurByte s + length pre) e fixup_8_pcrel loc])))"



text \<open>\<open>add_bytes s bs\<close>: the state after the bytes \<open>bs\<close> were written from \<open>s\<close>.\<close>

definition add_bytes :: "emitter \<Rightarrow> 8 word list \<Rightarrow> emitter" where
  "add_bytes s bs = s\<lparr>OS := OS s @ bs, CurByte := CurByte s + length bs\<rparr>"

text \<open>
  Two statements that do the same: both fail in every state, or both write the same bytes
  in every state.
\<close>

definition same :: "emit \<Rightarrow> emit \<Rightarrow> bool" where
  "same f g \<longleftrightarrow>
     (\<forall>s. isl (f s) \<and> isl (g s)) \<or>
     (\<exists>bs. \<forall>s. f s = Inr (add_bytes s bs) \<and> g s = Inr (add_bytes s bs))"


section \<open>Evaluation\<close>

lemma isKind_simps [simp]:
  "isReg (Reg r)" "\<not> isReg (Imm i)" "\<not> isReg (Expr e)" "\<not> isReg Invalid" "\<not> isReg FPImm" "\<not> isReg Inst"
  "isImm (Imm i)" "\<not> isImm (Reg r)" "\<not> isImm (Expr e)" "\<not> isImm Invalid" "\<not> isImm FPImm" "\<not> isImm Inst"
  "isExpr (Expr e)" "\<not> isExpr (Reg r)" "\<not> isExpr (Imm i)" "\<not> isExpr Invalid" "\<not> isExpr FPImm" "\<not> isExpr Inst"
  by (simp_all add: isReg_def isImm_def isExpr_def)

lemma accessor_simps [simp]:
  "getReg (Reg r) k = k r" "getImm (Imm i) k' = k' i" "getExpr (Expr e) k'' = k'' e"
  by (simp_all add: getReg_def getImm_def getExpr_def)

lemmas emit_defs =
  skip_def report_fatal_error_def report_fatal_instr_problem_def check_num_operands_def
  emitByte_def Fixups_push_back_def MCFixup_create_def Operands_def

section \<open>Every case appends bytes, and at most one fixup, last\<close>

lemma bytes_only_skip [simp]: "bytes_only skip"
  by (simp add: bytes_only_def skip_def appended_def)

lemma bytes_only_fatal [simp]: "bytes_only (report_fatal_error er)"
  by (simp add: bytes_only_def report_fatal_error_def)

lemma bytes_only_instr_problem [simp]: "bytes_only (report_fatal_instr_problem opc er)"
  by (simp add: report_fatal_instr_problem_def)

lemma bytes_only_check [simp]: "bytes_only (check_num_operands opc m n)"
  by (simp add: check_num_operands_def)

lemma bytes_only_emitByte [simp]: "bytes_only (emitByte c)"
  by (auto simp add: bytes_only_def emitByte_def appended_def)

lemma bytes_only_seq_Nil [simp]: "bytes_only (seq [])"
  by (simp add: bytes_only_def appended_def)

lemma bytes_only_seq_Cons [simp]:
  assumes "bytes_only f" and "bytes_only (seq fs)"
  shows "bytes_only (seq (f # fs))"
  unfolding bytes_only_def
proof (intro allI impI)
  fix s s' assume run: "seq (f # fs) s = Inr s'"
  then obtain t where t: "f s = Inr t" and rest: "seq fs t = Inr s'"
    by (auto split: sum.splits)
  from assms(1) t obtain bs where "appended s t bs []"
    by (auto simp: bytes_only_def)
  moreover from assms(2) rest obtain cs where "appended t s' cs []"
    by (auto simp: bytes_only_def)
  ultimately have "appended s s' (bs @ cs) []"
    by (simp add: appended_def)
  then show "\<exists>bs. appended s s' bs []" ..
qed

lemma bytes_only_getReg [simp]: "\<forall>r. bytes_only (k r) \<Longrightarrow> bytes_only (getReg Op k)"
  by (simp add: getReg_def split: MCOperand.split)

lemma bytes_only_getImm [simp]: "\<forall>i. bytes_only (k i) \<Longrightarrow> bytes_only (getImm Op k)"
  by (simp add: getImm_def split: MCOperand.split)

lemma bytes_only_getExpr [simp]: "\<forall>e. bytes_only (k e) \<Longrightarrow> bytes_only (getExpr Op k)"
  by (simp add: getExpr_def split: MCOperand.split)

lemma bytes_only_cases_1:
  "bytes_only (case_ADC8ai name n MI)"
  "bytes_only (case_ADC8ao name n MI)"
  "bytes_only (case_ADC8ap name n MI)"
  "bytes_only (case_ADC8ar name n MI)"
  "bytes_only (case_ADD16SP name n MI)"
  "bytes_only (case_ADD16aa name n MI)"
  "bytes_only (case_ADD16ao name n MI)"
  "bytes_only (case_ADD8ai name n MI)"
  "bytes_only (case_ADD8ao name n MI)"
  "bytes_only (case_ADD8ap name n MI)"
  "bytes_only (case_ADD8ar name n MI)"
  "bytes_only (case_AND8ai name n MI)"
  "bytes_only (case_AND8ao name n MI)"
  "bytes_only (case_AND8ap name n MI)"
  "bytes_only (case_AND8ar name n MI)"
  "bytes_only (case_BIT8bg name n MI)"
  "bytes_only (case_BIT8bo name n MI)"
  "bytes_only (case_BIT8bp name n MI)"
  "bytes_only (case_CCF name n MI)"
  "bytes_only (case_CP8ai name n MI)"
  "bytes_only (case_CP8ao name n MI)"
  "bytes_only (case_CP8ap name n MI)"
  "bytes_only (case_CP8ar name n MI)"
  "bytes_only (case_CPD16 name n MI)"
  "bytes_only (case_CPDR16 name n MI)"
  unfolding
    case_ADC8ai_def case_ADC8ao_def case_ADC8ap_def case_ADC8ar_def case_ADD16SP_def
    case_ADD16aa_def case_ADD16ao_def case_ADD8ai_def case_ADD8ao_def case_ADD8ap_def
    case_ADD8ar_def case_AND8ai_def case_AND8ao_def case_AND8ap_def case_AND8ar_def
    case_BIT8bg_def case_BIT8bo_def case_BIT8bp_def case_CCF_def case_CP8ai_def
    case_CP8ao_def case_CP8ap_def case_CP8ar_def case_CPD16_def case_CPDR16_def
  by (simp_all split: Register.split)

lemma bytes_only_cases_2:
  "bytes_only (case_CPI16 name n MI)"
  "bytes_only (case_CPIR16 name n MI)"
  "bytes_only (case_CPL name n MI)"
  "bytes_only (case_DEC16SP name n MI)"
  "bytes_only (case_DEC16r name n MI)"
  "bytes_only (case_DEC8o name n MI)"
  "bytes_only (case_DEC8p name n MI)"
  "bytes_only (case_DEC8r name n MI)"
  "bytes_only (case_DI name n MI)"
  "bytes_only (case_EI name n MI)"
  "bytes_only (case_EX16DE name n MI)"
  "bytes_only (case_EX16SP name n MI)"
  "bytes_only (case_EXAF name n MI)"
  "bytes_only (case_EXX name n MI)"
  "bytes_only (case_INC16SP name n MI)"
  "bytes_only (case_INC16r name n MI)"
  "bytes_only (case_INC8o name n MI)"
  "bytes_only (case_INC8p name n MI)"
  "bytes_only (case_INC8r name n MI)"
  "bytes_only (case_IND16 name n MI)"
  "bytes_only (case_INDR16 name n MI)"
  "bytes_only (case_INI16 name n MI)"
  "bytes_only (case_INIR16 name n MI)"
  "bytes_only (case_JP16r name n MI)"
  "bytes_only (case_LD16SP name n MI)"
  unfolding
    case_CPI16_def case_CPIR16_def case_CPL_def case_DEC16SP_def case_DEC16r_def
    case_DEC8o_def case_DEC8p_def case_DEC8r_def case_DI_def case_EI_def
    case_EX16DE_def case_EX16SP_def case_EXAF_def case_EXX_def case_INC16SP_def
    case_INC16r_def case_INC8o_def case_INC8p_def case_INC8r_def case_IND16_def
    case_INDR16_def case_INI16_def case_INIR16_def case_JP16r_def case_LD16SP_def
  by (simp_all split: Register.split)

lemma bytes_only_cases_3:
  "bytes_only (case_LD8gg name n MI)"
  "bytes_only (case_LD8go name n MI)"
  "bytes_only (case_LD8gp name n MI)"
  "bytes_only (case_LD8og name n MI)"
  "bytes_only (case_LD8oi name n MI)"
  "bytes_only (case_LD8pg name n MI)"
  "bytes_only (case_LD8ri name n MI)"
  "bytes_only (case_LD8pi name n MI)"
  "bytes_only (case_LDD16 name n MI)"
  "bytes_only (case_LDDR16 name n MI)"
  "bytes_only (case_LDI16 name n MI)"
  "bytes_only (case_LDIR16 name n MI)"
  "bytes_only (case_LEA16ro name n MI)"
  "bytes_only (case_NEG name n MI)"
  "bytes_only (case_NOP name n MI)"
  "bytes_only (case_OR8ai name n MI)"
  "bytes_only (case_OR8ao name n MI)"
  "bytes_only (case_OR8ap name n MI)"
  "bytes_only (case_OR8ar name n MI)"
  "bytes_only (case_OUTD16 name n MI)"
  "bytes_only (case_OUTDR16 name n MI)"
  "bytes_only (case_OUTI16 name n MI)"
  "bytes_only (case_OUTIR16 name n MI)"
  "bytes_only (case_POP16AF name n MI)"
  "bytes_only (case_POP16r name n MI)"
  unfolding
    case_LD8gg_def case_LD8go_def case_LD8gp_def case_LD8og_def case_LD8oi_def
    case_LD8pg_def case_LD8ri_def case_LD8pi_def case_LDD16_def case_LDDR16_def
    case_LDI16_def case_LDIR16_def case_LEA16ro_def case_NEG_def case_NOP_def
    case_OR8ai_def case_OR8ao_def case_OR8ap_def case_OR8ar_def case_OUTD16_def
    case_OUTDR16_def case_OUTI16_def case_OUTIR16_def case_POP16AF_def case_POP16r_def
  by (simp_all split: Register.split)

lemma bytes_only_cases_4:
  "bytes_only (case_PUSH16AF name n MI)"
  "bytes_only (case_PUSH16r name n MI)"
  "bytes_only (case_RES8bg name n MI)"
  "bytes_only (case_RES8bo name n MI)"
  "bytes_only (case_RES8bp name n MI)"
  "bytes_only (case_RET16 name n MI)"
  "bytes_only (case_RET16CC name n MI)"
  "bytes_only (case_RETI16 name n MI)"
  "bytes_only (case_RETN16 name n MI)"
  "bytes_only (case_RL8o name n MI)"
  "bytes_only (case_RL8p name n MI)"
  "bytes_only (case_RL8r name n MI)"
  "bytes_only (case_RLC8o name n MI)"
  "bytes_only (case_RLC8p name n MI)"
  "bytes_only (case_RLC8r name n MI)"
  "bytes_only (case_RR8o name n MI)"
  "bytes_only (case_RR8p name n MI)"
  "bytes_only (case_RR8r name n MI)"
  "bytes_only (case_RRC8o name n MI)"
  "bytes_only (case_RRC8p name n MI)"
  "bytes_only (case_RRC8r name n MI)"
  "bytes_only (case_SBC16SP name n MI)"
  "bytes_only (case_SBC16aa name n MI)"
  "bytes_only (case_SBC16ao name n MI)"
  "bytes_only (case_SBC8ai name n MI)"
  unfolding
    case_PUSH16AF_def case_PUSH16r_def case_RES8bg_def case_RES8bo_def case_RES8bp_def
    case_RET16_def case_RET16CC_def case_RETI16_def case_RETN16_def case_RL8o_def
    case_RL8p_def case_RL8r_def case_RLC8o_def case_RLC8p_def case_RLC8r_def
    case_RR8o_def case_RR8p_def case_RR8r_def case_RRC8o_def case_RRC8p_def
    case_RRC8r_def case_SBC16SP_def case_SBC16aa_def case_SBC16ao_def case_SBC8ai_def
  by (simp_all split: Register.split)

lemma bytes_only_cases_5:
  "bytes_only (case_SBC8ao name n MI)"
  "bytes_only (case_SBC8ap name n MI)"
  "bytes_only (case_SBC8ar name n MI)"
  "bytes_only (case_SCF name n MI)"
  "bytes_only (case_SET8bg name n MI)"
  "bytes_only (case_SET8bo name n MI)"
  "bytes_only (case_SET8bp name n MI)"
  "bytes_only (case_SLA8o name n MI)"
  "bytes_only (case_SLA8p name n MI)"
  "bytes_only (case_SLA8r name n MI)"
  "bytes_only (case_SRA8o name n MI)"
  "bytes_only (case_SRA8p name n MI)"
  "bytes_only (case_SRA8r name n MI)"
  "bytes_only (case_SRL8o name n MI)"
  "bytes_only (case_SRL8p name n MI)"
  "bytes_only (case_SRL8r name n MI)"
  "bytes_only (case_SUB8ai name n MI)"
  "bytes_only (case_SUB8ao name n MI)"
  "bytes_only (case_SUB8ap name n MI)"
  "bytes_only (case_SUB8ar name n MI)"
  "bytes_only (case_XOR8ai name n MI)"
  "bytes_only (case_XOR8ao name n MI)"
  "bytes_only (case_XOR8ap name n MI)"
  "bytes_only (case_XOR8ar name n MI)"
  "bytes_only (case_ADC16SP name n MI)"
  unfolding
    case_SBC8ao_def case_SBC8ap_def case_SBC8ar_def case_SCF_def case_SET8bg_def
    case_SET8bo_def case_SET8bp_def case_SLA8o_def case_SLA8p_def case_SLA8r_def
    case_SRA8o_def case_SRA8p_def case_SRA8r_def case_SRL8o_def case_SRL8p_def
    case_SRL8r_def case_SUB8ai_def case_SUB8ao_def case_SUB8ap_def case_SUB8ar_def
    case_XOR8ai_def case_XOR8ao_def case_XOR8ap_def case_XOR8ar_def case_ADC16SP_def
  by (simp_all split: Register.split)

lemmas bytes_only_cases =
  bytes_only_cases_1 bytes_only_cases_2 bytes_only_cases_3 bytes_only_cases_4 bytes_only_cases_5

lemma fixup_last_bytes_only: "bytes_only f \<Longrightarrow> fixup_last short loc f"
  by (simp add: bytes_only_def fixup_last_def)

lemma fixup_last_seq_one: "fixup_last short loc f \<Longrightarrow> fixup_last short loc (seq [f])"
  by (auto simp add: fixup_last_def split: sum.splits)

lemma fixup_last_seq_Cons:
  assumes "bytes_only f" and "fixup_last short loc (seq (g # fs))"
  shows "fixup_last short loc (seq (f # g # fs))"
  unfolding fixup_last_def
proof (intro allI impI)
  fix s s' assume run: "seq (f # g # fs) s = Inr s'"
  then obtain t where t: "f s = Inr t" and rest: "seq (g # fs) t = Inr s'"
    by (auto split: sum.splits)
  from assms(1) t obtain bs where bs: "appended s t bs []"
    by (auto simp: bytes_only_def)
  from assms(2) rest consider
      cs where "appended t s' cs []"
    | pre e where "appended t s' (pre @ [0, 0]) [MCFixup_create (CurByte t + length pre) e fixup_16 loc]"
    | pre e where "short"
        and "appended t s' (pre @ [0]) [MCFixup_create (CurByte t + length pre) e fixup_8_pcrel loc]"
    unfolding fixup_last_def by blast
  then show "(\<exists>bs. appended s s' bs []) \<or>
        (\<exists>pre e. appended s s' (pre @ [0, 0])
                    [MCFixup_create (CurByte s + length pre) e fixup_16 loc]) \<or>
        (short \<and> (\<exists>pre e. appended s s' (pre @ [0])
                     [MCFixup_create (CurByte s + length pre) e fixup_8_pcrel loc]))"
  proof cases
    case 1
    with bs have "appended s s' (bs @ cs) []"
      by (simp add: appended_def)
    then show ?thesis by blast
  next
    case 2
    with bs have "appended s s' ((bs @ pre) @ [0, 0])
        [MCFixup_create (CurByte s + length (bs @ pre)) e fixup_16 loc]"
      by (simp add: appended_def add.assoc)
    then show ?thesis by blast
  next
    case 3
    with bs have "appended s s' ((bs @ pre) @ [0])
        [MCFixup_create (CurByte s + length (bs @ pre)) e fixup_8_pcrel loc]"
      by (simp add: appended_def add.assoc)
    with 3 show ?thesis by blast
  qed
qed

lemma fixup_last_block16:
  "fixup_last short loc
     (seq [getExpr Op (\<lambda>e. Fixups_push_back (\<lambda>CurByte. MCFixup_create CurByte e fixup_16 loc)),
           emitByte 0x00, emitByte 0x00])"
proof (cases Op)
  case (Expr e)
  show ?thesis
    unfolding fixup_last_def
  proof (intro allI impI)
    fix s s'
    assume "seq [getExpr Op (\<lambda>e. Fixups_push_back (\<lambda>CurByte. MCFixup_create CurByte e fixup_16 loc)),
                 emitByte 0x00, emitByte 0x00] s = Inr s'"
    with Expr have "appended s s' ([] @ [0, 0])
        [MCFixup_create (CurByte s + length ([] :: 8 word list)) e fixup_16 loc]"
      by (auto simp add: appended_def emitByte_def Fixups_push_back_def)
    then show "(\<exists>bs. appended s s' bs []) \<or>
        (\<exists>pre e. appended s s' (pre @ [0, 0])
                    [MCFixup_create (CurByte s + length pre) e fixup_16 loc]) \<or>
        (short \<and> (\<exists>pre e. appended s s' (pre @ [0])
                     [MCFixup_create (CurByte s + length pre) e fixup_8_pcrel loc]))"
      by blast
  qed
qed (simp_all add: fixup_last_def getExpr_def report_fatal_error_def)

lemma fixup_last_block8:
  assumes short
  shows "fixup_last short loc
     (seq [getExpr Op (\<lambda>e. Fixups_push_back (\<lambda>CurByte. MCFixup_create CurByte e fixup_8_pcrel loc)),
           emitByte 0x00])"
proof (cases Op)
  case (Expr e)
  show ?thesis
    unfolding fixup_last_def
  proof (intro allI impI)
    fix s s'
    assume "seq [getExpr Op (\<lambda>e. Fixups_push_back (\<lambda>CurByte. MCFixup_create CurByte e fixup_8_pcrel loc)),
                 emitByte 0x00] s = Inr s'"
    with Expr have "appended s s' ([] @ [0])
        [MCFixup_create (CurByte s + length ([] :: 8 word list)) e fixup_8_pcrel loc]"
      by (auto simp add: appended_def emitByte_def Fixups_push_back_def)
    with assms show "(\<exists>bs. appended s s' bs []) \<or>
        (\<exists>pre e. appended s s' (pre @ [0, 0])
                    [MCFixup_create (CurByte s + length pre) e fixup_16 loc]) \<or>
        (short \<and> (\<exists>pre e. appended s s' (pre @ [0])
                     [MCFixup_create (CurByte s + length pre) e fixup_8_pcrel loc]))"
      by blast
  qed
qed (simp_all add: fixup_last_def getExpr_def report_fatal_error_def)

lemmas fixup_last_rules =
  fixup_last_block16 fixup_last_block8 fixup_last_seq_Cons fixup_last_seq_one
  fixup_last_bytes_only

lemma fixup_last_cases:
  "fixup_last short (getLoc MI) (case_CALL16 name n MI)"
  "fixup_last short (getLoc MI) (case_CALL16CC name n MI)"
  "fixup_last short (getLoc MI) (case_LD16am name n MI)"
  "fixup_last short (getLoc MI) (case_LD16ma name n MI)"
  "fixup_last short (getLoc MI) (case_LD16mo name n MI)"
  "fixup_last short (getLoc MI) (case_LD16om name n MI)"
  "fixup_last short (getLoc MI) (case_LD16ri name n MI)"
  "fixup_last short (getLoc MI) (case_LD8am name n MI)"
  "fixup_last short (getLoc MI) (case_LD8ma name n MI)"
  unfolding case_CALL16_def case_CALL16CC_def case_LD16am_def case_LD16ma_def case_LD16mo_def
    case_LD16om_def case_LD16ri_def case_LD8am_def case_LD8ma_def
  by (simp_all add: fixup_last_rules split: Register.split)

lemma fixup_last_encodeReal: "fixup_last short (getLoc MI) (encodeReal name n MI)"
  unfolding encodeReal_def
  by (cases "getOpcode MI")
     (simp_all add: bytes_only_cases fixup_last_cases fixup_last_bytes_only)

lemma fixup_last_JQ:
  "(EMIT_JR_INSTEAD_OF_JP build \<longrightarrow> short) \<Longrightarrow>
   fixup_last short (getLoc MI) (case_JQ build name n MI)"
  unfolding case_JQ_def by (simp add: fixup_last_rules)

lemma fixup_last_JQCC:
  "(EMIT_JRCC_INSTEAD_OF_JPCC build \<longrightarrow> short) \<Longrightarrow>
   fixup_last short (getLoc MI) (case_JQCC build name n MI)"
  unfolding case_JQCC_def by (simp add: fixup_last_rules)

lemma fixup_last_encodePseudo:
  "short = (EMIT_JR_INSTEAD_OF_JP build \<or> EMIT_JRCC_INSTEAD_OF_JPCC build) \<Longrightarrow>
   fixup_last short (getLoc MI) (encodePseudo build name n MI)"
  unfolding encodePseudo_def
  by (cases "getOpcode MI") (simp_all add: fixup_last_JQ fixup_last_JQCC fixup_last_bytes_only)

lemma encodeInstruction_appends:
  assumes "encodeInstruction build MCII MI s = Inr s'"
  shows "(\<exists>bs. OS s' = OS s @ bs \<and> CurByte s' = length bs \<and> Fixups s' = Fixups s) \<or>
         (\<exists>pre e. OS s' = OS s @ pre @ [0, 0] \<and> CurByte s' = length pre + 2 \<and>
                  Fixups s' = Fixups s @ [MCFixup_create (length pre) e fixup_16 (getLoc MI)]) \<or>
         ((EMIT_JR_INSTEAD_OF_JP build \<or> EMIT_JRCC_INSTEAD_OF_JPCC build) \<and>
          (\<exists>pre e. OS s' = OS s @ pre @ [0] \<and> CurByte s' = length pre + 1 \<and>
                   Fixups s' = Fixups s @ [MCFixup_create (length pre) e fixup_8_pcrel (getLoc MI)]))"
proof -
  define short where "short = (EMIT_JR_INSTEAD_OF_JP build \<or> EMIT_JRCC_INSTEAD_OF_JPCC build)"
  define Desc where "Desc = get MCII (getOpcode MI)"
  define body where "body =
    (if isPseudo Desc
     then encodePseudo build (getName MCII (getOpcode MI)) (NumOperands Desc) MI
     else encodeReal (getName MCII (getOpcode MI)) (NumOperands Desc) MI)"
  have "fixup_last short (getLoc MI) body"
    unfolding body_def using fixup_last_encodePseudo [OF short_def] fixup_last_encodeReal
    by simp
  moreover from assms have "body (s\<lparr>CurByte := 0\<rparr>) = Inr s'"
    by (simp add: encodeInstruction_def Let_def body_def Desc_def skip_def report_fatal_error_def
             split: if_splits sum.splits)
  ultimately show ?thesis
    unfolding fixup_last_def appended_def short_def by fastforce
qed


section \<open>The pseudo jump \<^verbatim>\<open>JQ\<close>\<close>

text \<open>
  C1. An instruction with opcode \<open>JQ\<close> whose single operand is an expression, in the build
  without \<^verbatim>\<open>EMIT_JR_INSTEAD_OF_JP\<close> (the long form): the encoder appends exactly the bytes
  \<open>C3 00 00\<close> and exactly one fixup, of kind \<open>fixup_16\<close>, at offset 1, for that expression.
  The descriptor of \<open>JQ\<close> is marked pseudo with one operand, and not in the EZ80 mode.
\<close>

theorem JQ_long_form:
  assumes "getOpcode MI = JQ" and "getOperands MI = [Expr e]"
    and "isPseudo (get MCII JQ)" and "NumOperands (get MCII JQ) = 1"
    and "EZ80Mode build \<noteq> TSFlags (get MCII JQ) AND ModeMask build"
    and "\<not> EMIT_JR_INSTEAD_OF_JP build"
  shows "encodeInstruction build MCII MI s =
           Inr \<lparr>OS = OS s @ [0xc3, 0x00, 0x00],
                Fixups = Fixups s @ [\<lparr>Offset = 1, Value = e, Kind = fixup_16, Loc = getLoc MI\<rparr>],
                CurByte = 3\<rparr>"
  using assms
  by (simp add: encodeInstruction_def encodePseudo_def case_JQ_def emit_defs)

theorem JQ_long_form_witness:
  "encodeInstruction
     \<lparr>EZ80Mode = 3, ModeMask = 3, EMIT_JR_INSTEAD_OF_JP = False, EMIT_JRCC_INSTEAD_OF_JPCC = False\<rparr>
     \<lparr>get = (\<lambda>_. \<lparr>NumOperands = 1, TSFlags = 0, isPseudo = True\<rparr>), getName = (\<lambda>_. ''JQ'')\<rparr>
     \<lparr>getOpcode = JQ, getOperands = [Expr (MCExpr SymbolRef 7)], getLoc = 0\<rparr>
     \<lparr>OS = [0x00], Fixups = [], CurByte = 0\<rparr> =
   Inr \<lparr>OS = [0x00, 0xc3, 0x00, 0x00],
        Fixups = [\<lparr>Offset = 1, Value = MCExpr SymbolRef 7, Kind = fixup_16, Loc = 0\<rparr>],
        CurByte = 3\<rparr>"
  using JQ_long_form [of "\<lparr>getOpcode = JQ, getOperands = [Expr (MCExpr SymbolRef 7)], getLoc = 0\<rparr>"
      "MCExpr SymbolRef 7"
      "\<lparr>get = (\<lambda>_. \<lparr>NumOperands = 1, TSFlags = 0, isPseudo = True\<rparr>), getName = (\<lambda>_. ''JQ'')\<rparr>"
      "\<lparr>EZ80Mode = 3, ModeMask = 3, EMIT_JR_INSTEAD_OF_JP = False, EMIT_JRCC_INSTEAD_OF_JPCC = False\<rparr>"
      "\<lparr>OS = [0x00], Fixups = [], CurByte = 0\<rparr>"]
  by simp

section \<open>An index half as the source of \<^verbatim>\<open>ADD A, r\<close>\<close>

text \<open>
  C3. \<open>ADD8ar\<close> with the single register operand \<open>IXH\<close>: the encoder appends exactly the six
  bytes \<open>E5 DD E5 E1 84 E1\<close> (PUSH HL; PUSH IX; POP HL; ADD A,H; POP HL) and no fixup. The
  expansion of this read-only operation ends with the single \<open>E1\<close> (POP HL).
\<close>

theorem ADD8ar_IXH:
  assumes "getOpcode MI = ADD8ar" and "getOperands MI = [Reg IXH]"
    and "\<not> isPseudo (get MCII ADD8ar)" and "NumOperands (get MCII ADD8ar) = 1"
    and "EZ80Mode build \<noteq> TSFlags (get MCII ADD8ar) AND ModeMask build"
  shows "encodeInstruction build MCII MI s =
           Inr \<lparr>OS = OS s @ [0xe5, 0xdd, 0xe5, 0xe1, 0x84, 0xe1], Fixups = Fixups s, CurByte = 6\<rparr>"
  using assms
  by (simp add: encodeInstruction_def encodeReal_def case_ADD8ar_def emit_defs)

theorem ADD8ar_IXH_witness:
  "encodeInstruction
     \<lparr>EZ80Mode = 3, ModeMask = 3, EMIT_JR_INSTEAD_OF_JP = False, EMIT_JRCC_INSTEAD_OF_JPCC = False\<rparr>
     \<lparr>get = (\<lambda>_. \<lparr>NumOperands = 1, TSFlags = 2, isPseudo = False\<rparr>), getName = (\<lambda>_. ''ADD8ar'')\<rparr>
     \<lparr>getOpcode = ADD8ar, getOperands = [Reg IXH], getLoc = 0\<rparr>
     \<lparr>OS = [], Fixups = [], CurByte = 0\<rparr> =
   Inr \<lparr>OS = [0xe5, 0xdd, 0xe5, 0xe1, 0x84, 0xe1], Fixups = [], CurByte = 6\<rparr>"
  using ADD8ar_IXH [of "\<lparr>getOpcode = ADD8ar, getOperands = [Reg IXH], getLoc = 0\<rparr>"
      "\<lparr>get = (\<lambda>_. \<lparr>NumOperands = 1, TSFlags = 2, isPseudo = False\<rparr>), getName = (\<lambda>_. ''ADD8ar'')\<rparr>"
      "\<lparr>EZ80Mode = 3, ModeMask = 3, EMIT_JR_INSTEAD_OF_JP = False, EMIT_JRCC_INSTEAD_OF_JPCC = False\<rparr>"
      "\<lparr>OS = [], Fixups = [], CurByte = 0\<rparr>"]
  by simp

section \<open>Forced relocations\<close>

text \<open>
  C4. \<open>shouldForceRelocation\<close> is true for a fixup exactly when its kind is one of
  \<open>fixup_8_dis\<close>, \<open>fixup_8_pcrel\<close>, \<open>fixup_16\<close>; for every other kind, the generic data
  kinds among them, it is false.
\<close>

theorem shouldForceRelocation_iff:
  "shouldForceRelocation Fixup = (Kind Fixup = fixup_8_dis \<or> Kind Fixup = fixup_8_pcrel \<or> Kind Fixup = fixup_16)"
  by (simp add: shouldForceRelocation_def split: MCFixupKind.split)

section \<open>Relocation types\<close>

text \<open>
  C5. \<open>getRelocType\<close> gives \<open>FK_Data_1\<close>, \<open>FK_Data_2\<close>, \<open>FK_Data_4\<close> the relocation codes of
  \<open>fixup_8\<close>, \<open>fixup_16\<close>, \<open>fixup_32\<close> (\<open>R_Z80_8\<close>, \<open>R_Z80_16\<close>, \<open>R_Z80_32\<close>); it gives each of
  the thirteen target kinds a code; its assertion of \<open>IsPCRel\<close> is that of the kind
  \<open>fixup_8_pcrel\<close> and of no other; and every other kind is the fatal error.
\<close>

theorem getRelocType_table:
  "getRelocType (Fixup\<lparr>Kind := FK_Data_1\<rparr>) pc = Inr R_Z80_8
   \<and> getRelocType (Fixup\<lparr>Kind := fixup_8\<rparr>) pc = Inr R_Z80_8
   \<and> getRelocType (Fixup\<lparr>Kind := FK_Data_2\<rparr>) pc = Inr R_Z80_16
   \<and> getRelocType (Fixup\<lparr>Kind := fixup_16\<rparr>) pc = Inr R_Z80_16
   \<and> getRelocType (Fixup\<lparr>Kind := FK_Data_4\<rparr>) pc = Inr R_Z80_32
   \<and> getRelocType (Fixup\<lparr>Kind := fixup_32\<rparr>) pc = Inr R_Z80_32
   \<and> getRelocType (Fixup\<lparr>Kind := fixup_8_dis\<rparr>) pc = Inr R_Z80_8_DIS
   \<and> getRelocType (Fixup\<lparr>Kind := fixup_8_pcrel\<rparr>) True = Inr R_Z80_8_PCREL
   \<and> getRelocType (Fixup\<lparr>Kind := fixup_24\<rparr>) pc = Inr R_Z80_24
   \<and> getRelocType (Fixup\<lparr>Kind := fixup_byte0\<rparr>) pc = Inr R_Z80_BYTE0
   \<and> getRelocType (Fixup\<lparr>Kind := fixup_byte1\<rparr>) pc = Inr R_Z80_BYTE1
   \<and> getRelocType (Fixup\<lparr>Kind := fixup_byte2\<rparr>) pc = Inr R_Z80_BYTE2
   \<and> getRelocType (Fixup\<lparr>Kind := fixup_byte3\<rparr>) pc = Inr R_Z80_BYTE3
   \<and> getRelocType (Fixup\<lparr>Kind := fixup_word0\<rparr>) pc = Inr R_Z80_WORD0
   \<and> getRelocType (Fixup\<lparr>Kind := fixup_word1\<rparr>) pc = Inr R_Z80_WORD1
   \<and> getRelocType (Fixup\<lparr>Kind := fixup_16_be\<rparr>) pc = Inr R_Z80_16_BE
   \<and> (getRelocType Fixup pc = Inl (AssertionFailed ''IsPCRel'')) = (Kind Fixup = fixup_8_pcrel \<and> \<not> pc)
   \<and> getRelocType (Fixup\<lparr>Kind := FK_Generic n\<rparr>) pc = Inl (InvalidFixupKind (dyn_cast_MCSymbolRefExpr (Value Fixup)))
   \<and> getRelocType (Fixup\<lparr>Kind := FK_Beyond n\<rparr>) pc = Inl (InvalidFixupKind (dyn_cast_MCSymbolRefExpr (Value Fixup)))"
  by (cases "Kind Fixup") (simp_all add: getRelocType_def Let_def)

section \<open>Opcodes without an encoding\<close>

text \<open>
  C6. For each of the opcodes \<open>ADC16SP\<close>, \<open>ADC16aa\<close>, \<open>ADC16ao\<close>, \<open>JP16\<close>, \<open>JP16CC\<close>, \<open>JR\<close>,
  \<open>JRCC\<close>, \<open>LD16or\<close>, \<open>LD16pr\<close>, \<open>LD16ro\<close>, \<open>LD16rp\<close> the encoder fails with the error
  \<^verbatim>\<open>Not implemented.\<close> for the mnemonic of the opcode, and it has then written no byte and
  no fixup. The descriptor of the opcode is a real instruction, not in the EZ80 mode.
\<close>

theorem not_implemented:
  assumes "getOpcode MI \<in> {ADC16SP, ADC16aa, ADC16ao, JP16, JP16CC, JR, JRCC,
                           LD16or, LD16pr, LD16ro, LD16rp}"
    and "\<not> isPseudo (get MCII (getOpcode MI))"
    and "EZ80Mode build \<noteq> TSFlags (get MCII (getOpcode MI)) AND ModeMask build"
  shows "\<exists>s'. encodeInstruction build MCII MI s =
                Inl (InstrProblem (getName MCII (getOpcode MI)) ''Not implemented.'', s')
              \<and> OS s' = OS s \<and> Fixups s' = Fixups s"
  using assms
  by (auto simp add: encodeInstruction_def encodeReal_def case_ADC16SP_def emit_defs)

theorem not_implemented_witness:
  "\<exists>s'. encodeInstruction
     \<lparr>EZ80Mode = 3, ModeMask = 3, EMIT_JR_INSTEAD_OF_JP = False, EMIT_JRCC_INSTEAD_OF_JPCC = False\<rparr>
     \<lparr>get = (\<lambda>_. \<lparr>NumOperands = 1, TSFlags = 2, isPseudo = False\<rparr>), getName = (\<lambda>_. ''JR'')\<rparr>
     \<lparr>getOpcode = JR, getOperands = [Imm 5], getLoc = 0\<rparr>
     \<lparr>OS = [0x12], Fixups = [], CurByte = 0\<rparr> = Inl (InstrProblem ''JR'' ''Not implemented.'', s')
     \<and> OS s' = [0x12] \<and> Fixups s' = []"
  using not_implemented [of "\<lparr>getOpcode = JR, getOperands = [Imm 5], getLoc = 0\<rparr>"
      "\<lparr>get = (\<lambda>_. \<lparr>NumOperands = 1, TSFlags = 2, isPseudo = False\<rparr>), getName = (\<lambda>_. ''JR'')\<rparr>"
      "\<lparr>EZ80Mode = 3, ModeMask = 3, EMIT_JR_INSTEAD_OF_JP = False, EMIT_JRCC_INSTEAD_OF_JPCC = False\<rparr>"
      "\<lparr>OS = [0x12], Fixups = [], CurByte = 0\<rparr>"]
  by simp

section \<open>Fixups and their placeholders\<close>

text \<open>
  C2. For every instruction that the encoder accepts: the bytes \<open>bs\<close> of the instruction
  and its fixups \<open>fs\<close> are appended to the sinks, \<open>CurByte\<close> has counted the bytes, and each
  fixup \<open>f\<close> of the instruction has as its offset the number of bytes \<open>pre\<close> of the
  instruction written before it; after these come exactly \<open>ceil(W/8)\<close> bytes, all zero,
  where \<open>W\<close> is the bit width of the kind of \<open>f\<close> in the catalog \<open>getFixupKindInfo\<close>.
\<close>

theorem fixup_offset_and_placeholder:
  assumes "encodeInstruction build MCII MI s = Inr s'"
  shows "\<exists>bs fs. OS s' = OS s @ bs \<and> CurByte s' = length bs \<and> Fixups s' = Fixups s @ fs \<and>
           (\<forall>f \<in> set fs. \<exists>pre info.
              getFixupKindInfo generic (Kind f) = Inr info \<and>
              bs = pre @ replicate ((TargetSize info + 7) div 8) 0 \<and>
              Offset f = length pre)"
proof -
  have info16: "getFixupKindInfo generic fixup_16 = Inr (Infos ! 3)"
    and info8: "getFixupKindInfo generic fixup_8_pcrel = Inr (Infos ! 2)"
    by (simp_all add: getFixupKindInfo_def target_index_def NumTargetFixupKinds_def)
  have rep16: "replicate ((TargetSize (Infos ! 3) + 7) div 8) 0 = [0, 0 :: 8 word]"
    and rep8: "replicate ((TargetSize (Infos ! 2) + 7) div 8) 0 = [0 :: 8 word]"
    by (simp_all add: Infos_def numeral_2_eq_2)
  from encodeInstruction_appends [OF assms] consider
      bs where "OS s' = OS s @ bs" "CurByte s' = length bs" "Fixups s' = Fixups s"
    | pre e where "OS s' = OS s @ pre @ [0, 0]" "CurByte s' = length pre + 2"
        "Fixups s' = Fixups s @ [MCFixup_create (length pre) e fixup_16 (getLoc MI)]"
    | pre e where "OS s' = OS s @ pre @ [0]" "CurByte s' = length pre + 1"
        "Fixups s' = Fixups s @ [MCFixup_create (length pre) e fixup_8_pcrel (getLoc MI)]"
    by blast
  then show ?thesis
  proof cases
    case 1
    show ?thesis
      by (rule exI [of _ bs], rule exI [of _ "[]"]) (simp add: 1)
  next
    case 2
    let ?f = "MCFixup_create (length pre) e fixup_16 (getLoc MI)"
    have "\<exists>pre' info. getFixupKindInfo generic (Kind ?f) = Inr info \<and>
          pre @ [0, 0] = pre' @ replicate ((TargetSize info + 7) div 8) 0 \<and>
          Offset ?f = length pre'"
      by (rule exI [of _ pre], rule exI [of _ "Infos ! 3"])
         (simp add: info16 rep16 MCFixup_create_def)
    then show ?thesis
      by (intro exI [of _ "pre @ [0, 0]"] exI [of _ "[?f]"]) (simp add: 2)
  next
    case 3
    let ?f = "MCFixup_create (length pre) e fixup_8_pcrel (getLoc MI)"
    have "\<exists>pre' info. getFixupKindInfo generic (Kind ?f) = Inr info \<and>
          pre @ [0] = pre' @ replicate ((TargetSize info + 7) div 8) 0 \<and>
          Offset ?f = length pre'"
      by (rule exI [of _ pre], rule exI [of _ "Infos ! 2"])
         (simp add: info8 rep8 MCFixup_create_def)
    then show ?thesis
      by (intro exI [of _ "pre @ [0]"] exI [of _ "[?f]"]) (simp add: 3)
  qed
qed

theorem fixup_offset_and_placeholder_witness:
  "\<exists>bs fs. [0xcd, 0x00, 0x00] = [] @ bs \<and> (3 :: nat) = length bs \<and>
      [\<lparr>Offset = 1, Value = MCExpr Binary 4, Kind = fixup_16, Loc = 9\<rparr>] = [] @ fs \<and>
      (\<forall>f \<in> set fs. \<exists>pre info.
         getFixupKindInfo (\<lambda>_. \<lparr>Name = [], TargetOffset = 0, TargetSize = 0, Flags = 0\<rparr>) (Kind f) = Inr info \<and>
         bs = pre @ replicate ((TargetSize info + 7) div 8) (0 :: 8 word) \<and>
         Offset f = length pre)"
proof -
  have "encodeInstruction
     \<lparr>EZ80Mode = 3, ModeMask = 3, EMIT_JR_INSTEAD_OF_JP = False, EMIT_JRCC_INSTEAD_OF_JPCC = False\<rparr>
     \<lparr>get = (\<lambda>_. \<lparr>NumOperands = 1, TSFlags = 2, isPseudo = False\<rparr>), getName = (\<lambda>_. ''CALL16'')\<rparr>
     \<lparr>getOpcode = CALL16, getOperands = [Expr (MCExpr Binary 4)], getLoc = 9\<rparr>
     \<lparr>OS = [], Fixups = [], CurByte = 0\<rparr> =
   Inr \<lparr>OS = [0xcd, 0x00, 0x00],
        Fixups = [\<lparr>Offset = 1, Value = MCExpr Binary 4, Kind = fixup_16, Loc = 9\<rparr>],
        CurByte = 3\<rparr>"
    by (simp add: encodeInstruction_def encodeReal_def case_CALL16_def emit_defs)
  from fixup_offset_and_placeholder [OF this] show ?thesis
    by simp
qed

section \<open>The kinds of the fixups\<close>

text \<open>
  C8. For every instruction that the encoder accepts, every fixup that it appends has the
  kind \<open>fixup_16\<close>, or the kind \<open>fixup_8_pcrel\<close> and then the build has one of the short-jump
  switches; so in the default build every fixup has the kind \<open>fixup_16\<close>, and in no build
  has a fixup one of the kinds \<open>fixup_8\<close>, \<open>fixup_8_dis\<close>, \<open>fixup_24\<close>, \<open>fixup_32\<close>,
  \<open>fixup_byte0..3\<close>, \<open>fixup_word0..1\<close>, \<open>fixup_16_be\<close>.
\<close>

theorem fixup_kinds:
  assumes "encodeInstruction build MCII MI s = Inr s'"
  shows "\<exists>fs. Fixups s' = Fixups s @ fs \<and>
           (\<forall>f \<in> set fs.
              (Kind f = fixup_16 \<or>
               Kind f = fixup_8_pcrel \<and>
                 (EMIT_JR_INSTEAD_OF_JP build \<or> EMIT_JRCC_INSTEAD_OF_JPCC build)) \<and>
              Kind f \<notin> {fixup_8, fixup_8_dis, fixup_24, fixup_32, fixup_byte0, fixup_byte1,
                         fixup_byte2, fixup_byte3, fixup_word0, fixup_word1, fixup_16_be})"
proof -
  from encodeInstruction_appends [OF assms] consider
      "Fixups s' = Fixups s"
    | n e where "Fixups s' = Fixups s @ [MCFixup_create n e fixup_16 (getLoc MI)]"
    | n e where "EMIT_JR_INSTEAD_OF_JP build \<or> EMIT_JRCC_INSTEAD_OF_JPCC build"
        "Fixups s' = Fixups s @ [MCFixup_create n e fixup_8_pcrel (getLoc MI)]"
    by blast
  then show ?thesis
  proof cases
    case 1
    then show ?thesis by simp
  next
    case 2
    then show ?thesis by (simp add: MCFixup_create_def)
  next
    case 3
    then show ?thesis by (simp add: MCFixup_create_def)
  qed
qed

theorem fixup_kinds_witness:
  "\<exists>fs. [\<lparr>Offset = 1, Value = MCExpr SymbolRef 2, Kind = fixup_8_pcrel, Loc = 0\<rparr>] = [] @ fs \<and>
      (\<forall>f \<in> set fs.
         (Kind f = fixup_16 \<or> Kind f = fixup_8_pcrel \<and> (True \<or> False)) \<and>
         Kind f \<notin> {fixup_8, fixup_8_dis, fixup_24, fixup_32, fixup_byte0, fixup_byte1,
                    fixup_byte2, fixup_byte3, fixup_word0, fixup_word1, fixup_16_be})"
proof -
  have "encodeInstruction
     \<lparr>EZ80Mode = 3, ModeMask = 3, EMIT_JR_INSTEAD_OF_JP = True, EMIT_JRCC_INSTEAD_OF_JPCC = False\<rparr>
     \<lparr>get = (\<lambda>_. \<lparr>NumOperands = 1, TSFlags = 0, isPseudo = True\<rparr>), getName = (\<lambda>_. ''JQ'')\<rparr>
     \<lparr>getOpcode = JQ, getOperands = [Expr (MCExpr SymbolRef 2)], getLoc = 0\<rparr>
     \<lparr>OS = [], Fixups = [], CurByte = 0\<rparr> =
   Inr \<lparr>OS = [0x18, 0x00],
        Fixups = [\<lparr>Offset = 1, Value = MCExpr SymbolRef 2, Kind = fixup_8_pcrel, Loc = 0\<rparr>],
        CurByte = 2\<rparr>"
    by (simp add: encodeInstruction_def encodePseudo_def case_JQ_def emit_defs)
  from fixup_kinds [OF this] show ?thesis
    by simp
qed

section \<open>Call targets\<close>

text \<open>
  C9. \<open>CALL16CC\<close> whose first operand is an expression fails unless the kind of the
  expression is \<open>SymbolRef\<close>, and \<open>CALL16\<close> accepts every expression as its operand. So
  there is an expression that is not a \<open>SymbolRef\<close> on which \<open>CALL16\<close> succeeds and
  \<open>CALL16CC\<close> fails, whatever the condition code. The descriptor of \<open>CALL16\<close> is a real
  instruction with one operand, not in the EZ80 mode.
\<close>

theorem CALL16CC_wants_SymbolRef:
  assumes "\<not> isPseudo (get MCII CALL16)" and "NumOperands (get MCII CALL16) = 1"
    and "EZ80Mode build \<noteq> TSFlags (get MCII CALL16) AND ModeMask build"
  shows "(getOpcode MI = CALL16CC \<and> Operands MI 0 = Expr e \<and> getKind e \<noteq> SymbolRef
            \<longrightarrow> isl (encodeInstruction build MCII MI s))
       \<and> (\<forall>e'. \<not> isl (encodeInstruction build MCII
                           \<lparr>getOpcode = CALL16, getOperands = [Expr e'], getLoc = loc\<rparr> s))
       \<and> (\<exists>e'. getKind e' \<noteq> SymbolRef
              \<and> \<not> isl (encodeInstruction build MCII
                           \<lparr>getOpcode = CALL16, getOperands = [Expr e'], getLoc = loc\<rparr> s)
              \<and> (\<forall>cc. isl (encodeInstruction build MCII
                           \<lparr>getOpcode = CALL16CC, getOperands = [Expr e', Imm cc], getLoc = loc\<rparr> s)))"
proof -
  have fails: "isl (encodeInstruction build MCII MI' s)"
    if "getOpcode MI' = CALL16CC" "Operands MI' 0 = Expr e'" "getKind e' \<noteq> SymbolRef" for MI' e'
    using that
    by (auto simp add: encodeInstruction_def encodePseudo_def encodeReal_def case_CALL16CC_def
          Let_def skip_def report_fatal_error_def report_fatal_instr_problem_def
          check_num_operands_def emitByte_def getImm_def split: MCOperand.splits)
  have accepts: "\<not> isl (encodeInstruction build MCII
                           \<lparr>getOpcode = CALL16, getOperands = [Expr e'], getLoc = loc\<rparr> s)" for e'
    using assms
    by (simp add: encodeInstruction_def encodeReal_def case_CALL16_def emit_defs)
  have "getKind (MCExpr Binary 0) \<noteq> SymbolRef"
    by simp
  moreover have "isl (encodeInstruction build MCII
      \<lparr>getOpcode = CALL16CC, getOperands = [Expr (MCExpr Binary 0), Imm cc], getLoc = loc\<rparr> s)" for cc
    by (rule fails [where e' = "MCExpr Binary 0"]) (simp_all add: Operands_def)
  ultimately show ?thesis
    using fails [of MI e] accepts by blast
qed

theorem CALL16CC_wants_SymbolRef_witness:
  "isl (encodeInstruction
     \<lparr>EZ80Mode = 3, ModeMask = 3, EMIT_JR_INSTEAD_OF_JP = False, EMIT_JRCC_INSTEAD_OF_JPCC = False\<rparr>
     \<lparr>get = (\<lambda>op. \<lparr>NumOperands = (if op = CALL16 then 1 else 2), TSFlags = 2, isPseudo = False\<rparr>),
      getName = (\<lambda>_. ''CALL'')\<rparr>
     \<lparr>getOpcode = CALL16CC, getOperands = [Expr (MCExpr Unary 1), Imm 3], getLoc = 0\<rparr>
     \<lparr>OS = [], Fixups = [], CurByte = 0\<rparr>)
   \<and> \<not> isl (encodeInstruction
     \<lparr>EZ80Mode = 3, ModeMask = 3, EMIT_JR_INSTEAD_OF_JP = False, EMIT_JRCC_INSTEAD_OF_JPCC = False\<rparr>
     \<lparr>get = (\<lambda>op. \<lparr>NumOperands = (if op = CALL16 then 1 else 2), TSFlags = 2, isPseudo = False\<rparr>),
      getName = (\<lambda>_. ''CALL'')\<rparr>
     \<lparr>getOpcode = CALL16, getOperands = [Expr (MCExpr Unary 1)], getLoc = 0\<rparr>
     \<lparr>OS = [], Fixups = [], CurByte = 0\<rparr>)"
  using CALL16CC_wants_SymbolRef [of
     "\<lparr>get = (\<lambda>op. \<lparr>NumOperands = (if op = CALL16 then 1 else 2), TSFlags = 2, isPseudo = False\<rparr>),
      getName = (\<lambda>_. ''CALL'')\<rparr>"
     "\<lparr>EZ80Mode = 3, ModeMask = 3, EMIT_JR_INSTEAD_OF_JP = False, EMIT_JRCC_INSTEAD_OF_JPCC = False\<rparr>"
     "\<lparr>getOpcode = CALL16CC, getOperands = [Expr (MCExpr Unary 1), Imm 3], getLoc = 0\<rparr>"
     "MCExpr Unary 1" "\<lparr>OS = [], Fixups = [], CurByte = 0\<rparr>" 0]
  by (simp add: Operands_def)

section \<open>16-bit immediates\<close>

lemma mask_ff: "(0xff :: 32 word) = mask 8"
  by (simp add: mask_eq_exp_minus_1)

lemma lo_byte [simp]:
  "(ucast (int_of_uint16 (uint16_t v) AND 0xff) :: 8 word) = ucast v"
  unfolding int_of_uint16_def uint16_t_def mask_ff
  by (rule bit_word_eqI) (auto simp add: bit_simps)

lemma hi_byte [simp]:
  "(ucast (drop_bit 8 (int_of_uint16 (uint16_t v)) AND 0xff) :: 8 word) = ucast (drop_bit 8 v)"
  unfolding int_of_uint16_def uint16_t_def mask_ff
  by (rule bit_word_eqI) (auto simp add: bit_simps)












section \<open>8-bit immediates\<close>


lemma seq_fails_first: "isl (f s) \<Longrightarrow> isl (seq (f # fs) s)"
  by (cases "f s") simp_all

lemma add_bytes_add_bytes: "add_bytes (add_bytes s bs) cs = add_bytes s (bs @ cs)"
  by (simp add: add_bytes_def)

lemma same_skip [simp]: "same skip skip"
proof -
  have "\<forall>s. skip s = Inr (add_bytes s [])"
    by (simp add: skip_def add_bytes_def)
  then show ?thesis
    unfolding same_def by blast
qed

lemma same_fatal [simp]: "same (report_fatal_error er) (report_fatal_error er')"
  by (simp add: same_def report_fatal_error_def)

lemma same_instr_problem [simp]:
  "same (report_fatal_instr_problem opc er) (report_fatal_instr_problem opc' er')"
  by (simp add: report_fatal_instr_problem_def)

lemma same_check [simp]: "same (check_num_operands opc m n) (check_num_operands opc m n)"
  by (simp add: check_num_operands_def)

lemma same_emitByte [simp]: "same (emitByte c) (emitByte c)"
proof -
  have "\<forall>s. emitByte c s = Inr (add_bytes s [c])"
    by (simp add: emitByte_def add_bytes_def)
  then show ?thesis
    unfolding same_def by blast
qed

lemma same_seq_Nil [simp]: "same (seq []) (seq [])"
proof -
  have "\<forall>s. seq [] s = Inr (add_bytes s [])"
    by (simp add: add_bytes_def)
  then show ?thesis
    unfolding same_def by blast
qed

lemma same_seq_Cons [simp]:
  assumes "same f g" and "same (seq fs) (seq gs)"
  shows "same (seq (f # fs)) (seq (g # gs))"
proof -
  consider "\<forall>s. isl (f s) \<and> isl (g s)"
    | bs where "\<forall>s. f s = Inr (add_bytes s bs) \<and> g s = Inr (add_bytes s bs)"
        "\<forall>s. isl (seq fs s) \<and> isl (seq gs s)"
    | bs cs where "\<forall>s. f s = Inr (add_bytes s bs) \<and> g s = Inr (add_bytes s bs)"
        "\<forall>s. seq fs s = Inr (add_bytes s cs) \<and> seq gs s = Inr (add_bytes s cs)"
    using assms unfolding same_def by blast
  then show ?thesis
  proof cases
    case 1
    then have "\<forall>s. isl (seq (f # fs) s) \<and> isl (seq (g # gs) s)"
      by (blast intro: seq_fails_first)
    then show ?thesis
      unfolding same_def by blast
  next
    case 2
    then have "\<forall>s. isl (seq (f # fs) s) \<and> isl (seq (g # gs) s)"
      by simp
    then show ?thesis
      unfolding same_def by blast
  next
    case 3
    then have "\<forall>s. seq (f # fs) s = Inr (add_bytes s (bs @ cs)) \<and>
                   seq (g # gs) s = Inr (add_bytes s (bs @ cs))"
      by (simp add: add_bytes_add_bytes)
    then show ?thesis
      unfolding same_def by blast
  qed
qed

lemma same_getReg [simp]: "\<forall>r. same (k r) (k' r) \<Longrightarrow> same (getReg Op k) (getReg Op k')"
  by (simp add: getReg_def split: MCOperand.split)

lemma same_getImm [simp]: "\<forall>i. same (k i) (k' i) \<Longrightarrow> same (getImm Op k) (getImm Op k')"
  by (simp add: getImm_def split: MCOperand.split)

lemma same_Register [simp]:
  assumes
    "same a1 b1"
    and "same a2 b2"
    and "same a3 b3"
    and "same a4 b4"
    and "same a5 b5"
    and "same a6 b6"
    and "same a7 b7"
    and "same a8 b8"
    and "same a9 b9"
    and "same a10 b10"
    and "same a11 b11"
    and "same a12 b12"
    and "same a13 b13"
    and "same a14 b14"
    and "same a15 b15"
    and "same a16 b16"
    and "same a17 b17"
    and "same a18 b18"
  shows "same
           (case_Register a1 a2 a3 a4 a5 a6 a7 a8 a9 a10 a11 a12 a13 a14 a15 a16 a17 a18 r)
           (case_Register b1 b2 b3 b4 b5 b6 b7 b8 b9 b10 b11 b12 b13 b14 b15 b16 b17 b18 r)"
  using assms by (cases r) simp_all
















end
